theory Spec2Isabelle
  imports Main "HOL-Library.Sublist" "HOL-Library.Monad_Syntax"
begin

chapter \<open>nestjs-trpc: the app-router host, path resolution and the schema generator\<close>

text \<open>
  A shallow embedding of three source files of the repository:
  \<^item> \<^verbatim>\<open>AppRouterHost\<close> (the holder of the merged tRPC router),
  \<^item> \<^verbatim>\<open>lib/utils/path-resolution.util.ts\<close> (\<^verbatim>\<open>findTsConfigFile\<close>,
    \<^verbatim>\<open>resolvePathWithAliases\<close>),
  \<^item> \<^verbatim>\<open>lib/generators/trpc.generator.ts\<close> (\<^verbatim>\<open>TRPCGenerator\<close>, in its two
    revisions: the one that extracts imports with a regular expression over the raw text
    and the one that walks the statements of the parsed file).

  Conventions. A JavaScript string is a \<^typ>\<open>string\<close>, a list of code units below 256
  (texts with other code units are outside the model). A thrown exception is a value
  of \<^typ>\<open>'e + 'a\<close> (\<open>Inl\<close> the error). \<^verbatim>\<open>null\<close> and \<^verbatim>\<open>undefined\<close> are \<open>None\<close>.
  A loop that may run forever is a \<^theory_text>\<open>partial_function (option)\<close>: not returning is
  the value \<open>None\<close>. Mutable objects (the logger, the app-router source file, the disk)
  are threaded through as explicit state.
\<close>

section \<open>Definitions\<close>

subsection \<open>Errors and the logger\<close>

text \<open>
  A JavaScript error object: its \<^verbatim>\<open>name\<close> and its \<^verbatim>\<open>message\<close>. Interpolating an error
  into a template string (\<^verbatim>\<open>`${error}`\<close>) calls \<^verbatim>\<open>Error.prototype.toString\<close>.
\<close>

datatype js_error = JsError (err_name: string) (err_message: string)

definition error_toString :: "js_error \<Rightarrow> string" where
  "error_toString e =
     (if err_message e = [] then err_name e
      else if err_name e = [] then err_message e
      else err_name e @ '': '' @ err_message e)"

text \<open>
  \<^verbatim>\<open>ConsoleLogger\<close>: \<^verbatim>\<open>log(message, context)\<close>, \<^verbatim>\<open>warn(message, context)\<close> and
  \<^verbatim>\<open>warn(message, error)\<close>. The logger only writes; the model keeps what was written,
  in order.
\<close>

datatype log_entry =
    Log string string
  | Warn string string
  | WarnErr string js_error

subsection \<open>AppRouterHost\<close>

text \<open>
  \<^verbatim>\<open>private _appRouter: AnyRouter | undefined\<close>. A router is an object, hence truthy:
  \<^verbatim>\<open>!this._appRouter\<close> holds exactly when the field is \<^verbatim>\<open>undefined\<close>.
\<close>

record 'r AppRouterHost =
  p_appRouter :: "'r option"

definition new_AppRouterHost :: "'r AppRouterHost" where
  "new_AppRouterHost = \<lparr> p_appRouter = None \<rparr>"

definition set_appRouter :: "'r AppRouterHost \<Rightarrow> 'r \<Rightarrow> 'r AppRouterHost" where
  "set_appRouter h schemaRef = h\<lparr> p_appRouter := Some schemaRef \<rparr>"

definition isRouterReady :: "'r AppRouterHost \<Rightarrow> bool" where
  "isRouterReady h = (p_appRouter h \<noteq> None)"

definition appRouter_not_created :: js_error where
  "appRouter_not_created = JsError ''Error''
     (''TRPC appRouter has not yet been created. '' @
      ''Make sure to call the \"AppRouterHost#appRouter\" getter when the application is already initialized (after the \"onModuleInit\" hook triggered by either \"app.listen()\" or \"app.init()\" method). '' @
      ''Alternatively, use AppRouterHost#isRouterReady() to check if the router is available before accessing it.'')"

definition get_appRouter :: "'r AppRouterHost \<Rightarrow> js_error + 'r" where
  "get_appRouter h =
     (case p_appRouter h of
        None \<Rightarrow> Inl appRouter_not_created
      | Some r \<Rightarrow> Inr r)"

definition getRouterSafe :: "'r AppRouterHost \<Rightarrow> 'r option" where
  "getRouterSafe h = p_appRouter h"

text \<open>The host after a sequence of assignments through the setter, oldest first.\<close>

definition host_after :: "'r list \<Rightarrow> 'r AppRouterHost" where
  "host_after rs = foldl set_appRouter new_AppRouterHost rs"

subsection \<open>Node's \<^verbatim>\<open>path\<close> module (POSIX)\<close>

text \<open>
  The utilities call \<^verbatim>\<open>path.dirname\<close>, \<^verbatim>\<open>path.parse(...).root\<close>, \<^verbatim>\<open>path.join\<close>,
  \<^verbatim>\<open>path.isAbsolute\<close> and \<^verbatim>\<open>path.resolve\<close>. They belong to the platform, not to the
  repository; the definitions below follow Node's \<^verbatim>\<open>path.posix\<close> implementation
  (\<^verbatim>\<open>lib/path.js\<close>). The Windows variant is not modelled.
\<close>

definition slash :: char where
  "slash = CHR ''/''"

definition isAbsolute :: "string \<Rightarrow> bool" where
  "isAbsolute p = (case p of [] \<Rightarrow> False | c # cs \<Rightarrow> c = slash)"

text \<open>
  The loop of \<^verbatim>\<open>posix.dirname\<close>: \<^verbatim>\<open>for (i = path.length - 1; i >= 1; --i)\<close>, looking
  for the last separator that is followed by a non-separator. The result is \<^verbatim>\<open>end\<close>
  (\<open>None\<close> for \<^verbatim>\<open>-1\<close>).
\<close>

fun dirname_scan :: "string \<Rightarrow> nat \<Rightarrow> bool \<Rightarrow> nat option" where
  "dirname_scan path 0 matchedSlash = None"
| "dirname_scan path (Suc i) matchedSlash =
     (if path ! Suc i = slash then
        (if \<not> matchedSlash then Some (Suc i)
         else dirname_scan path i matchedSlash)
      else dirname_scan path i False)"

definition dirname :: "string \<Rightarrow> string" where
  "dirname path =
     (if path = [] then ''.''
      else
        (let hasRoot = (hd path = slash) in
         case dirname_scan path (length path - 1) True of
           None \<Rightarrow> if hasRoot then ''/'' else ''.''
         | Some e \<Rightarrow> if hasRoot \<and> e = 1 then ''//'' else take e path))"

text \<open>\<^verbatim>\<open>path.parse(p).root\<close>: \<^verbatim>\<open>'/'\<close> for an absolute path, \<^verbatim>\<open>''\<close> otherwise.\<close>

definition parse_root :: "string \<Rightarrow> string" where
  "parse_root p = (if isAbsolute p then ''/'' else [])"

text \<open>Splitting at a separator, as \<^verbatim>\<open>String.prototype.split\<close> does: \<open>n\<close> separators give
  \<open>n + 1\<close> parts.\<close>

fun split_at :: "char \<Rightarrow> string \<Rightarrow> string list" where
  "split_at sep [] = [[]]"
| "split_at sep (c # cs) =
     (if c = sep then [] # split_at sep cs
      else (case split_at sep cs of
              [] \<Rightarrow> [[c]]
            | p # ps \<Rightarrow> (c # p) # ps))"

fun join_with :: "string \<Rightarrow> string list \<Rightarrow> string" where
  "join_with sep [] = []"
| "join_with sep [p] = p"
| "join_with sep (p # q # ps) = p @ sep @ join_with sep (q # ps)"

text \<open>
  \<^verbatim>\<open>normalizeString(path, allowAboveRoot)\<close>, segment by segment: an empty segment and
  \<^verbatim>\<open>.\<close> are dropped; \<^verbatim>\<open>..\<close> removes the segment before it unless there is none or it
  is \<^verbatim>\<open>..\<close> itself, in which case it is kept only when \<^verbatim>\<open>allowAboveRoot\<close>.
\<close>

fun normalize_segments :: "bool \<Rightarrow> string list \<Rightarrow> string list \<Rightarrow> string list" where
  "normalize_segments allowAboveRoot res [] = res"
| "normalize_segments allowAboveRoot res (seg # segs) =
     (if seg = [] \<or> seg = ''.'' then normalize_segments allowAboveRoot res segs
      else if seg = ''..'' then
        (if res \<noteq> [] \<and> last res \<noteq> ''..''
         then normalize_segments allowAboveRoot (butlast res) segs
         else if allowAboveRoot
         then normalize_segments allowAboveRoot (res @ [seg]) segs
         else normalize_segments allowAboveRoot res segs)
      else normalize_segments allowAboveRoot (res @ [seg]) segs)"

definition normalizeString :: "string \<Rightarrow> bool \<Rightarrow> string" where
  "normalizeString path allowAboveRoot =
     join_with ''/'' (normalize_segments allowAboveRoot [] (split_at slash path))"

definition normalize :: "string \<Rightarrow> string" where
  "normalize path =
     (if path = [] then ''.''
      else
        (let isAbs = isAbsolute path;
             trailingSeparator = (last path = slash);
             p = normalizeString path (\<not> isAbs) in
         if p = [] then (if isAbs then ''/'' else if trailingSeparator then ''./'' else ''.'')
         else (if isAbs then ''/'' else []) @ p @ (if trailingSeparator then ''/'' else [])))"

text \<open>\<^verbatim>\<open>path.join(a, b)\<close>: the non-empty arguments joined by \<^verbatim>\<open>/\<close>, normalised.\<close>

definition join :: "string \<Rightarrow> string \<Rightarrow> string" where
  "join a b =
     (let args = filter (\<lambda>s. s \<noteq> []) [a, b] in
      if args = [] then ''.'' else normalize (join_with ''/'' args))"

text \<open>
  \<^verbatim>\<open>path.resolve(a, b)\<close>: the arguments are prepended from the right until the path is
  absolute, the working directory last. \<open>cwd\<close> is \<^verbatim>\<open>process.cwd()\<close>.
\<close>

definition resolve_step :: "string \<Rightarrow> string \<times> bool \<Rightarrow> string \<times> bool" where
  "resolve_step path acc =
     (case acc of (resolvedPath, resolvedAbsolute) \<Rightarrow>
        if resolvedAbsolute \<or> path = [] then acc
        else (path @ ''/'' @ resolvedPath, isAbsolute path))"

definition resolve :: "string \<Rightarrow> string \<Rightarrow> string \<Rightarrow> string" where
  "resolve cwd a b =
     (case resolve_step cwd (resolve_step a (resolve_step b ([], False))) of
        (resolvedPath, resolvedAbsolute) \<Rightarrow>
          (let p = normalizeString resolvedPath (\<not> resolvedAbsolute) in
           if resolvedAbsolute then ''/'' @ p
           else if p \<noteq> [] then p else ''.''))"

subsection \<open>\<^verbatim>\<open>findTsConfigFile\<close>\<close>

text \<open>
  \<^verbatim>\<open>fs.existsSync\<close> is the predicate \<open>existsSync\<close>; it never throws, so the
  \<^verbatim>\<open>catch\<close> around it is never entered. The logger argument is the list of entries
  written so far. The \<^verbatim>\<open>while (currentDir !== root)\<close> loop has no bound in the source.
\<close>

partial_function (option) findTsConfigFile_loop ::
  "(string \<Rightarrow> bool) \<Rightarrow> string \<Rightarrow> string \<Rightarrow> string \<Rightarrow> log_entry list
     \<Rightarrow> (string option \<times> log_entry list) option" where
  "findTsConfigFile_loop existsSync startPath root currentDir lg =
     (if currentDir \<noteq> root then
        (if existsSync (join currentDir ''tsconfig.json'') then
           Some (Some (join currentDir ''tsconfig.json''),
                 lg @ [Log (''Found tsconfig.json at: '' @ join currentDir ''tsconfig.json'')
                           ''Path Resolution''])
         else
           findTsConfigFile_loop existsSync startPath root (dirname currentDir)
             (lg @ [Log (''No tsconfig.json found at: '' @ currentDir @ '', moving up...'')
                        ''Path Resolution'']))
      else
        Some (None,
              lg @ [Warn (''Could not find tsconfig.json in any parent directory of: '' @ startPath)
                         ''Path Resolution'']))"

definition findTsConfigFile ::
  "(string \<Rightarrow> bool) \<Rightarrow> string \<Rightarrow> log_entry list
     \<Rightarrow> (string option \<times> log_entry list) option" where
  "findTsConfigFile existsSync startPath lg =
     (let currentDir = dirname startPath;
          root = parse_root currentDir in
      findTsConfigFile_loop existsSync startPath root currentDir
        (lg @ [Log (''Looking for tsconfig.json starting from: '' @ startPath) ''Path Resolution'',
               Log (''Root directory: '' @ root) ''Path Resolution'']))"

subsection \<open>\<^verbatim>\<open>resolvePathWithAliases\<close>\<close>

text \<open>
  \<^verbatim>\<open>s.replace(/\/\*$/, '/')\<close>: the pattern is tried at every position from the left;
  it matches where \<^verbatim>\<open>/*\<close> is all that is left of the text, and the match is replaced
  by \<^verbatim>\<open>/\<close>.
\<close>

fun replace_trailing_star :: "string \<Rightarrow> string" where
  "replace_trailing_star [] = []"
| "replace_trailing_star (c # cs) =
     (if c # cs = ''/*'' then ''/'' else c # replace_trailing_star cs)"

text \<open>
  \<^verbatim>\<open>pathAliases\<close> is the list \<^verbatim>\<open>Object.entries(pathAliases)\<close>, in enumeration order.
  The \<^verbatim>\<open>for\<close> loop returns from the function at the first entry that matches.
\<close>

type_synonym path_aliases = "(string \<times> string list) list"

definition newline :: string where
  "newline = [CHR 0x0A]"

definition alias_log :: "string \<Rightarrow> string \<Rightarrow> string \<Rightarrow> string \<Rightarrow> string \<Rightarrow> string \<Rightarrow> log_entry" where
  "alias_log filePath alias targetPattern pathSuffix relativePath fullPath =
     Log (''Resolved alias path: '' @ newline @
          ''            - Original: '' @ filePath @ newline @
          ''            - Alias: '' @ alias @ '' -> '' @ targetPattern @ newline @
          ''            - Path suffix: '' @ pathSuffix @ newline @
          ''            - Relative path: '' @ relativePath @ newline @
          ''            - Full resolved path: '' @ fullPath)
         ''Path Resolution''"

fun alias_loop :: "string \<Rightarrow> string \<Rightarrow> string \<Rightarrow> path_aliases \<Rightarrow> (string \<times> log_entry) option" where
  "alias_loop cwd filePath basePath [] = None"
| "alias_loop cwd filePath basePath ((alias, targets) # entries) =
     (if length targets = 0 then alias_loop cwd filePath basePath entries
      else
        (let aliasPrefix = replace_trailing_star alias in
         if prefix aliasPrefix filePath then
           (let pathSuffix = drop (length aliasPrefix) filePath;
                targetPattern = hd targets;
                targetPrefix = replace_trailing_star targetPattern;
                relativePath = targetPrefix @ pathSuffix;
                fullPath = resolve cwd basePath relativePath in
            Some (fullPath,
                  alias_log filePath alias targetPattern pathSuffix relativePath fullPath))
         else alias_loop cwd filePath basePath entries))"

text \<open>
  The \<^verbatim>\<open>try\<close> block throws only for arguments that are not of the declared types, so the
  \<^verbatim>\<open>catch\<close> (which returns \<^verbatim>\<open>null\<close>) is not reached for a \<^typ>\<open>path_aliases\<close>.
\<close>

definition resolvePathWithAliases ::
  "string \<Rightarrow> string \<Rightarrow> path_aliases \<Rightarrow> string \<Rightarrow> log_entry list
     \<Rightarrow> string option \<times> log_entry list" where
  "resolvePathWithAliases cwd filePath pathAliases basePath lg =
     (if isAbsolute filePath then (Some filePath, lg)
      else
        (case alias_loop cwd filePath basePath pathAliases of
           Some (fullPath, entry) \<Rightarrow> (Some fullPath, lg @ [entry])
         | None \<Rightarrow>
             if prefix ''./'' filePath \<or> prefix ''../'' filePath then
               (Some (resolve cwd basePath filePath),
                lg @ [Log (''Resolved relative path: '' @ filePath @ '' -> '' @ resolve cwd basePath filePath)
                          ''Path Resolution''])
             else
               (Some (resolve cwd basePath filePath),
                lg @ [Log (''Resolved non-alias path: '' @ filePath @ '' -> '' @ resolve cwd basePath filePath)
                          ''Path Resolution''])))"

text \<open>
  The claim about \<^verbatim>\<open>resolvePathWithAliases\<close> speaks of "the first alias entry (skipping
  entries with an empty target list) whose pattern, with a trailing \<^verbatim>\<open>/*\<close> replaced by
  \<^verbatim>\<open>/\<close>, is a prefix of \<open>p\<close>", and of "\<open>t + s\<close> where \<open>t\<close> is the first target of that
  alias with its trailing \<^verbatim>\<open>/*\<close> replaced by \<^verbatim>\<open>/\<close> and \<open>s\<close> is \<open>p\<close> with the alias prefix
  removed". These three definitions follow those words and use nothing of the function
  above, which is the loop of the source.
\<close>

definition trailing_star_as_slash :: "string \<Rightarrow> string" where
  "trailing_star_as_slash s =
     (if suffix ''/*'' s then take (length s - 2) s @ ''/'' else s)"

definition alias_matches :: "string \<Rightarrow> string \<times> string list \<Rightarrow> bool" where
  "alias_matches p entry = (snd entry \<noteq> [] \<and> prefix (trailing_star_as_slash (fst entry)) p)"

definition alias_target :: "string \<Rightarrow> string \<times> string list \<Rightarrow> string" where
  "alias_target p entry =
     trailing_star_as_slash (hd (snd entry)) @ drop (length (trailing_star_as_slash (fst entry))) p"

text \<open>
  For \<^verbatim>\<open>findTsConfigFile\<close>: the loop stops at a directory when it is the root or holds a
  \<^verbatim>\<open>tsconfig.json\<close>. Two file systems for concrete runs: an empty one, and one whose only
  \<^verbatim>\<open>tsconfig.json\<close> sits in the root directory.
\<close>

definition stops_at :: "(string \<Rightarrow> bool) \<Rightarrow> string \<Rightarrow> string \<Rightarrow> bool" where
  "stops_at existsSync root d = (d = root \<or> existsSync (join d ''tsconfig.json''))"

definition no_files :: "string \<Rightarrow> bool" where
  "no_files p = False"

definition only_root_tsconfig :: "string \<Rightarrow> bool" where
  "only_root_tsconfig p = (p = ''/tsconfig.json'')"

subsection \<open>Strings and regular expressions\<close>

text \<open>
  The characters \<^verbatim>\<open>\s\<close> matches and \<^verbatim>\<open>trim()\<close> removes: among the code units below
  256 these are tab, line feed, vertical tab, form feed, carriage return, space and the
  no-break space U+00A0. (The others, U+1680, U+2000 to U+200A, U+2028, U+2029, U+202F,
  U+205F, U+3000 and U+FEFF, are not values of \<^typ>\<open>char\<close>.) In multi-line mode \<^verbatim>\<open>^\<close>
  matches at the start of the text and after a line terminator; below 256 these are line
  feed and carriage return.
\<close>

definition is_space :: "char \<Rightarrow> bool" where
  "is_space c =
     (c \<in> set [CHR 0x09, CHR 0x0A, CHR 0x0B, CHR 0x0C, CHR 0x0D, CHR 0x20, CHR 0xA0])"

definition is_line_terminator :: "char \<Rightarrow> bool" where
  "is_line_terminator c = (c = CHR 0x0A \<or> c = CHR 0x0D)"

definition is_quote :: "char \<Rightarrow> bool" where
  "is_quote c = (c = CHR 0x27 \<or> c = CHR 0x22)"

definition trim :: "string \<Rightarrow> string" where
  "trim s = rev (dropWhile is_space (rev (dropWhile is_space s)))"

text \<open>
  Pieces of a pattern, each applied to the text that is left and returning what is left
  after it (\<open>None\<close>: no match). A greedy class followed by a character outside the class
  can match in one way only, so no piece needs to backtrack.
\<close>

definition re_lit :: "string \<Rightarrow> string \<Rightarrow> string option" where
  "re_lit lit s = (if prefix lit s then Some (drop (length lit) s) else None)"

definition re_spaces1 :: "string \<Rightarrow> string option" where
  "re_spaces1 s = (if takeWhile is_space s = [] then None else Some (dropWhile is_space s))"

definition re_char :: "(char \<Rightarrow> bool) \<Rightarrow> string \<Rightarrow> string option" where
  "re_char P s = (case s of [] \<Rightarrow> None | c # cs \<Rightarrow> if P c then Some cs else None)"

definition re_class1 :: "(char \<Rightarrow> bool) \<Rightarrow> string \<Rightarrow> (string \<times> string) option" where
  "re_class1 P s = (if takeWhile P s = [] then None else Some (takeWhile P s, dropWhile P s))"

definition re_opt_char :: "char \<Rightarrow> string \<Rightarrow> string" where
  "re_opt_char x s = (case s of [] \<Rightarrow> [] | c # cs \<Rightarrow> if c = x then cs else s)"

text \<open>
  \<^verbatim>\<open>/import\s+{([^}]*)}\s+from\s+['"]([^'"]+)['"];?\s*/\<close> tried at the start of \<open>s\<close>:
  the two groups and the text after the match.
\<close>

definition match_import :: "string \<Rightarrow> (string \<times> string \<times> string) option" where
  "match_import s =
     do {
       s1 \<leftarrow> re_lit ''import'' s;
       s2 \<leftarrow> re_spaces1 s1;
       s3 \<leftarrow> re_lit ''{'' s2;
       s4 \<leftarrow> re_lit ''}'' (dropWhile (\<lambda>c. c \<noteq> CHR ''}'') s3);
       s5 \<leftarrow> re_spaces1 s4;
       s6 \<leftarrow> re_lit ''from'' s5;
       s7 \<leftarrow> re_spaces1 s6;
       s8 \<leftarrow> re_char is_quote s7;
       (spec, s9) \<leftarrow> re_class1 (\<lambda>c. \<not> is_quote c) s8;
       s10 \<leftarrow> re_char is_quote s9;
       Some (takeWhile (\<lambda>c. c \<noteq> CHR ''}'') s3, spec,
             dropWhile is_space (re_opt_char CHR '';'' s10))
     }"

text \<open>
  One match of the loop \<^verbatim>\<open>while ((match = importRegex.exec(fileContent)) !== null)\<close>:
  \<^verbatim>\<open>match[0]\<close>, \<^verbatim>\<open>match[1]\<close>, \<^verbatim>\<open>match[2]\<close>.
\<close>

datatype import_match = ImportMatch (match0: string) (match1: string) (match2: string)

text \<open>
  All matches of the global regular expression, left to right. \<open>k\<close> is the number of
  characters still covered by the previous match (\<^verbatim>\<open>lastIndex\<close> minus the position).
\<close>

fun exec_all :: "nat \<Rightarrow> string \<Rightarrow> import_match list" where
  "exec_all k [] = []"
| "exec_all k (c # cs) =
     (if 0 < k then exec_all (k - 1) cs
      else
        (case match_import (c # cs) of
           None \<Rightarrow> exec_all 0 cs
         | Some (names, spec, rest) \<Rightarrow>
             ImportMatch (take (length (c # cs) - length rest) (c # cs)) names spec
               # exec_all (length (c # cs) - length rest - 1) cs))"

text \<open>\<^verbatim>\<open>namedImportsText.split(',').map((imp) => imp.trim()).filter((imp) => imp !== '')\<close>\<close>

definition split_named_imports :: "string \<Rightarrow> string list" where
  "split_named_imports namedImportsText =
     filter (\<lambda>imp. imp \<noteq> []) (map trim (split_at CHR '','' namedImportsText))"

text \<open>\<^verbatim>\<open>content.replace(importStatement, '')\<close> with a string pattern: the first occurrence
  is removed.\<close>

fun remove_first :: "string \<Rightarrow> string \<Rightarrow> string" where
  "remove_first pat [] = []"
| "remove_first pat (c # cs) =
     (if prefix pat (c # cs) then drop (length pat) (c # cs)
      else c # remove_first pat cs)"

text \<open>
  \<^verbatim>\<open>text.replace(/.../g, rep)\<close>: \<open>m prev s\<close> is the length of the match that starts at
  \<open>s\<close> (\<open>prev\<close> the character before it), \<open>k\<close> the number of characters still covered by
  the previous match. None of the three patterns matches the empty string.
\<close>

fun replace_global ::
  "(char option \<Rightarrow> string \<Rightarrow> nat option) \<Rightarrow> string \<Rightarrow> char option \<Rightarrow> nat \<Rightarrow> string \<Rightarrow> string" where
  "replace_global m rep prev k [] = []"
| "replace_global m rep prev k (c # cs) =
     (if 0 < k then replace_global m rep (Some c) (k - 1) cs
      else
        (case m prev (c # cs) of
           Some (Suc n) \<Rightarrow> rep @ replace_global m rep (Some c) n cs
         | _ \<Rightarrow> c # replace_global m rep (Some c) 0 cs))"

text \<open>\<^verbatim>\<open>/;\s*;/\<close>\<close>

definition match_double_semicolon :: "char option \<Rightarrow> string \<Rightarrow> nat option" where
  "match_double_semicolon prev s =
     do {
       s1 \<leftarrow> re_lit '';'' s;
       s2 \<leftarrow> re_lit '';'' (dropWhile is_space s1);
       Some (length s - length s2)
     }"

text \<open>\<^verbatim>\<open>/^\s*;/m\<close>\<close>

definition at_line_start :: "char option \<Rightarrow> bool" where
  "at_line_start prev = (case prev of None \<Rightarrow> True | Some c \<Rightarrow> is_line_terminator c)"

definition match_leading_semicolon :: "char option \<Rightarrow> string \<Rightarrow> nat option" where
  "match_leading_semicolon prev s =
     (if at_line_start prev then
        do {
          s1 \<leftarrow> re_lit '';'' (dropWhile is_space s);
          Some (length s - length s1)
        }
      else None)"

text \<open>
  \<^verbatim>\<open>/\s*;\s*\n/\<close>: the second \<^verbatim>\<open>\s*\<close> is greedy and \<^verbatim>\<open>\n\<close> is itself white space, so
  the match ends at the last line feed of the white space after the semicolon.
\<close>

definition match_trailing_semicolon :: "char option \<Rightarrow> string \<Rightarrow> nat option" where
  "match_trailing_semicolon prev s =
     do {
       s1 \<leftarrow> re_lit '';'' (dropWhile is_space s);
       (let ws = takeWhile is_space s1;
            after_last_lf = takeWhile (\<lambda>c. c \<noteq> CHR 0x0A) (rev ws) in
        if CHR 0x0A \<in> set ws
        then Some (length s - length s1 + (length ws - length after_last_lf))
        else None)
     }"

definition cleanup :: "string \<Rightarrow> string" where
  "cleanup nonImportContent =
     replace_global match_trailing_semicolon [CHR 0x0A] None 0
       (replace_global match_leading_semicolon [] None 0
          (replace_global match_double_semicolon '';'' None 0 nonImportContent))"


subsection \<open>The ts-morph source file\<close>

text \<open>
  A \<^verbatim>\<open>SourceFile\<close> of ts-morph, as far as the generator uses it: its path and its
  statements in order. An import declaration carries its module specifier and the texts
  of its named imports (a default import, a namespace import and the \<^verbatim>\<open>type\<close> modifier
  of a whole declaration are not represented); any other statement carries its text;
  \<^verbatim>\<open>addTypeAlias\<close> and \<^verbatim>\<open>addInterface\<close> append a declaration.

  ts-morph belongs to the surroundings, like Node's \<^verbatim>\<open>path\<close>. It writes the text it is
  given into the file and parses the file again, so the statements that
  \<^verbatim>\<open>addStatements(text)\<close> appends are the ones the TypeScript parser finds in \<open>text\<close>:
  an import statement spliced in as text is an import declaration of the file from then
  on. The parser is a parameter of the model, \<open>parse\<close>: the statements of a text, read on
  its own. The operations are taken not to throw.
\<close>

datatype statement =
    ImportDeclaration (moduleSpecifier: string) (namedImports: "string list")
  | Statement string
  | TypeAlias bool string string
  | Interface bool string "string list" "(string \<times> string) list"

record source_file =
  filePath :: string
  statements :: "statement list"

fun is_import :: "statement \<Rightarrow> bool" where
  "is_import (ImportDeclaration m ns) = True"
| "is_import s = False"

definition getImportDeclarations :: "source_file \<Rightarrow> statement list" where
  "getImportDeclarations sf = filter is_import (statements sf)"

text \<open>
  \<^verbatim>\<open>ImportSpecifier.getName()\<close> of a named import written as \<open>text\<close>: the imported name,
  without the \<^verbatim>\<open>type\<close> modifier and without the alias (\<^verbatim>\<open>foo as bar\<close> has the name
  \<^verbatim>\<open>foo\<close>). This is the TypeScript parser's reading, which ts-morph exposes: comments
  (\<^verbatim>\<open>/* ... */\<close> and \<^verbatim>\<open>// ...\<close> to the end of the line) separate tokens like white space,
  and the tokens are \<^verbatim>\<open>[type] name [as alias]\<close>. For a text that is not of this form
  the model answers the text itself.
\<close>

datatype scan_mode = InCode | AfterSlash | InBlock | InBlockStar | InLine

fun strip_comments :: "scan_mode \<Rightarrow> string \<Rightarrow> string" where
  "strip_comments mode [] = (if mode = AfterSlash then ''/'' else [])"
| "strip_comments InCode (c # cs) =
     (if c = CHR ''/'' then strip_comments AfterSlash cs
      else c # strip_comments InCode cs)"
| "strip_comments AfterSlash (c # cs) =
     (if c = CHR ''*'' then CHR '' '' # strip_comments InBlock cs
      else if c = CHR ''/'' then CHR '' '' # strip_comments InLine cs
      else CHR ''/'' # c # strip_comments InCode cs)"
| "strip_comments InBlock (c # cs) =
     (if c = CHR ''*'' then strip_comments InBlockStar cs
      else strip_comments InBlock cs)"
| "strip_comments InBlockStar (c # cs) =
     (if c = CHR ''/'' then strip_comments InCode cs
      else if c = CHR ''*'' then strip_comments InBlockStar cs
      else strip_comments InBlock cs)"
| "strip_comments InLine (c # cs) =
     (if is_line_terminator c then c # strip_comments InCode cs
      else strip_comments InLine cs)"

definition words :: "string \<Rightarrow> string list" where
  "words s = filter (\<lambda>w. w \<noteq> [])
     (split_at CHR '' '' (map (\<lambda>c. if is_space c then CHR '' '' else c) (strip_comments InCode s)))"

fun specifier_name_of_words :: "string list \<Rightarrow> string option" where
  "specifier_name_of_words [n] = Some n"
| "specifier_name_of_words [n, kw, a] = (if kw = ''as'' then Some n else None)"
| "specifier_name_of_words [t, n] = (if t = ''type'' then Some n else None)"
| "specifier_name_of_words [t, n, kw, a] = (if t = ''type'' \<and> kw = ''as'' then Some n else None)"
| "specifier_name_of_words ws = None"

definition getName :: "string \<Rightarrow> string" where
  "getName text = (case specifier_name_of_words (words text) of Some n \<Rightarrow> n | None \<Rightarrow> text)"

text \<open>
  \<^verbatim>\<open>addImportDeclaration\<close> inserts after the last import declaration of the file (at the
  top when there is none): ts-morph's \<^verbatim>\<open>getInsertIndex\<close>, a loop over the statements.
\<close>

fun import_insert_index :: "nat \<Rightarrow> nat \<Rightarrow> statement list \<Rightarrow> nat" where
  "import_insert_index i insertIndex [] = insertIndex"
| "import_insert_index i insertIndex (s # ss) =
     import_insert_index (Suc i) (if is_import s then Suc i else insertIndex) ss"

definition addImportDeclaration :: "source_file \<Rightarrow> string \<Rightarrow> string list \<Rightarrow> source_file" where
  "addImportDeclaration sf m ns =
     (let i = import_insert_index 0 0 (statements sf) in
      sf\<lparr> statements := take i (statements sf) @ [ImportDeclaration m ns] @ drop i (statements sf) \<rparr>)"

text \<open>
  \<^verbatim>\<open>getImportDeclaration((decl) => decl.getModuleSpecifierValue() === m)\<close> followed by
  \<^verbatim>\<open>addNamedImport(n)\<close> on the declaration found: the first import declaration of module
  \<open>m\<close> gets \<open>n\<close> as its last named import; with no such declaration nothing changes.
\<close>

fun add_to_first_import :: "string \<Rightarrow> string \<Rightarrow> statement list \<Rightarrow> statement list" where
  "add_to_first_import m n [] = []"
| "add_to_first_import m n (ImportDeclaration m' ns # ss) =
     (if m' = m then ImportDeclaration m' (ns @ [n]) # ss
      else ImportDeclaration m' ns # add_to_first_import m n ss)"
| "add_to_first_import m n (s # ss) = s # add_to_first_import m n ss"

definition addNamedImport :: "source_file \<Rightarrow> string \<Rightarrow> string \<Rightarrow> source_file" where
  "addNamedImport sf m n = sf\<lparr> statements := add_to_first_import m n (statements sf) \<rparr>"

text \<open>\<^verbatim>\<open>addStatements(text)\<close>: the statements of the text come last in the file.\<close>

definition addStatements :: "(string \<Rightarrow> statement list) \<Rightarrow> source_file \<Rightarrow> string \<Rightarrow> source_file" where
  "addStatements parse sf text = sf\<lparr> statements := statements sf @ parse text \<rparr>"

subsection \<open>\<^verbatim>\<open>injectFilesContent\<close>: what both revisions share\<close>

text \<open>
  \<^verbatim>\<open>existingImports\<close>, the \<^verbatim>\<open>Set<string>\<close> filled from the import declarations of the
  app-router file: every module specifier, and \<^verbatim>\<open>`${moduleSpecifier}:${name}`\<close> for every
  named import.
\<close>

definition import_key :: "string \<Rightarrow> string \<Rightarrow> string" where
  "import_key m n = m @ '':'' @ n"

fun existing_of_decl :: "string set \<Rightarrow> statement \<Rightarrow> string set" where
  "existing_of_decl existingImports (ImportDeclaration m ns) =
     foldl (\<lambda>acc namedImport. insert (import_key m (getName namedImport)) acc)
       (insert m existingImports) ns"
| "existing_of_decl existingImports s = existingImports"

definition existing_imports :: "source_file \<Rightarrow> string set" where
  "existing_imports sf = foldl existing_of_decl {} (getImportDeclarations sf)"

text \<open>The body of \<^verbatim>\<open>namedImports.forEach((namedImport) => ...)\<close>.\<close>

definition process_named_import ::
  "string \<Rightarrow> source_file \<times> string set \<Rightarrow> string \<Rightarrow> source_file \<times> string set" where
  "process_named_import m st namedImport =
     (case st of (sf, existingImports) \<Rightarrow>
        if import_key m namedImport \<notin> existingImports then
          (if m \<notin> existingImports then
             (addImportDeclaration sf m [namedImport],
              insert (import_key m namedImport) (insert m existingImports))
           else
             (addNamedImport sf m namedImport,
              insert (import_key m namedImport) existingImports))
        else (sf, existingImports))"

definition process_named_imports ::
  "string \<Rightarrow> string list \<Rightarrow> source_file \<times> string set \<Rightarrow> source_file \<times> string set" where
  "process_named_imports m ns st = foldl (process_named_import m) st ns"

subsection \<open>\<^verbatim>\<open>injectFilesContent\<close>, the revision with the regular expression\<close>

text \<open>\<^verbatim>\<open>processedImports.add(match[0])\<close> on a \<^verbatim>\<open>Set\<close>, which keeps insertion order.\<close>

definition set_add :: "string list \<Rightarrow> string \<Rightarrow> string list" where
  "set_add xs x = (if x \<in> set xs then xs else xs @ [x])"

text \<open>The body of the \<^verbatim>\<open>while\<close> loop, for one match.\<close>

definition process_match ::
  "(source_file \<times> string set) \<times> string list \<Rightarrow> import_match
     \<Rightarrow> (source_file \<times> string set) \<times> string list" where
  "process_match st m =
     (case st of (imports_state, processedImports) \<Rightarrow>
        (process_named_imports (match2 m) (split_named_imports (match1 m)) imports_state,
         set_add processedImports (match0 m)))"

definition remove_imports :: "string list \<Rightarrow> string \<Rightarrow> string" where
  "remove_imports processedImports fileContent =
     foldl (\<lambda>nonImportContent importStatement. remove_first importStatement nonImportContent)
       fileContent processedImports"

text \<open>
  From \<^verbatim>\<open>const existingImports = new Set<string>()\<close> to the \<^verbatim>\<open>addStatements\<close> call:
  what one file's content does to the app-router file.
\<close>

definition inject_content ::
  "(string \<Rightarrow> statement list) \<Rightarrow> string \<Rightarrow> source_file \<Rightarrow> source_file" where
  "inject_content parse fileContent sf =
     (case foldl process_match ((sf, existing_imports sf), []) (exec_all 0 fileContent) of
        ((sf', existingImports), processedImports) \<Rightarrow>
          (let cleanedContent = trim (cleanup (remove_imports processedImports fileContent)) in
           if cleanedContent \<noteq> [] then addStatements parse sf' cleanedContent else sf'))"


subsection \<open>\<^verbatim>\<open>injectFilesContent\<close>, the revision that walks the parsed statements\<close>

text \<open>
  A statement of the file to inject, as ts-morph parsed it: \<^verbatim>\<open>getKindName()\<close> and
  \<^verbatim>\<open>getText()\<close>.
\<close>

datatype ts_statement = TsStatement (getKindName: string) (getText: string)

text \<open>\<^verbatim>\<open>/from\s+['"]([^'"]+)['"]/\<close> tried at the start of \<open>s\<close>, then searched from the left.\<close>

definition match_from :: "string \<Rightarrow> string option" where
  "match_from s =
     do {
       s1 \<leftarrow> re_lit ''from'' s;
       s2 \<leftarrow> re_spaces1 s1;
       s3 \<leftarrow> re_char is_quote s2;
       (spec, s4) \<leftarrow> re_class1 (\<lambda>c. \<not> is_quote c) s3;
       s5 \<leftarrow> re_char is_quote s4;
       Some spec
     }"

fun search_from :: "string \<Rightarrow> string option" where
  "search_from [] = None"
| "search_from (c # cs) =
     (case match_from (c # cs) of
        Some spec \<Rightarrow> Some spec
      | None \<Rightarrow> search_from cs)"

text \<open>\<^verbatim>\<open>/{([^}]*)}/\<close>: from the first \<^verbatim>\<open>{\<close> to the first \<^verbatim>\<open>}\<close> after it. When no \<^verbatim>\<open>}\<close>
  follows the first \<^verbatim>\<open>{\<close>, none follows a later one.\<close>

definition search_braces :: "string \<Rightarrow> string option" where
  "search_braces s =
     (case dropWhile (\<lambda>c. c \<noteq> CHR ''{'') s of
        [] \<Rightarrow> None
      | b # r \<Rightarrow> if CHR ''}'' \<in> set r then Some (takeWhile (\<lambda>c. c \<noteq> CHR ''}'') r) else None)"

text \<open>The body of \<^verbatim>\<open>fileToInject.getStatements().forEach((statement) => ...)\<close>.\<close>

definition process_statement ::
  "(string \<Rightarrow> statement list) \<Rightarrow> source_file \<times> string set \<Rightarrow> ts_statement
     \<Rightarrow> source_file \<times> string set" where
  "process_statement parse st statement =
     (if getKindName statement = ''ImportDeclaration'' then
        (let moduleSpecifier = (case search_from (getText statement) of Some m \<Rightarrow> m | None \<Rightarrow> []);
             namedImportsText = (case search_braces (getText statement) of Some t \<Rightarrow> t | None \<Rightarrow> [])
         in process_named_imports moduleSpecifier (split_named_imports namedImportsText) st)
      else (addStatements parse (fst st) (getText statement), snd st))"

definition inject_statements ::
  "(string \<Rightarrow> statement list) \<Rightarrow> ts_statement list \<Rightarrow> source_file \<Rightarrow> source_file" where
  "inject_statements parse fileToInject sf =
     fst (foldl (process_statement parse) (sf, existing_imports sf) fileToInject)"

subsection \<open>The generator's surroundings\<close>

text \<open>
  The parsed \<^verbatim>\<open>tsconfig.json\<close>, typed as the source reads it:
  \<^verbatim>\<open>tsConfigObj.compilerOptions?.paths || {}\<close> with \<^verbatim>\<open>paths\<close> a
  \<^verbatim>\<open>Record<string, string[]>\<close>. \<^verbatim>\<open>TsConfigNull\<close> is the JSON text \<^verbatim>\<open>null\<close>, on which the
  property access throws.
\<close>

datatype compiler_options = CompilerOptions (paths: "path_aliases option")

datatype tsconfig = TsConfigNull | TsConfig (compilerOptions: "compiler_options option")

definition tsconfig_paths :: "tsconfig \<Rightarrow> js_error + path_aliases" where
  "tsconfig_paths tsConfigObj =
     (case tsConfigObj of
        TsConfigNull \<Rightarrow>
          Inl (JsError ''TypeError'' ''Cannot read properties of null (reading 'compilerOptions')'')
      | TsConfig None \<Rightarrow> Inr []
      | TsConfig (Some options) \<Rightarrow>
          (case paths options of None \<Rightarrow> Inr [] | Some pathAliases \<Rightarrow> Inr pathAliases))"

text \<open>
  What the generator reads from outside: the injected \<^verbatim>\<open>moduleCallerFilePath\<close>, the
  working directory, the file system (\<^verbatim>\<open>fs.existsSync\<close>; \<^verbatim>\<open>fs.readFileSync\<close>, which
  throws for a file it cannot read; the exception, if any, that writing to a path ends
  in), \<^verbatim>\<open>JSON.parse\<close> (which throws a \<^verbatim>\<open>SyntaxError\<close>), \<^verbatim>\<open>JSON.stringify\<close>, the ts-morph
  project's \<^verbatim>\<open>addSourceFileAtPath(p).getFullText()\<close> and
  \<^verbatim>\<open>addSourceFileAtPathIfExists(p)?.getStatements()\<close>, and the TypeScript parser behind
  \<^verbatim>\<open>addStatements\<close>.
\<close>

record env =
  moduleCallerFilePath :: string
  process_cwd :: string
  fs_existsSync :: "string \<Rightarrow> bool"
  fs_readFileSync :: "string \<Rightarrow> js_error + string"
  fs_write_error :: "string \<Rightarrow> js_error option"
  JSON_parse :: "string \<Rightarrow> js_error + tsconfig"
  JSON_stringify :: "path_aliases \<Rightarrow> string"
  project_getFullText :: "string \<Rightarrow> js_error + string"
  project_getStatementsIfExists :: "string \<Rightarrow> js_error + ts_statement list option"
  ts_parse :: "string \<Rightarrow> statement list"

text \<open>
  What the generator changes: the app-router source file, the log, the disk. The disk
  maps a path to the statements of the file last written there.
\<close>

type_synonym files = "string \<Rightarrow> statement list option"

record world =
  appRouterSourceFile :: source_file
  logs :: "log_entry list"
  disk :: files

definition logger_log :: "string \<Rightarrow> world \<Rightarrow> world" where
  "logger_log message w = w\<lparr> logs := logs w @ [Log message ''TRPC Generator''] \<rparr>"

definition logger_warn :: "string \<Rightarrow> world \<Rightarrow> world" where
  "logger_warn message w = w\<lparr> logs := logs w @ [Warn message ''TRPC Generator''] \<rparr>"

text \<open>
  Modelled from the spec: \<^verbatim>\<open>saveOrOverrideFile\<close> (\<^verbatim>\<open>lib/utils/ts-morph.util.ts\<close>) is not
  among the files at hand. The spec says that the generated source file is persisted,
  and the claim about the emitted router that this overwrites any existing file at that
  path: saving replaces what the disk held at the path of the file by the file. Writing
  can fail, as every access to the file system can; then the exception is thrown and
  the disk stays as it was.
\<close>

definition saveOrOverrideFile :: "env \<Rightarrow> source_file \<Rightarrow> files \<Rightarrow> js_error + files" where
  "saveOrOverrideFile e sourceFile d =
     (case fs_write_error e (filePath sourceFile) of
        Some error \<Rightarrow> Inl error
      | None \<Rightarrow> Inr (d(filePath sourceFile \<mapsto> statements sourceFile)))"

text \<open>\<^verbatim>\<open>`${resolvedPath || 'null'}`\<close> and the truthiness test \<^verbatim>\<open>if (resolvedPath)\<close>.\<close>

definition or_null :: "string option \<Rightarrow> string" where
  "or_null resolvedPath = (case resolvedPath of None \<Rightarrow> ''null'' | Some p \<Rightarrow> if p = [] then ''null'' else p)"

definition truthy :: "string option \<Rightarrow> bool" where
  "truthy v = (case v of None \<Rightarrow> False | Some p \<Rightarrow> p \<noteq> [])"

text \<open>The first statements of the \<^verbatim>\<open>for (const filePath of filePaths)\<close> body: resolving.\<close>

definition resolve_inject_path ::
  "env \<Rightarrow> path_aliases \<Rightarrow> string \<Rightarrow> world \<Rightarrow> string \<Rightarrow> string option \<times> world" where
  "resolve_inject_path e pathAliases basePath w injectPath =
     (let w1 = logger_log (''Resolving file path: '' @ injectPath) w in
      case resolvePathWithAliases (process_cwd e) injectPath pathAliases basePath (logs w1) of
        (resolvedPath, lg) \<Rightarrow>
          (resolvedPath,
           logger_log (''Resolved path: '' @ or_null resolvedPath) (w1\<lparr> logs := lg \<rparr>)))"

text \<open>
  The body of the \<^verbatim>\<open>for\<close> loop in the revision with the regular expression. The inner
  \<^verbatim>\<open>try\<close> holds the reading of the file and the injection of its content; its \<^verbatim>\<open>catch\<close>
  logs a warning.
\<close>

definition inject_file_regex ::
  "env \<Rightarrow> path_aliases \<Rightarrow> string \<Rightarrow> world \<Rightarrow> string \<Rightarrow> world" where
  "inject_file_regex e pathAliases basePath w injectPath =
     (case resolve_inject_path e pathAliases basePath w injectPath of
        (resolvedPath, w2) \<Rightarrow>
          if truthy resolvedPath \<and> fs_existsSync e (the resolvedPath) then
            (let w3 = logger_log (''Reading file: '' @ the resolvedPath) w2 in
             case fs_readFileSync e (the resolvedPath) of
               Inl error \<Rightarrow>
                 logger_warn (''Error injecting file '' @ injectPath @ '' (resolved to '' @
                   the resolvedPath @ ''): '' @ error_toString error) w3
             | Inr fileContent \<Rightarrow>
                 logger_log (''Successfully injected content from '' @ injectPath @
                   '' (resolved to '' @ the resolvedPath @ '')'')
                   (w3\<lparr> appRouterSourceFile :=
                         inject_content (ts_parse e) fileContent (appRouterSourceFile w3) \<rparr>))
          else
            logger_warn (''Could not resolve path for '' @ injectPath @ '' or file doesn't exist'') w2)"

text \<open>The body of the \<^verbatim>\<open>for\<close> loop in the revision that walks the statements.\<close>

definition inject_file_ast ::
  "env \<Rightarrow> path_aliases \<Rightarrow> string \<Rightarrow> world \<Rightarrow> string \<Rightarrow> world" where
  "inject_file_ast e pathAliases basePath w injectPath =
     (case resolve_inject_path e pathAliases basePath w injectPath of
        (resolvedPath, w2) \<Rightarrow>
          if truthy resolvedPath then
            (let w3 = logger_log (''Attempting to load file: '' @ the resolvedPath) w2 in
             case project_getStatementsIfExists e (the resolvedPath) of
               Inl error \<Rightarrow>
                 logger_warn (''Error injecting file '' @ injectPath @ '' (resolved to '' @
                   the resolvedPath @ ''): '' @ error_toString error) w3
             | Inr None \<Rightarrow>
                 logger_warn (''File not found: '' @ injectPath @ '' (resolved to '' @
                   the resolvedPath @ '')'') w3
             | Inr (Some fileToInject) \<Rightarrow>
                 logger_log (''Successfully injected content from '' @ injectPath @
                   '' (resolved to '' @ the resolvedPath @ '')'')
                   (w3\<lparr> appRouterSourceFile :=
                         inject_statements (ts_parse e) fileToInject (appRouterSourceFile w3) \<rparr>))
          else
            logger_warn (''Could not resolve path for '' @ injectPath) w2)"

text \<open>
  The two revisions of \<^verbatim>\<open>trpc.generator.ts\<close> differ in how the \<^verbatim>\<open>tsconfig.json\<close> is read
  (\<^verbatim>\<open>fs.readFileSync\<close> against the ts-morph project) and in the loop body.
\<close>

datatype revision = RegexRevision | AstRevision

definition read_tsconfig :: "revision \<Rightarrow> env \<Rightarrow> string \<Rightarrow> js_error + string" where
  "read_tsconfig rv e tsConfigFilePath =
     (case rv of
        RegexRevision \<Rightarrow> fs_readFileSync e tsConfigFilePath
      | AstRevision \<Rightarrow> project_getFullText e tsConfigFilePath)"

definition inject_file ::
  "revision \<Rightarrow> env \<Rightarrow> path_aliases \<Rightarrow> string \<Rightarrow> world \<Rightarrow> string \<Rightarrow> world" where
  "inject_file rv =
     (case rv of RegexRevision \<Rightarrow> inject_file_regex | AstRevision \<Rightarrow> inject_file_ast)"

text \<open>
  The part of \<^verbatim>\<open>injectFilesContent\<close> inside \<^verbatim>\<open>if (tsConfigFilePath)\<close>; an exception
  here is caught by the outer \<^verbatim>\<open>catch\<close>.
\<close>

definition inject_with_tsconfig ::
  "revision \<Rightarrow> env \<Rightarrow> string \<Rightarrow> string list \<Rightarrow> world \<Rightarrow> js_error + world" where
  "inject_with_tsconfig rv e tsConfigFilePath filePaths w =
     (case read_tsconfig rv e tsConfigFilePath of
        Inl error \<Rightarrow> Inl error
      | Inr tsConfigContent \<Rightarrow>
          (case JSON_parse e tsConfigContent of
             Inl error \<Rightarrow> Inl error
           | Inr tsConfigObj \<Rightarrow>
               (case tsconfig_paths tsConfigObj of
                  Inl error \<Rightarrow> Inl error
                | Inr pathAliases \<Rightarrow>
                    Inr (foldl (inject_file rv e pathAliases (dirname tsConfigFilePath))
                           (logger_log (''Found path aliases in tsconfig: '' @
                              JSON_stringify e pathAliases) w)
                           filePaths))))"

definition injectFilesContent ::
  "revision \<Rightarrow> env \<Rightarrow> string list \<Rightarrow> world \<Rightarrow> world option" where
  "injectFilesContent rv e filePaths w =
     (case findTsConfigFile (fs_existsSync e) (moduleCallerFilePath e) (logs w) of
        None \<Rightarrow> None
      | Some (tsConfigFilePath, lg) \<Rightarrow>
          if truthy tsConfigFilePath then
            (case inject_with_tsconfig rv e (the tsConfigFilePath) filePaths (w\<lparr> logs := lg \<rparr>) of
               Inl error \<Rightarrow>
                 Some (logger_warn (''Error injecting files: '' @ error_toString error)
                         (w\<lparr> logs := lg \<rparr>))
             | Inr w' \<Rightarrow> Some w')
          else
            Some (logger_warn ''Could not find tsconfig.json file'' (w\<lparr> logs := lg \<rparr>)))"

subsection \<open>\<^verbatim>\<open>TRPCGenerator\<close>\<close>

text \<open>
  A router as \<^verbatim>\<open>RouterFactory.getRouters()\<close> returns it, and the entry
  \<^verbatim>\<open>{ name, path, alias, instance: { ...route }, procedures }\<close> that
  \<^verbatim>\<open>generateSchemaFile\<close> maps it to. \<open>'i\<close> is the type of instances and classes, \<open>'p\<close> of
  what \<^verbatim>\<open>getProcedures\<close> returns.
\<close>

datatype 'i route =
  Route (route_name: string) (route_path: string) (route_alias: "string option")
        (route_instance: 'i)

datatype ('i, 'p) mapped_route =
  MappedRoute (mapped_name: string) (mapped_path: string) (mapped_alias: "string option")
              (mapped_instance: "'i route") (mapped_procedures: 'p)

datatype 'i middleware = Middleware (middleware_path: string) (middleware_instance: 'i)

datatype middleware_interface =
  MiddlewareInterface (interface_name: string) (interface_properties: "(string \<times> string) list")

text \<open>
  The collaborators of the generator whose code is not in the files at hand, as
  parameters. Each may throw. One that changes the source file it is given returns the
  file as it left it together with the error, if any. \<open>'m\<close> is the routers' metadata,
  \<open>'x\<close> an entry of the root module's import map.
\<close>

record ('i, 'p, 'm, 'x) generator =
  routerFactory_getRouters :: "js_error + 'i route list"
  getPrototypeOf :: "'i \<Rightarrow> 'i"
  procedureFactory_getProcedures :: "'i \<Rightarrow> 'i \<Rightarrow> js_error + 'p"
  generateStaticDeclaration :: "source_file \<Rightarrow> js_error option \<times> source_file"
  addSchemaImports ::
    "source_file \<Rightarrow> string list \<Rightarrow> (string \<Rightarrow> 'x option) \<Rightarrow> js_error option \<times> source_file"
  rootModuleImportsMap :: "string \<Rightarrow> 'x option"
  serializeRouters :: "('i, 'p) mapped_route list \<Rightarrow> js_error + 'm"
  generateRoutersStringFromMetadata :: "'m \<Rightarrow> js_error + string"
  path_relative :: "string \<Rightarrow> string \<Rightarrow> string"
  middlewareFactory_getMiddlewares :: "js_error + 'i middleware list"
  project_createSourceFile :: "string \<Rightarrow> js_error + source_file"
  class_name :: "'i \<Rightarrow> string"
  getContextInterface :: "'x \<Rightarrow> 'i \<Rightarrow> js_error + string option"
  getMiddlewareInterface :: "string \<Rightarrow> 'i \<Rightarrow> js_error + middleware_interface option"
  HELPER_TYPES_OUTPUT_PATH :: string

text \<open>The callback of \<^verbatim>\<open>routers.map((route) => ...)\<close>, and the map itself, which stops at
  the first exception.\<close>

definition map_route ::
  "('i, 'p, 'm, 'x) generator \<Rightarrow> 'i route \<Rightarrow> js_error + ('i, 'p) mapped_route" where
  "map_route g route =
     (case procedureFactory_getProcedures g (route_instance route)
             (getPrototypeOf g (route_instance route)) of
        Inl error \<Rightarrow> Inl error
      | Inr procedures \<Rightarrow>
          Inr (MappedRoute (route_name route) (route_path route) (route_alias route)
                 route procedures))"

fun map_routes ::
  "('i, 'p, 'm, 'x) generator \<Rightarrow> 'i route list \<Rightarrow> js_error + ('i, 'p) mapped_route list" where
  "map_routes g [] = Inr []"
| "map_routes g (route # routes) =
     (case map_route g route of
        Inl error \<Rightarrow> Inl error
      | Inr m \<Rightarrow>
          (case map_routes g routes of
             Inl error \<Rightarrow> Inl error
           | Inr ms \<Rightarrow> Inr (m # ms)))"

text \<open>The template literal handed to \<^verbatim>\<open>addStatements\<close> at the end of
  \<^verbatim>\<open>generateSchemaFile\<close>.\<close>

definition appRouter_statements :: "string \<Rightarrow> string" where
  "appRouter_statements routersStringDeclarations =
     newline @ ''        const appRouter = t.router({'' @ routersStringDeclarations @ ''});'' @
     newline @ ''        export type AppRouter = typeof appRouter;'' @
     newline @ ''      ''"

text \<open>
  \<^verbatim>\<open>schemaImports\<close> is given by the \<^verbatim>\<open>name\<close> of each schema import, the one property the
  generator reads.
\<close>

definition schema_imports_step ::
  "('i, 'p, 'm, 'x) generator \<Rightarrow> string list option \<Rightarrow> source_file
     \<Rightarrow> js_error option \<times> source_file" where
  "schema_imports_step g schemaImports sf =
     (case schemaImports of
        None \<Rightarrow> (None, sf)
      | Some schemaImportNames \<Rightarrow>
          if 0 < length schemaImportNames
          then addSchemaImports g sf schemaImportNames (rootModuleImportsMap g)
          else (None, sf))"

definition inject_step ::
  "revision \<Rightarrow> env \<Rightarrow> string list option \<Rightarrow> world \<Rightarrow> world option" where
  "inject_step rv e injectFiles w =
     (case injectFiles of
        None \<Rightarrow> Some w
      | Some filePaths \<Rightarrow>
          if 0 < length filePaths then injectFilesContent rv e filePaths w else Some w)"

text \<open>
  The \<^verbatim>\<open>try\<close> block of \<^verbatim>\<open>generateSchemaFile\<close>, in three parts: the statements from
  \<^verbatim>\<open>serializeRouters\<close> on, the statements after the \<^verbatim>\<open>routers.map\<close>, the whole. The
  result is the exception thrown, if any, and the world as the block left it; \<open>None\<close>
  when the block does not come to an end.
\<close>

definition emit_and_save ::
  "('i, 'p, 'm, 'x) generator \<Rightarrow> env \<Rightarrow> ('i, 'p) mapped_route list \<Rightarrow> world
     \<Rightarrow> js_error option \<times> world" where
  "emit_and_save g e mappedRoutesAndProcedures w =
     (case serializeRouters g mappedRoutesAndProcedures of
        Inl error \<Rightarrow> (Some error, w)
      | Inr routersMetadata \<Rightarrow>
          (case generateRoutersStringFromMetadata g routersMetadata of
             Inl error \<Rightarrow> (Some error, w)
           | Inr routersStringDeclarations \<Rightarrow>
               (let w1 = w\<lparr> appRouterSourceFile :=
                            addStatements (ts_parse e) (appRouterSourceFile w)
                              (appRouter_statements routersStringDeclarations) \<rparr> in
                case saveOrOverrideFile e (appRouterSourceFile w1) (disk w1) of
                  Inl error \<Rightarrow> (Some error, w1)
                | Inr d \<Rightarrow>
                    (None,
                     logger_log (''AppRouter has been updated successfully at \"./'' @
                        path_relative g (process_cwd e) (filePath (appRouterSourceFile w1)) @
                        ''\".'')
                       (w1\<lparr> disk := d \<rparr>)))))"

definition generate_after_mapping ::
  "revision \<Rightarrow> env \<Rightarrow> ('i, 'p, 'm, 'x) generator \<Rightarrow> string list option
     \<Rightarrow> string list option \<Rightarrow> ('i, 'p) mapped_route list \<Rightarrow> world
     \<Rightarrow> (js_error option \<times> world) option" where
  "generate_after_mapping rv e g schemaImports injectFiles mappedRoutesAndProcedures w =
     (case generateStaticDeclaration g (appRouterSourceFile w) of
        (Some error, sf1) \<Rightarrow> Some (Some error, w\<lparr> appRouterSourceFile := sf1 \<rparr>)
      | (None, sf1) \<Rightarrow>
          (case schema_imports_step g schemaImports sf1 of
             (Some error, sf2) \<Rightarrow> Some (Some error, w\<lparr> appRouterSourceFile := sf2 \<rparr>)
           | (None, sf2) \<Rightarrow>
               (case inject_step rv e injectFiles (w\<lparr> appRouterSourceFile := sf2 \<rparr>) of
                  None \<Rightarrow> None
                | Some w3 \<Rightarrow> Some (emit_and_save g e mappedRoutesAndProcedures w3))))"

definition generateSchemaFile_try ::
  "revision \<Rightarrow> env \<Rightarrow> ('i, 'p, 'm, 'x) generator \<Rightarrow> string list option
     \<Rightarrow> string list option \<Rightarrow> world \<Rightarrow> (js_error option \<times> world) option" where
  "generateSchemaFile_try rv e g schemaImports injectFiles w =
     (case routerFactory_getRouters g of
        Inl error \<Rightarrow> Some (Some error, w)
      | Inr routers \<Rightarrow>
          (case map_routes g routers of
             Inl error \<Rightarrow> Some (Some error, w)
           | Inr mappedRoutesAndProcedures \<Rightarrow>
               generate_after_mapping rv e g schemaImports injectFiles
                 mappedRoutesAndProcedures w))"

text \<open>
  \<^verbatim>\<open>catch (error) { this.consoleLogger.warn('TRPC Generator encountered an error.', error); }\<close>:
  the exception of the \<^verbatim>\<open>try\<close> block is logged and the method returns. The promise of
  an \<^verbatim>\<open>async\<close> method is rejected with the exception that leaves its body and resolved
  when the body returns.
\<close>

datatype promise = Resolved | Rejected js_error

definition catch_and_warn :: "js_error option \<times> world \<Rightarrow> js_error option \<times> world" where
  "catch_and_warn r =
     (case r of
        (None, w) \<Rightarrow> (None, w)
      | (Some error, w) \<Rightarrow>
          (None, w\<lparr> logs := logs w @ [WarnErr ''TRPC Generator encountered an error.'' error] \<rparr>))"

definition settle :: "js_error option \<times> world \<Rightarrow> promise \<times> world" where
  "settle r =
     (case r of
        (None, w) \<Rightarrow> (Resolved, w)
      | (Some error, w) \<Rightarrow> (Rejected error, w))"

text \<open>\<^verbatim>\<open>generateSchemaFile\<close>; \<open>None\<close>: the promise never settles.\<close>

definition generateSchemaFile ::
  "revision \<Rightarrow> env \<Rightarrow> ('i, 'p, 'm, 'x) generator \<Rightarrow> string list option
     \<Rightarrow> string list option \<Rightarrow> world \<Rightarrow> (promise \<times> world) option" where
  "generateSchemaFile rv e g schemaImports injectFiles w =
     map_option (\<lambda>r. settle (catch_and_warn r))
       (generateSchemaFile_try rv e g schemaImports injectFiles w)"

text \<open>
  \<^verbatim>\<open>generateHelpersFile\<close>. The helper-types file is local to the call; what remains of
  it is what \<^verbatim>\<open>saveOrOverrideFile\<close> wrote. The state of the \<^verbatim>\<open>try\<close> block is that file.
\<close>

definition context_step ::
  "('i, 'p, 'm, 'x) generator \<Rightarrow> 'i option \<Rightarrow> source_file \<Rightarrow> js_error + source_file" where
  "context_step g context_class helperTypesSourceFile =
     (case context_class of
        None \<Rightarrow> Inr helperTypesSourceFile
      | Some c \<Rightarrow>
          (case rootModuleImportsMap g (class_name g c) of
             None \<Rightarrow> Inl (JsError ''Error'' ''Could not find context import declaration.'')
           | Some contextImport \<Rightarrow>
               (case getContextInterface g contextImport c of
                  Inl error \<Rightarrow> Inl error
                | Inr contextType \<Rightarrow>
                    Inr (helperTypesSourceFile\<lparr> statements := statements helperTypesSourceFile @
                           [TypeAlias True ''Context''
                              (case contextType of None \<Rightarrow> ''{}'' | Some t \<Rightarrow> t)] \<rparr>))))"

fun middlewares_loop ::
  "('i, 'p, 'm, 'x) generator \<Rightarrow> 'i middleware list \<Rightarrow> source_file \<Rightarrow> js_error + source_file" where
  "middlewares_loop g [] helperTypesSourceFile = Inr helperTypesSourceFile"
| "middlewares_loop g (mw # mws) helperTypesSourceFile =
     (case getMiddlewareInterface g (middleware_path mw) (middleware_instance mw) of
        Inl error \<Rightarrow> Inl error
      | Inr None \<Rightarrow> middlewares_loop g mws helperTypesSourceFile
      | Inr (Some middlewareInterface) \<Rightarrow>
          middlewares_loop g mws
            (helperTypesSourceFile\<lparr> statements := statements helperTypesSourceFile @
               [Interface True (interface_name middlewareInterface @ ''Context'') [''Context'']
                  (interface_properties middlewareInterface)] \<rparr>))"

definition generateHelpersFile_try ::
  "env \<Rightarrow> ('i, 'p, 'm, 'x) generator \<Rightarrow> 'i option \<Rightarrow> world \<Rightarrow> js_error option \<times> world" where
  "generateHelpersFile_try e g context_class w =
     (case middlewareFactory_getMiddlewares g of
        Inl error \<Rightarrow> (Some error, w)
      | Inr middlewares \<Rightarrow>
          (case project_createSourceFile g
                  (resolve (process_cwd e) (HELPER_TYPES_OUTPUT_PATH g) ''index.ts'') of
             Inl error \<Rightarrow> (Some error, w)
           | Inr f0 \<Rightarrow>
               (case context_step g context_class f0 of
                  Inl error \<Rightarrow> (Some error, w)
                | Inr f1 \<Rightarrow>
                    (case middlewares_loop g middlewares f1 of
                       Inl error \<Rightarrow> (Some error, w)
                     | Inr f2 \<Rightarrow>
                         (case saveOrOverrideFile e f2 (disk w) of
                            Inl error \<Rightarrow> (Some error, w)
                          | Inr d \<Rightarrow>
                              (None,
                               logger_log
                                 ''Helper types has been updated successfully at \"nestjs-trpc/types\".''
                                 (w\<lparr> disk := d \<rparr>)))))))"

definition generateHelpersFile ::
  "env \<Rightarrow> ('i, 'p, 'm, 'x) generator \<Rightarrow> 'i option \<Rightarrow> world \<Rightarrow> promise \<times> world" where
  "generateHelpersFile e g context_class w =
     settle (catch_and_warn (generateHelpersFile_try e g context_class w))"


text \<open>
  The claim about the emitted router says that the file "ends with the statements"
  \<^verbatim>\<open>const appRouter = t.router({...}); export type AppRouter = typeof appRouter;\<close>: its
  last two statements are these.
\<close>

definition ends_with_appRouter :: "source_file \<Rightarrow> bool" where
  "ends_with_appRouter sf =
     (case rev (statements sf) of
        Statement b # Statement a # before \<Rightarrow>
          prefix ''const appRouter = t.router({'' a \<and> suffix ''});'' a \<and>
          b = ''export type AppRouter = typeof appRouter;''
      | _ \<Rightarrow> False)"

subsection \<open>Concrete surroundings for the examples\<close>

text \<open>
  A parser for the concrete runs, for texts that hold one statement per line: blank
  lines and \<^verbatim>\<open>//\<close> comment lines give no statement, a line of the form
  \<^verbatim>\<open>import { ... } from '...'\<close> gives an import declaration with the named imports between
  the braces, any other line a statement with the text of the line.
\<close>

definition parse_line :: "string \<Rightarrow> statement list" where
  "parse_line l =
     (let t = trim l in
      if t = [] \<or> prefix ''//'' t then []
      else
        (case match_import t of
           Some (names, spec, rest) \<Rightarrow>
             if rest = [] then [ImportDeclaration spec (split_named_imports names)]
             else [Statement t]
         | None \<Rightarrow> [Statement t]))"

definition parse_lines :: "string \<Rightarrow> statement list" where
  "parse_lines text = concat (map parse_line (split_at CHR 0x0A text))"

definition example_routers :: "nat route list" where
  "example_routers =
     [Route ''UserRouter'' ''/proj/src/user.router.ts'' (Some ''users'') 1,
      Route ''PostRouter'' ''/proj/src/post.router.ts'' None 2]"

definition example_generator :: "(nat, string list, string list, string) generator" where
  "example_generator =
     \<lparr> routerFactory_getRouters = Inr example_routers,
       getPrototypeOf = (\<lambda>i. i + 100),
       procedureFactory_getProcedures =
         (\<lambda>i p. Inr (if i = 1 then [''getUser''] else [''getPost'', ''addPost''])),
       generateStaticDeclaration =
         (\<lambda>sf. (None, sf\<lparr> statements :=
            [ImportDeclaration ''@trpc/server'' [''initTRPC''], ImportDeclaration ''zod'' [''z''],
             Statement ''const t = initTRPC.create();''] \<rparr>)),
       addSchemaImports = (\<lambda>sf names m. (None, sf)),
       rootModuleImportsMap = (\<lambda>n. None),
       serializeRouters = (\<lambda>ms. Inr (map mapped_name ms)),
       generateRoutersStringFromMetadata = (\<lambda>meta. Inr (join_with '', '' meta)),
       path_relative = (\<lambda>a b. drop (Suc (length a)) b),
       middlewareFactory_getMiddlewares = Inr [],
       project_createSourceFile = (\<lambda>p. Inr \<lparr> filePath = p, statements = [] \<rparr>),
       class_name = (\<lambda>c. ''AppContext''),
       getContextInterface = (\<lambda>x c. Inr None),
       getMiddlewareInterface = (\<lambda>p i. Inr None),
       HELPER_TYPES_OUTPUT_PATH = ''/proj/node_modules/nestjs-trpc/types'' \<rparr>"

text \<open>A generator whose serializer throws, and one whose \<^verbatim>\<open>getProcedures\<close> throws for the
  second router.\<close>

definition failing_generator :: "(nat, string list, string list, string) generator" where
  "failing_generator =
     example_generator\<lparr> serializeRouters :=
       (\<lambda>ms. Inl (JsError ''Error'' ''Could not find router class declaration.'')) \<rparr>"

definition failing_procedures_generator :: "(nat, string list, string list, string) generator" where
  "failing_procedures_generator =
     example_generator\<lparr> procedureFactory_getProcedures :=
       (\<lambda>i p. if i = 1 then Inr [''getUser'']
               else Inl (JsError ''TypeError'' ''Cannot convert undefined or null to object'')) \<rparr>"

text \<open>
  A project in \<^verbatim>\<open>/proj\<close>: a \<^verbatim>\<open>tsconfig.json\<close> with the alias \<^verbatim>\<open>@/*\<close> for \<^verbatim>\<open>./src/*\<close>, a
  file \<^verbatim>\<open>src/zod/index.ts\<close> to inject, and a file \<^verbatim>\<open>src/secret.ts\<close> that exists and cannot
  be read.
\<close>

definition example_tsconfig_text :: string where
  "example_tsconfig_text = ''{\"compilerOptions\":{\"paths\":{\"@/*\":[\"./src/*\"]}}}''"

definition example_zod_text :: string where
  "example_zod_text =
     ''import { z } from 'zod';'' @ newline @
     ''export const userSchema = z.object({});'' @ newline"

definition example_env :: env where
  "example_env =
     \<lparr> moduleCallerFilePath = ''/proj/src/app.module.ts'',
       process_cwd = ''/proj'',
       fs_existsSync =
         (\<lambda>p. p \<in> set [''/proj/tsconfig.json'', ''/proj/src/zod/index.ts'', ''/proj/src/secret.ts'']),
       fs_readFileSync = (\<lambda>p.
          if p = ''/proj/tsconfig.json'' then Inr example_tsconfig_text
          else if p = ''/proj/src/zod/index.ts'' then Inr example_zod_text
          else if p = ''/proj/src/secret.ts''
          then Inl (JsError ''Error'' (''EACCES: permission denied, open '' @ p))
          else Inl (JsError ''Error'' (''ENOENT: no such file or directory, open '' @ p))),
       fs_write_error = (\<lambda>p. None),
       JSON_parse = (\<lambda>s.
          if s = example_tsconfig_text
          then Inr (TsConfig (Some (CompilerOptions (Some [(''@/*'', [''./src/*''])]))))
          else if s = ''{}'' then Inr (TsConfig None)
          else Inl (JsError ''SyntaxError'' ''Unexpected end of JSON input'')),
       JSON_stringify = (\<lambda>a.
          if a = [(''@/*'', [''./src/*''])] then ''{\"@/*\":[\"./src/*\"]}'' else ''{}''),
       project_getFullText = (\<lambda>p.
          if p = ''/proj/tsconfig.json'' then Inr example_tsconfig_text
          else Inl (JsError ''Error'' (''File not found: '' @ p))),
       project_getStatementsIfExists = (\<lambda>p.
          if p = ''/proj/src/zod/index.ts''
          then Inr (Some [TsStatement ''ImportDeclaration'' ''import { z } from 'zod';'',
                          TsStatement ''VariableStatement'' ''export const userSchema = z.object({});''])
          else if p = ''/proj/src/secret.ts''
          then Inl (JsError ''Error'' (''EACCES: permission denied, open '' @ p))
          else Inr None),
       ts_parse = parse_lines \<rparr>"


definition unreadable_tsconfig_env :: env where
  "unreadable_tsconfig_env =
     example_env\<lparr>
       fs_readFileSync := (\<lambda>p. Inl (JsError ''Error'' (''EACCES: permission denied, open '' @ p))),
       project_getFullText := (\<lambda>p. Inl (JsError ''Error'' (''EACCES: permission denied, open '' @ p))) \<rparr>"

definition broken_tsconfig_env :: env where
  "broken_tsconfig_env =
     example_env\<lparr> fs_readFileSync := (\<lambda>p. Inr ''{ \"compilerOptions\": '') \<rparr>"

definition relative_env :: env where
  "relative_env = example_env\<lparr> moduleCallerFilePath := ''src/app.module.ts'', fs_existsSync := no_files \<rparr>"

definition example_world :: world where
  "example_world =
     \<lparr> appRouterSourceFile = \<lparr> filePath = ''/proj/src/@generated/server.ts'', statements = [] \<rparr>,
       logs = [],
       disk = [''/proj/src/@generated/server.ts'' \<mapsto> [Statement ''// stale'']] \<rparr>"


subsection \<open>Notions used in the statements about injection\<close>

text \<open>
  The statements of a file that are not import declarations, in order. What
  \<^verbatim>\<open>processedImports\<close> holds after the \<^verbatim>\<open>while\<close> loop, and the text handed to
  \<^verbatim>\<open>addStatements\<close> (\<^verbatim>\<open>cleanedContent\<close>), as functions of the file's content.
\<close>

definition non_imports :: "source_file \<Rightarrow> statement list" where
  "non_imports sf = filter (\<lambda>s. \<not> is_import s) (statements sf)"

definition processed_imports :: "string \<Rightarrow> string list" where
  "processed_imports fileContent = foldl set_add [] (map match0 (exec_all 0 fileContent))"

definition cleaned_content :: "string \<Rightarrow> string" where
  "cleaned_content fileContent =
     trim (cleanup (remove_imports (processed_imports fileContent) fileContent))"

text \<open>
  "Every regex-matched import statement has been deleted from the file's text", as the
  claim about splicing puts it: the text without the characters of any match. (The
  source removes, for each distinct \<^verbatim>\<open>match[0]\<close>, its first occurrence:
  \<^const>\<open>remove_imports\<close>.)
\<close>

fun delete_matches :: "nat \<Rightarrow> string \<Rightarrow> string" where
  "delete_matches k [] = []"
| "delete_matches k (c # cs) =
     (if 0 < k then delete_matches (k - 1) cs
      else
        (case match_import (c # cs) of
           None \<Rightarrow> c # delete_matches 0 cs
         | Some (names, spec, rest) \<Rightarrow> delete_matches (length (c # cs) - length rest - 1) cs))"

text \<open>
  No two import declarations of a file share a module specifier, and no declaration
  lists a named import twice. A named import is plain when it is written as its name
  (no alias, no \<^verbatim>\<open>type\<close> modifier).
\<close>

definition imports_wf :: "source_file \<Rightarrow> bool" where
  "imports_wf sf =
     (distinct (map moduleSpecifier (getImportDeclarations sf)) \<and>
      list_all (\<lambda>d. distinct (namedImports d)) (getImportDeclarations sf))"

definition plain_names :: "string list \<Rightarrow> bool" where
  "plain_names ns = list_all (\<lambda>n. getName n = n) ns"

definition imports_plain :: "source_file \<Rightarrow> bool" where
  "imports_plain sf = list_all (\<lambda>d. plain_names (namedImports d)) (getImportDeclarations sf)"

text \<open>
  \<^const>\<open>process_named_import\<close> seen on the list of import declarations alone, and the
  invariant of the loops over named imports: the declarations have distinct modules and
  distinct plain names, and \<^verbatim>\<open>existingImports\<close> holds every module and every key of
  theirs.
\<close>

definition process_on_imports ::
  "string \<Rightarrow> statement list \<times> string set \<Rightarrow> string \<Rightarrow> statement list \<times> string set" where
  "process_on_imports m st n =
     (case st of (ds, ex) \<Rightarrow>
        if import_key m n \<notin> ex then
          (if m \<notin> ex then (ds @ [ImportDeclaration m [n]], insert (import_key m n) (insert m ex))
           else (add_to_first_import m n ds, insert (import_key m n) ex))
        else (ds, ex))"

definition inv :: "statement list \<Rightarrow> string set \<Rightarrow> bool" where
  "inv ds ex =
     (list_all is_import ds \<and>
      distinct (map moduleSpecifier ds) \<and>
      (\<forall>d \<in> set ds. distinct (namedImports d) \<and> moduleSpecifier d \<in> ex \<and>
         (\<forall>n \<in> set (namedImports d). getName n = n \<and> import_key (moduleSpecifier d) n \<in> ex)))"

definition inv_state :: "source_file \<times> string set \<Rightarrow> bool" where
  "inv_state st = inv (getImportDeclarations (fst st)) (snd st)"


definition statement_names :: "ts_statement \<Rightarrow> string list" where
  "statement_names statement =
     split_named_imports (case search_braces (getText statement) of Some t \<Rightarrow> t | None \<Rightarrow> [])"
















text \<open>Files for the concrete runs.\<close>

definition empty_file :: source_file where
  "empty_file = \<lparr> filePath = ''/proj/src/@generated/server.ts'', statements = [] \<rparr>"


definition aliased_import :: string where
  "aliased_import = ''import { foo as bar } from 'm';''"

definition repeated_import_text :: string where
  "repeated_import_text = ''import { a } from 'm';'' @ newline @ ''import { a } from 'm';'' @ newline"






section \<open>Theorems\<close>

subsection \<open>AppRouterHost\<close>

lemma p_appRouter_host_after:
  "p_appRouter (host_after rs) = (if rs = [] then None else Some (last rs))"
proof (induction rs rule: rev_induct)
  case Nil
  show ?case by (simp add: host_after_def new_AppRouterHost_def)
next
  case (snoc r rs)
  show ?case by (simp add: host_after_def set_appRouter_def)
qed

text \<open>
  C8. In every state of an \<^verbatim>\<open>AppRouterHost\<close> (the host after any sequence \<open>rs\<close> of
  assignments): the \<^verbatim>\<open>appRouter\<close> getter throws exactly when no router has been
  assigned, \<^verbatim>\<open>isRouterReady()\<close> is true exactly when one has been, \<^verbatim>\<open>getRouterSafe()\<close>
  (which has no throwing branch) returns \<^verbatim>\<open>undefined\<close> exactly when none has been, and
  once a router is assigned the three agree on the router assigned last.
\<close>

theorem AppRouterHost_access_discipline:
  "((\<exists>e. get_appRouter (host_after rs) = Inl e) = (rs = [])) \<and>
   (isRouterReady (host_after rs) = (rs \<noteq> [])) \<and>
   ((getRouterSafe (host_after rs) = None) = (rs = [])) \<and>
   (rs \<noteq> [] \<longrightarrow>
      get_appRouter (host_after rs) = Inr (last rs) \<and>
      isRouterReady (host_after rs) \<and>
      getRouterSafe (host_after rs) = Some (last rs))"
  by (simp add: get_appRouter_def isRouterReady_def getRouterSafe_def p_appRouter_host_after)

theorem AppRouterHost_access_discipline_witness:
  "get_appRouter (host_after [1::nat, 2]) = Inr 2 \<and>
   isRouterReady (host_after [1::nat, 2]) \<and>
   getRouterSafe (host_after [1::nat, 2]) = Some 2 \<and>
   get_appRouter (host_after ([]::nat list)) = Inl appRouter_not_created \<and>
   \<not> isRouterReady (host_after ([]::nat list)) \<and>
   getRouterSafe (host_after ([]::nat list)) = None"
  using AppRouterHost_access_discipline [of "[1::nat, 2]"]
        AppRouterHost_access_discipline [of "[]::nat list"]
  by (simp add: get_appRouter_def isRouterReady_def getRouterSafe_def p_appRouter_host_after)

subsection \<open>\<^verbatim>\<open>resolvePathWithAliases\<close>\<close>

text \<open>The replacement the source makes with its regular expression is the one the claim
  describes.\<close>

lemma replace_trailing_star_spec:
  "replace_trailing_star s = trailing_star_as_slash s"
proof (induction s)
  case Nil
  show ?case by (simp add: trailing_star_as_slash_def)
next
  case (Cons c cs)
  show ?case
  proof (cases "c # cs = ''/*''")
    case True
    then show ?thesis by (simp add: trailing_star_as_slash_def)
  next
    case False
    then have suf: "suffix ''/*'' (c # cs) = suffix ''/*'' cs"
      by (auto simp: suffix_Cons)
    show ?thesis
    proof (cases "suffix ''/*'' cs")
      case True
      then obtain q where q: "cs = q @ ''/*''" by (auto simp: suffix_def)
      then have "take (length (c # cs) - 2) (c # cs) = c # take (length cs - 2) cs"
        by simp
      then show ?thesis
        using False True suf Cons.IH by (simp add: trailing_star_as_slash_def)
    next
      case no: False
      then show ?thesis
        using False suf Cons.IH by (simp add: trailing_star_as_slash_def)
    qed
  qed
qed

lemma alias_loop_find:
  "map_option fst (alias_loop cwd p base aliases) =
     map_option (\<lambda>entry. resolve cwd base (alias_target p entry)) (find (alias_matches p) aliases)"
  by (induction aliases)
     (auto simp: alias_matches_def alias_target_def Let_def replace_trailing_star_spec)

lemma resolvePathWithAliases_example:
  "fst (resolvePathWithAliases ''/cwd'' ''@/zod/index.ts''
          [(''~/*'', []), (''@/*'', [''./src/*'', ''./lib/*'']), (''@/zod/*'', [''./other/*''])]
          ''/proj'' []) = Some ''/proj/src/zod/index.ts''"
  by (simp add: resolvePathWithAliases_def isAbsolute_def slash_def
      resolve_def resolve_step_def normalizeString_def alias_log_def Let_def)

text \<open>
  C2. An absolute path is returned unchanged. Otherwise the first entry of the alias
  map, in enumeration order, that has a target and whose pattern (trailing \<^verbatim>\<open>/*\<close>
  replaced by \<^verbatim>\<open>/\<close>) is a prefix of the path decides: the result is
  \<^verbatim>\<open>path.resolve(basePath, t + s)\<close>, \<open>t\<close> the first target with its trailing \<^verbatim>\<open>/*\<close>
  replaced by \<^verbatim>\<open>/\<close> and \<open>s\<close> the path without the alias prefix. With no such entry the
  path is resolved relative to \<^verbatim>\<open>basePath\<close>. So \<^verbatim>\<open>@/zod/index.ts\<close> under the aliases
  \<^verbatim>\<open>~/*\<close> (no target), \<^verbatim>\<open>@/*\<close> (targets \<^verbatim>\<open>./src/*\<close>, \<^verbatim>\<open>./lib/*\<close>) and \<^verbatim>\<open>@/zod/*\<close> is
  \<^verbatim>\<open>src/zod/index.ts\<close> in the base directory.
\<close>

theorem resolvePathWithAliases_first_alias:
  "fst (resolvePathWithAliases cwd p aliases base lg) =
     (if isAbsolute p then Some p
      else case find (alias_matches p) aliases of
             Some entry \<Rightarrow> Some (resolve cwd base (alias_target p entry))
           | None \<Rightarrow> Some (resolve cwd base p)) \<and>
   fst (resolvePathWithAliases ''/cwd'' ''@/zod/index.ts''
          [(''~/*'', []), (''@/*'', [''./src/*'', ''./lib/*'']), (''@/zod/*'', [''./other/*''])]
          ''/proj'' []) = Some ''/proj/src/zod/index.ts''"
proof
  show "fst (resolvePathWithAliases cwd p aliases base lg) =
     (if isAbsolute p then Some p
      else case find (alias_matches p) aliases of
             Some entry \<Rightarrow> Some (resolve cwd base (alias_target p entry))
           | None \<Rightarrow> Some (resolve cwd base p))"
    using alias_loop_find [of cwd p base aliases]
    by (auto simp: resolvePathWithAliases_def split: option.splits)
next
  show "fst (resolvePathWithAliases ''/cwd'' ''@/zod/index.ts''
          [(''~/*'', []), (''@/*'', [''./src/*'', ''./lib/*'']), (''@/zod/*'', [''./other/*''])]
          ''/proj'' []) = Some ''/proj/src/zod/index.ts''"
    by (rule resolvePathWithAliases_example)
qed

subsection \<open>\<^verbatim>\<open>findTsConfigFile\<close>\<close>

lemma findTsConfigFile_loop_returns_only_if:
  assumes "findTsConfigFile_loop ex sp root cur lg = Some r"
  shows "\<exists>n. stops_at ex root ((dirname ^^ n) cur)"
proof (rule findTsConfigFile_loop.raw_induct
    [where P = "\<lambda>ex sp root cur lg r. \<exists>n. stops_at ex root ((dirname ^^ n) cur)", OF _ assms])
  fix f :: "(string \<Rightarrow> bool) \<Rightarrow> string \<Rightarrow> string \<Rightarrow> string \<Rightarrow> log_entry list
     \<Rightarrow> (string option \<times> log_entry list) option"
  fix ex sp root cur lg r
  assume IH: "\<And>ex sp root cur lg r. f ex sp root cur lg = Some r \<Longrightarrow>
     \<exists>n. stops_at ex root ((dirname ^^ n) cur)"
  assume step: "(if cur \<noteq> root
      then if ex (join cur ''tsconfig.json'')
           then Some (Some (join cur ''tsconfig.json''),
                  lg @ [Log (''Found tsconfig.json at: '' @ join cur ''tsconfig.json'') ''Path Resolution''])
           else f ex sp root (dirname cur)
                 (lg @ [Log (''No tsconfig.json found at: '' @ cur @ '', moving up...'') ''Path Resolution''])
      else Some (None,
             lg @ [Warn (''Could not find tsconfig.json in any parent directory of: '' @ sp) ''Path Resolution''])) =
     Some r"
  show "\<exists>n. stops_at ex root ((dirname ^^ n) cur)"
  proof (cases "stops_at ex root cur")
    case True
    then have "stops_at ex root ((dirname ^^ 0) cur)" by simp
    then show ?thesis by blast
  next
    case False
    with step have "f ex sp root (dirname cur)
        (lg @ [Log (''No tsconfig.json found at: '' @ cur @ '', moving up...'') ''Path Resolution'']) = Some r"
      by (simp add: stops_at_def)
    from IH[OF this] obtain n where "stops_at ex root ((dirname ^^ n) (dirname cur))" by blast
    then have "stops_at ex root ((dirname ^^ Suc n) cur)" by (simp add: funpow_swap1)
    then show ?thesis by blast
  qed
qed

lemma findTsConfigFile_loop_step:
  "cur \<noteq> root \<Longrightarrow> \<not> ex (join cur ''tsconfig.json'') \<Longrightarrow>
   findTsConfigFile_loop ex sp root cur lg =
   findTsConfigFile_loop ex sp root (dirname cur)
     (lg @ [Log (''No tsconfig.json found at: '' @ cur @ '', moving up...'') ''Path Resolution''])"
  by (simp add: findTsConfigFile_loop.simps [of ex sp root cur lg])

text \<open>
  When the chain of parents reaches a stopping directory after \<open>n\<close> steps and not
  before, the loop returns: \<^verbatim>\<open>null\<close> if that directory is the root, its
  \<^verbatim>\<open>tsconfig.json\<close> otherwise.
\<close>

lemma findTsConfigFile_loop_result:
  "stops_at ex root ((dirname ^^ n) cur) \<Longrightarrow>
   \<forall>k<n. \<not> stops_at ex root ((dirname ^^ k) cur) \<Longrightarrow>
   map_option fst (findTsConfigFile_loop ex sp root cur lg) =
     Some (if (dirname ^^ n) cur = root then None
           else Some (join ((dirname ^^ n) cur) ''tsconfig.json''))"
proof (induction n arbitrary: cur lg)
  case 0
  then show ?case
    by (subst findTsConfigFile_loop.simps) (auto simp: stops_at_def)
next
  case (Suc n)
  from Suc.prems(2) have ns: "\<not> stops_at ex root cur" by force
  have a: "stops_at ex root ((dirname ^^ n) (dirname cur))"
    using Suc.prems(1) by (simp add: funpow_swap1)
  have b: "\<forall>k<n. \<not> stops_at ex root ((dirname ^^ k) (dirname cur))"
  proof (intro allI impI)
    fix k assume "k < n"
    then have "Suc k < Suc n" by simp
    with Suc.prems(2) have "\<not> stops_at ex root ((dirname ^^ Suc k) cur)" by blast
    then show "\<not> stops_at ex root ((dirname ^^ k) (dirname cur))" by (simp add: funpow_swap1)
  qed
  from ns obtain lg' where
    "findTsConfigFile_loop ex sp root cur lg = findTsConfigFile_loop ex sp root (dirname cur) lg'"
    using findTsConfigFile_loop_step [of cur root ex sp lg] by (auto simp: stops_at_def)
  then have "map_option fst (findTsConfigFile_loop ex sp root cur lg) =
      map_option fst (findTsConfigFile_loop ex sp root (dirname cur) lg')"
    by (simp only:)
  also note Suc.IH[OF a b, of lg']
  also have "(dirname ^^ n) (dirname cur) = (dirname ^^ Suc n) cur"
    by (simp add: funpow_swap1)
  finally show ?case .
qed

text \<open>The loop returns exactly when the chain of parents reaches a stopping directory.\<close>

lemma findTsConfigFile_loop_returns_iff:
  "(\<exists>r. findTsConfigFile_loop ex sp root cur lg = Some r) =
   (\<exists>n. stops_at ex root ((dirname ^^ n) cur))"
proof
  assume "\<exists>r. findTsConfigFile_loop ex sp root cur lg = Some r"
  then show "\<exists>n. stops_at ex root ((dirname ^^ n) cur)"
    using findTsConfigFile_loop_returns_only_if by blast
next
  assume "\<exists>n. stops_at ex root ((dirname ^^ n) cur)"
  then obtain n where n: "stops_at ex root ((dirname ^^ n) cur)" by blast
  define m where "m = (LEAST k. stops_at ex root ((dirname ^^ k) cur))"
  have m1: "stops_at ex root ((dirname ^^ m) cur)"
    unfolding m_def using n by (rule LeastI)
  have m2: "\<forall>k<m. \<not> stops_at ex root ((dirname ^^ k) cur)"
    unfolding m_def using not_less_Least by blast
  from findTsConfigFile_loop_result[OF m1 m2, of sp lg]
  show "\<exists>r. findTsConfigFile_loop ex sp root cur lg = Some r"
    by (cases "findTsConfigFile_loop ex sp root cur lg") auto
qed

lemma dirname_dot: "dirname ''.'' = ''.''"
  by (simp add: dirname_def slash_def)

lemma funpow_dirname_dot: "(dirname ^^ n) ''.'' = ''.''"
  by (induction n) (simp_all add: dirname_dot)

text \<open>
  From \<^verbatim>\<open>.\<close> with the root \<^verbatim>\<open>''\<close> of a relative path the loop never returns, unless
  the working directory holds a \<^verbatim>\<open>tsconfig.json\<close>: the parent of \<^verbatim>\<open>.\<close> is \<^verbatim>\<open>.\<close>.
\<close>

lemma findTsConfigFile_loop_dot_diverges:
  assumes "\<not> ex (join ''.'' ''tsconfig.json'')"
  shows "findTsConfigFile_loop ex sp [] ''.'' lg = None"
proof (cases "findTsConfigFile_loop ex sp [] ''.'' lg")
  case None then show ?thesis .
next
  case (Some r)
  then obtain n where "stops_at ex [] ((dirname ^^ n) ''.'')"
    using findTsConfigFile_loop_returns_only_if by blast
  with assms show ?thesis by (simp add: funpow_dirname_dot stops_at_def)
qed

lemma dirname_scan_bounds:
  "dirname_scan path i m = Some e \<Longrightarrow> 1 \<le> e \<and> e \<le> i \<and> (m \<longrightarrow> e < i)"
proof (induction path i m rule: dirname_scan.induct)
  case (1 path matchedSlash)
  then show ?case by simp
next
  case (2 path i matchedSlash)
  then show ?case by (auto split: if_splits)
qed

lemma dirname_absolute:
  assumes "isAbsolute p"
  shows "isAbsolute (dirname p)"
proof -
  from assms obtain cs where p: "p = slash # cs"
    by (cases p) (auto simp: isAbsolute_def)
  show ?thesis
  proof (cases "dirname_scan p (length p - 1) True")
    case None
    then show ?thesis using p by (simp add: dirname_def isAbsolute_def slash_def)
  next
    case (Some e)
    from dirname_scan_bounds[OF Some] have "1 \<le> e" by simp
    then obtain e' where "e = Suc e'" by (cases e) auto
    then show ?thesis using p Some by (simp add: dirname_def isAbsolute_def slash_def)
  qed
qed

lemma dirname_shorter:
  assumes "isAbsolute p" and "p \<noteq> ''/''"
  shows "length (dirname p) < length p"
proof -
  from assms obtain cs where p: "p = slash # cs" and cs: "cs \<noteq> []"
    by (cases p) (auto simp: isAbsolute_def slash_def)
  show ?thesis
  proof (cases "dirname_scan p (length p - 1) True")
    case None
    then show ?thesis using p cs by (simp add: dirname_def)
  next
    case (Some e)
    from dirname_scan_bounds[OF Some] have e: "1 \<le> e" "e < length p - 1" by simp_all
    then show ?thesis using p Some by (auto simp: dirname_def)
  qed
qed

lemma absolute_reaches_root:
  "isAbsolute p \<Longrightarrow> \<exists>n. (dirname ^^ n) p = ''/''"
proof (induction "length p" arbitrary: p rule: less_induct)
  case less
  show ?case
  proof (cases "p = ''/''")
    case True
    then have "(dirname ^^ 0) p = ''/''" by simp
    then show ?thesis by blast
  next
    case False
    from dirname_shorter[OF less.prems False] dirname_absolute[OF less.prems]
    obtain n where "(dirname ^^ n) (dirname p) = ''/''"
      using less.hyps by blast
    then have "(dirname ^^ Suc n) p = ''/''" by (simp add: funpow_swap1)
    then show ?thesis by blast
  qed
qed

text \<open>For an absolute start path the search returns, whatever the file system holds.\<close>

lemma findTsConfigFile_absolute_returns:
  assumes "isAbsolute startPath"
  shows "\<exists>r. findTsConfigFile ex startPath lg = Some r"
proof -
  have abs: "isAbsolute (dirname startPath)" using assms by (rule dirname_absolute)
  then obtain n where "(dirname ^^ n) (dirname startPath) = ''/''"
    using absolute_reaches_root by blast
  then have "\<exists>n. stops_at ex ''/'' ((dirname ^^ n) (dirname startPath))"
    by (auto simp: stops_at_def)
  then show ?thesis
    using abs findTsConfigFile_loop_returns_iff [of ex startPath "''/''" "dirname startPath"]
    by (simp add: findTsConfigFile_def parse_root_def Let_def)
qed


text \<open>
  Two runs on a file system whose only \<^verbatim>\<open>tsconfig.json\<close> sits in the root directory.
  From \<^verbatim>\<open>/proj/src/app.module.ts\<close> the root is not looked into and the result is
  \<^verbatim>\<open>null\<close>. From \<^verbatim>\<open>//proj/app.module.ts\<close> the chain of parents passes through \<^verbatim>\<open>//\<close>,
  which is not the string \<^verbatim>\<open>/\<close>, and \<^verbatim>\<open>path.join\<close> turns it into the root's
  \<^verbatim>\<open>tsconfig.json\<close>.
\<close>

lemma findTsConfigFile_root_not_inspected:
  "map_option fst (findTsConfigFile only_root_tsconfig ''/proj/src/app.module.ts'' []) = Some None"
  apply (simp add: findTsConfigFile_def Let_def dirname_def slash_def parse_root_def isAbsolute_def)
  apply (simp add: findTsConfigFile_loop.simps join_def normalize_def normalizeString_def
      isAbsolute_def slash_def dirname_def only_root_tsconfig_def)
  done

lemma findTsConfigFile_double_slash_inspects_root:
  "map_option fst (findTsConfigFile only_root_tsconfig ''//proj/app.module.ts'' []) =
     Some (Some ''/tsconfig.json'')"
  apply (simp add: findTsConfigFile_def Let_def dirname_def slash_def parse_root_def isAbsolute_def)
  apply (simp add: findTsConfigFile_loop.simps join_def normalize_def normalizeString_def
      isAbsolute_def slash_def dirname_def only_root_tsconfig_def)
  done

text \<open>
  C10. \<^verbatim>\<open>findTsConfigFile\<close> does not terminate for every start path: for the relative
  path \<^verbatim>\<open>src/app.module.ts\<close> and a file system with no \<^verbatim>\<open>tsconfig.json\<close>, the root
  computed by \<^verbatim>\<open>path.parse\<close> is \<^verbatim>\<open>''\<close>, the chain of parents is \<^verbatim>\<open>src\<close>, \<^verbatim>\<open>.\<close>, \<^verbatim>\<open>.\<close>,
  ... and the loop never returns.
\<close>

theorem findTsConfigFile_relative_path_diverges:
  "findTsConfigFile no_files ''src/app.module.ts'' [] = None"
  apply (simp add: findTsConfigFile_def Let_def)
  apply (subst findTsConfigFile_loop.simps)
  apply (simp add: no_files_def dirname_def slash_def parse_root_def isAbsolute_def
      findTsConfigFile_loop_dot_diverges)
  done

subsection \<open>\<^verbatim>\<open>generateSchemaFile\<close>: discovering the routers\<close>

lemma map_routes_Inr:
  "map_routes g routers = Inr mapped \<Longrightarrow>
     length mapped = length routers \<and>
     (\<forall>i<length routers. map_route g (routers ! i) = Inr (mapped ! i))"
proof (induction routers arbitrary: mapped)
  case Nil
  then show ?case by simp
next
  case (Cons r rs)
  from Cons.prems obtain m ms where m: "map_route g r = Inr m" and ms: "map_routes g rs = Inr ms"
    and mapped: "mapped = m # ms"
    by (auto split: sum.splits)
  from Cons.IH[OF ms] have len: "length ms = length rs"
    and nth: "\<forall>i<length rs. map_route g (rs ! i) = Inr (ms ! i)" by simp_all
  show ?case
  proof (intro conjI allI impI)
    show "length mapped = length (r # rs)" using len mapped by simp
  next
    fix i assume "i < length (r # rs)"
    then show "map_route g ((r # rs) ! i) = Inr (mapped ! i)"
      using m nth mapped by (cases i) auto
  qed
qed

lemma map_routes_total:
  "(\<forall>route \<in> set routers. \<exists>m. map_route g route = Inr m) \<Longrightarrow> \<exists>mapped. map_routes g routers = Inr mapped"
  by (induction routers) auto

lemma map_route_Inr_iff:
  "(map_route g route = Inr m) =
   (procedureFactory_getProcedures g (route_instance route) (getPrototypeOf g (route_instance route)) = Inr (mapped_procedures m) \<and>
    mapped_name m = route_name route \<and> mapped_path m = route_path route \<and>
    mapped_alias m = route_alias route \<and> mapped_instance m = route)"
  by (cases m) (auto simp: map_route_def split: sum.splits)

lemma map_routes_instances:
  "map_routes g routers = Inr mapped \<Longrightarrow> map mapped_instance mapped = routers"
proof (induction routers arbitrary: mapped)
  case Nil
  then show ?case by simp
next
  case (Cons r rs)
  from Cons.prems obtain m ms where m: "map_route g r = Inr m" and ms: "map_routes g rs = Inr ms"
    and mapped: "mapped = m # ms"
    by (auto split: sum.splits)
  from m have "mapped_instance m = r" by (simp add: map_route_Inr_iff)
  with Cons.IH[OF ms] mapped show ?case by simp
qed

text \<open>The map throws what \<^verbatim>\<open>getProcedures\<close> throws for some router.\<close>

lemma map_routes_Inl:
  "map_routes g routers = Inl error \<Longrightarrow>
     \<exists>route \<in> set routers.
       procedureFactory_getProcedures g (route_instance route)
         (getPrototypeOf g (route_instance route)) = Inl error"
proof (induction routers)
  case Nil
  then show ?case by simp
next
  case (Cons r rs)
  show ?case
  proof (cases "map_route g r")
    case (Inl e)
    with Cons.prems have "e = error" by simp
    with Inl show ?thesis by (auto simp: map_route_def split: sum.splits)
  next
    case (Inr m)
    with Cons.prems have "map_routes g rs = Inl error" by (auto split: sum.splits)
    from Cons.IH[OF this] show ?thesis by auto
  qed
qed

lemma map_routes_throws:
  assumes "route \<in> set routers"
    and "procedureFactory_getProcedures g (route_instance route)
           (getPrototypeOf g (route_instance route)) = Inl error"
  shows "\<exists>error'. map_routes g routers = Inl error'"
proof (cases "map_routes g routers")
  case (Inl e)
  then show ?thesis by blast
next
  case (Inr mapped)
  from assms(1) obtain i where i: "i < length routers" "routers ! i = route"
    by (auto simp: in_set_conv_nth)
  from map_routes_Inr[OF Inr] i have "map_route g route = Inr (mapped ! i)" by auto
  with assms(2) show ?thesis by (simp add: map_route_def)
qed

text \<open>
  C6, as amended. Let the factory return the list \<open>routers\<close>. If \<^verbatim>\<open>getProcedures\<close>
  returns for every router, the map in \<^verbatim>\<open>generateSchemaFile\<close> returns a list of the same
  length whose entry at each position carries the name, path and alias of the router at
  that position unchanged, a copy of the router as its instance, and the procedures
  \<^verbatim>\<open>getProcedures\<close> returned for the router's instance and its prototype; the method goes
  on with this list. If \<^verbatim>\<open>getProcedures\<close> throws for some router, there is no mapped
  list: the exception of some router is caught, logged as a warning, and the call ends
  with the world otherwise as it was.
\<close>

theorem router_discovery_preserves_metadata_and_order:
  assumes "routerFactory_getRouters g = Inr routers"
  shows "((\<forall>route \<in> set routers. \<exists>procedures.
             procedureFactory_getProcedures g (route_instance route)
               (getPrototypeOf g (route_instance route)) = Inr procedures) \<longrightarrow>
          (\<exists>mapped. map_routes g routers = Inr mapped \<and>
             length mapped = length routers \<and>
             (\<forall>i<length routers.
                mapped_name (mapped ! i) = route_name (routers ! i) \<and>
                mapped_path (mapped ! i) = route_path (routers ! i) \<and>
                mapped_alias (mapped ! i) = route_alias (routers ! i) \<and>
                mapped_instance (mapped ! i) = routers ! i \<and>
                procedureFactory_getProcedures g (route_instance (routers ! i))
                  (getPrototypeOf g (route_instance (routers ! i))) =
                  Inr (mapped_procedures (mapped ! i))) \<and>
             generateSchemaFile_try rv e g schemaImports injectFiles w =
               generate_after_mapping rv e g schemaImports injectFiles mapped w)) \<and>
         ((\<exists>route \<in> set routers. \<exists>error.
             procedureFactory_getProcedures g (route_instance route)
               (getPrototypeOf g (route_instance route)) = Inl error) \<longrightarrow>
          (\<exists>route \<in> set routers. \<exists>error.
             procedureFactory_getProcedures g (route_instance route)
               (getPrototypeOf g (route_instance route)) = Inl error \<and>
             map_routes g routers = Inl error \<and>
             generateSchemaFile rv e g schemaImports injectFiles w =
               Some (Resolved,
                     w\<lparr> logs := logs w @ [WarnErr ''TRPC Generator encountered an error.'' error] \<rparr>)))"
proof (intro conjI impI)
  assume a: "\<forall>route \<in> set routers. \<exists>procedures.
             procedureFactory_getProcedures g (route_instance route)
               (getPrototypeOf g (route_instance route)) = Inr procedures"
  then have "\<forall>route \<in> set routers. \<exists>m. map_route g route = Inr m"
    by (auto simp: map_route_def split: sum.splits)
  then obtain mapped where mapped: "map_routes g routers = Inr mapped"
    using map_routes_total by blast
  have t: "generateSchemaFile_try rv e g schemaImports injectFiles w =
               generate_after_mapping rv e g schemaImports injectFiles mapped w"
    using assms mapped by (simp add: generateSchemaFile_try_def)
  from map_routes_Inr[OF mapped] mapped t
  show "\<exists>mapped. map_routes g routers = Inr mapped \<and>
             length mapped = length routers \<and>
             (\<forall>i<length routers.
                mapped_name (mapped ! i) = route_name (routers ! i) \<and>
                mapped_path (mapped ! i) = route_path (routers ! i) \<and>
                mapped_alias (mapped ! i) = route_alias (routers ! i) \<and>
                mapped_instance (mapped ! i) = routers ! i \<and>
                procedureFactory_getProcedures g (route_instance (routers ! i))
                  (getPrototypeOf g (route_instance (routers ! i))) =
                  Inr (mapped_procedures (mapped ! i))) \<and>
             generateSchemaFile_try rv e g schemaImports injectFiles w =
               generate_after_mapping rv e g schemaImports injectFiles mapped w"
    by (auto simp: map_route_Inr_iff)
next
  assume "\<exists>route \<in> set routers. \<exists>error.
             procedureFactory_getProcedures g (route_instance route)
               (getPrototypeOf g (route_instance route)) = Inl error"
  then obtain error' where err: "map_routes g routers = Inl error'"
    using map_routes_throws by blast
  from map_routes_Inl[OF err] obtain route where
    r: "route \<in> set routers"
       "procedureFactory_getProcedures g (route_instance route)
          (getPrototypeOf g (route_instance route)) = Inl error'"
    by blast
  have "generateSchemaFile rv e g schemaImports injectFiles w =
               Some (Resolved,
                     w\<lparr> logs := logs w @ [WarnErr ''TRPC Generator encountered an error.'' error'] \<rparr>)"
    using assms err
    by (simp add: generateSchemaFile_def generateSchemaFile_try_def catch_and_warn_def settle_def)
  with r err
  show "\<exists>route \<in> set routers. \<exists>error.
             procedureFactory_getProcedures g (route_instance route)
               (getPrototypeOf g (route_instance route)) = Inl error \<and>
             map_routes g routers = Inl error \<and>
             generateSchemaFile rv e g schemaImports injectFiles w =
               Some (Resolved,
                     w\<lparr> logs := logs w @ [WarnErr ''TRPC Generator encountered an error.'' error] \<rparr>)"
    by blast
qed

theorem router_discovery_witness:
  "(\<exists>mapped. map_routes example_generator example_routers = Inr mapped \<and>
     length mapped = 2 \<and>
     mapped ! 0 = MappedRoute ''UserRouter'' ''/proj/src/user.router.ts'' (Some ''users'')
                    (Route ''UserRouter'' ''/proj/src/user.router.ts'' (Some ''users'') 1) [''getUser''] \<and>
     mapped ! 1 = MappedRoute ''PostRouter'' ''/proj/src/post.router.ts'' None
                    (Route ''PostRouter'' ''/proj/src/post.router.ts'' None 2) [''getPost'', ''addPost'']) \<and>
   generateSchemaFile RegexRevision example_env failing_procedures_generator None None example_world =
     Some (Resolved,
           example_world\<lparr> logs :=
             [WarnErr ''TRPC Generator encountered an error.''
                (JsError ''TypeError'' ''Cannot convert undefined or null to object'')] \<rparr>)"
proof
  have g: "routerFactory_getRouters example_generator = Inr example_routers"
    by (simp add: example_generator_def)
  have h: "\<forall>route \<in> set example_routers. \<exists>procedures.
      procedureFactory_getProcedures example_generator (route_instance route)
        (getPrototypeOf example_generator (route_instance route)) = Inr procedures"
    by (simp add: example_routers_def example_generator_def)
  from router_discovery_preserves_metadata_and_order [OF g, THEN conjunct1, THEN mp, OF h]
  obtain mapped where m: "map_routes example_generator example_routers = Inr mapped"
    and len: "length mapped = length example_routers"
    and nth: "\<forall>i<length example_routers.
         mapped_name (mapped ! i) = route_name (example_routers ! i) \<and>
         mapped_path (mapped ! i) = route_path (example_routers ! i) \<and>
         mapped_alias (mapped ! i) = route_alias (example_routers ! i) \<and>
         mapped_instance (mapped ! i) = example_routers ! i \<and>
         procedureFactory_getProcedures example_generator (route_instance (example_routers ! i))
           (getPrototypeOf example_generator (route_instance (example_routers ! i))) =
         Inr (mapped_procedures (mapped ! i))"
    by blast
  have l2: "(0::nat) < length example_routers" "(1::nat) < length example_routers"
    by (simp_all add: example_routers_def)
  from nth[rule_format, OF l2(1)] have n0: "mapped ! 0 = MappedRoute ''UserRouter'' ''/proj/src/user.router.ts'' (Some ''users'')
                    (Route ''UserRouter'' ''/proj/src/user.router.ts'' (Some ''users'') 1) [''getUser'']"
    by (cases "mapped ! 0") (simp add: example_routers_def example_generator_def)
  from nth[rule_format, OF l2(2)] have n1: "mapped ! 1 = MappedRoute ''PostRouter'' ''/proj/src/post.router.ts'' None
                    (Route ''PostRouter'' ''/proj/src/post.router.ts'' None 2) [''getPost'', ''addPost'']"
    by (cases "mapped ! 1") (simp add: example_routers_def example_generator_def)
  from m len n0 n1
  show "\<exists>mapped. map_routes example_generator example_routers = Inr mapped \<and>
     length mapped = 2 \<and>
     mapped ! 0 = MappedRoute ''UserRouter'' ''/proj/src/user.router.ts'' (Some ''users'')
                    (Route ''UserRouter'' ''/proj/src/user.router.ts'' (Some ''users'') 1) [''getUser''] \<and>
     mapped ! 1 = MappedRoute ''PostRouter'' ''/proj/src/post.router.ts'' None
                    (Route ''PostRouter'' ''/proj/src/post.router.ts'' None 2) [''getPost'', ''addPost'']"
    by (simp add: example_routers_def)
next
  have g: "routerFactory_getRouters failing_procedures_generator = Inr example_routers"
    by (simp add: failing_procedures_generator_def example_generator_def)
  have h: "\<exists>route \<in> set example_routers. \<exists>error.
      procedureFactory_getProcedures failing_procedures_generator (route_instance route)
        (getPrototypeOf failing_procedures_generator (route_instance route)) = Inl error"
    by (simp add: example_routers_def failing_procedures_generator_def example_generator_def)
  have only: "\<And>route error. route \<in> set example_routers \<Longrightarrow>
      procedureFactory_getProcedures failing_procedures_generator (route_instance route)
        (getPrototypeOf failing_procedures_generator (route_instance route)) = Inl error \<Longrightarrow>
      error = JsError ''TypeError'' ''Cannot convert undefined or null to object''"
    by (auto simp: example_routers_def failing_procedures_generator_def example_generator_def
             split: if_splits)
  from router_discovery_preserves_metadata_and_order
    [OF g, THEN conjunct2, THEN mp, OF h,
     of RegexRevision example_env None None example_world]
  obtain route error where
    "route \<in> set example_routers"
    "procedureFactory_getProcedures failing_procedures_generator (route_instance route)
        (getPrototypeOf failing_procedures_generator (route_instance route)) = Inl error"
    "generateSchemaFile RegexRevision example_env failing_procedures_generator None None example_world =
       Some (Resolved,
             example_world\<lparr> logs := logs example_world @
                [WarnErr ''TRPC Generator encountered an error.'' error] \<rparr>)"
    by blast
  with only[OF this(1,2)]
  show "generateSchemaFile RegexRevision example_env failing_procedures_generator None None example_world =
     Some (Resolved,
           example_world\<lparr> logs :=
             [WarnErr ''TRPC Generator encountered an error.''
                (JsError ''TypeError'' ''Cannot convert undefined or null to object'')] \<rparr>)"
    by (simp add: example_world_def)
qed

text \<open>
  C6 as stated fails: with a \<^verbatim>\<open>getProcedures\<close> that throws for the second of two
  routers there is no mapped entry for either, and the call ends with a warning.
\<close>

theorem router_discovery_counterexample:
  "routerFactory_getRouters failing_procedures_generator = Inr example_routers \<and>
   length example_routers = 2 \<and>
   map_routes failing_procedures_generator example_routers =
     Inl (JsError ''TypeError'' ''Cannot convert undefined or null to object'') \<and>
   generateSchemaFile_try RegexRevision example_env failing_procedures_generator None None example_world =
     Some (Some (JsError ''TypeError'' ''Cannot convert undefined or null to object''), example_world)"
  by (simp add: failing_procedures_generator_def example_generator_def example_routers_def
      map_route_def generateSchemaFile_try_def)

subsection \<open>\<^verbatim>\<open>injectFilesContent\<close>: finding and reading \<^verbatim>\<open>tsconfig.json\<close>\<close>

lemma join_not_empty: "join a b \<noteq> []"
  by (auto simp: join_def normalize_def Let_def)

lemma findTsConfigFile_loop_result_not_empty:
  assumes "findTsConfigFile_loop ex sp root cur lg = Some r"
  shows "fst r \<noteq> Some []"
proof (rule findTsConfigFile_loop.raw_induct
    [where P = "\<lambda>ex sp root cur lg r. fst r \<noteq> Some []", OF _ assms])
  fix f :: "(string \<Rightarrow> bool) \<Rightarrow> string \<Rightarrow> string \<Rightarrow> string \<Rightarrow> log_entry list
     \<Rightarrow> (string option \<times> log_entry list) option"
  fix ex sp root cur lg r
  assume IH: "\<And>ex sp root cur lg r. f ex sp root cur lg = Some r \<Longrightarrow> fst r \<noteq> Some []"
  assume step: "(if cur \<noteq> root
      then if ex (join cur ''tsconfig.json'')
           then Some (Some (join cur ''tsconfig.json''),
                  lg @ [Log (''Found tsconfig.json at: '' @ join cur ''tsconfig.json'') ''Path Resolution''])
           else f ex sp root (dirname cur)
                 (lg @ [Log (''No tsconfig.json found at: '' @ cur @ '', moving up...'') ''Path Resolution''])
      else Some (None,
             lg @ [Warn (''Could not find tsconfig.json in any parent directory of: '' @ sp) ''Path Resolution''])) =
     Some r"
  show "fst r \<noteq> Some []"
  proof (cases "cur \<noteq> root \<and> \<not> ex (join cur ''tsconfig.json'')")
    case True
    with step IH show ?thesis by simp
  next
    case False
    with step show ?thesis by (auto simp: join_not_empty split: if_splits)
  qed
qed

lemma findTsConfigFile_truthy:
  "findTsConfigFile ex sp lg = Some (r, lg') \<Longrightarrow> truthy r = (r \<noteq> None)"
  using findTsConfigFile_loop_result_not_empty
    [of ex sp "parse_root (dirname sp)" "dirname sp" _ "(r, lg')"]
  by (cases r) (auto simp: findTsConfigFile_def Let_def truthy_def)

text \<open>The search returns exactly when the chain of parents of the start file reaches a
  stopping directory.\<close>

lemma findTsConfigFile_returns_iff:
  "(\<exists>r. findTsConfigFile ex sp lg = Some r) =
   (\<exists>n. stops_at ex (parse_root (dirname sp)) ((dirname ^^ n) (dirname sp)))"
  using findTsConfigFile_loop_returns_iff [of ex sp "parse_root (dirname sp)" "dirname sp"]
  by (simp add: findTsConfigFile_def Let_def)


text \<open>Runs in the example project: the search from \<^verbatim>\<open>/proj/src/app.module.ts\<close>, with
  and without \<^verbatim>\<open>/proj/tsconfig.json\<close>; the resolution of two inject paths; the injection
  of \<^verbatim>\<open>src/zod/index.ts\<close> into an empty file.\<close>

lemma findTsConfigFile_example_found:
  "fs_existsSync e = fs_existsSync example_env \<Longrightarrow>
   findTsConfigFile (fs_existsSync e) ''/proj/src/app.module.ts'' lg =
     Some (Some ''/proj/tsconfig.json'',
       lg @
       [Log ''Looking for tsconfig.json starting from: /proj/src/app.module.ts'' ''Path Resolution'',
        Log ''Root directory: /'' ''Path Resolution'',
        Log ''No tsconfig.json found at: /proj/src, moving up...'' ''Path Resolution'',
        Log ''Found tsconfig.json at: /proj/tsconfig.json'' ''Path Resolution''])"
  apply (simp add: example_env_def findTsConfigFile_def Let_def dirname_def slash_def
      parse_root_def isAbsolute_def)
  apply (simp add: findTsConfigFile_loop.simps join_def normalize_def normalizeString_def
      isAbsolute_def slash_def dirname_def)
  done


lemma example_resolve:
  "resolvePathWithAliases ''/proj'' (''@/'' @ rest) [(''@/*'', [''./src/*''])] ''/proj'' lg =
     (Some (resolve ''/proj'' ''/proj'' (''./src/'' @ rest)),
      lg @ [alias_log (''@/'' @ rest) ''@/*'' ''./src/*'' rest (''./src/'' @ rest)
              (resolve ''/proj'' ''/proj'' (''./src/'' @ rest))])"
  by (simp add: resolvePathWithAliases_def isAbsolute_def slash_def Let_def)

lemma example_resolve_zod:
  "resolve ''/proj'' ''/proj'' ''./src/zod/index.ts'' = ''/proj/src/zod/index.ts''"
  by (simp add: resolve_def resolve_step_def normalizeString_def isAbsolute_def slash_def)


lemma example_inject_zod_regex:
  "inject_file_regex example_env [(''@/*'', [''./src/*''])] ''/proj''
     (example_world\<lparr> appRouterSourceFile := sf, logs := lg \<rparr>) ''@/zod/index.ts'' =
   example_world\<lparr>
     appRouterSourceFile := inject_content parse_lines example_zod_text sf,
     logs := lg @
       [Log ''Resolving file path: @/zod/index.ts'' ''TRPC Generator'',
        alias_log ''@/zod/index.ts'' ''@/*'' ''./src/*'' ''zod/index.ts'' ''./src/zod/index.ts''
          ''/proj/src/zod/index.ts'',
        Log ''Resolved path: /proj/src/zod/index.ts'' ''TRPC Generator'',
        Log ''Reading file: /proj/src/zod/index.ts'' ''TRPC Generator'',
        Log ''Successfully injected content from @/zod/index.ts (resolved to /proj/src/zod/index.ts)''
          ''TRPC Generator''] \<rparr>"
  using example_resolve [of "''zod/index.ts''"]
  by (simp add: inject_file_regex_def resolve_inject_path_def Let_def logger_log_def
      example_resolve_zod or_null_def truthy_def example_env_def example_world_def)


subsection \<open>\<^verbatim>\<open>generateSchemaFile\<close> and \<^verbatim>\<open>generateHelpersFile\<close>: errors\<close>

lemma failing_run:
  "generateSchemaFile_try rv example_env failing_generator None None example_world =
     Some (Some (JsError ''Error'' ''Could not find router class declaration.''),
           example_world\<lparr> appRouterSourceFile :=
             \<lparr> filePath = ''/proj/src/@generated/server.ts'',
               statements =
                 [ImportDeclaration ''@trpc/server'' [''initTRPC''],
                  ImportDeclaration ''zod'' [''z''],
                  Statement ''const t = initTRPC.create();''] \<rparr> \<rparr>)"
  by (simp add: generateSchemaFile_try_def generate_after_mapping_def failing_generator_def
      example_generator_def example_routers_def map_route_def schema_imports_step_def
      inject_step_def emit_and_save_def example_world_def)

text \<open>The handler of the \<^verbatim>\<open>catch\<close> returns, so no exception leaves the body of the
  method.\<close>

lemma catch_and_warn_returns: "fst (catch_and_warn r) = None"
  by (cases r) (auto simp: catch_and_warn_def split: option.splits)

lemma settle_catch_and_warn: "fst (settle (catch_and_warn r)) = Resolved"
  using catch_and_warn_returns [of r]
  by (cases "catch_and_warn r") (simp add: settle_def)

lemma resolve_inject_path_only_logs:
  "resolve_inject_path e pathAliases basePath w injectPath = (r, w2) \<Longrightarrow>
     appRouterSourceFile w2 = appRouterSourceFile w \<and> disk w2 = disk w"
  by (auto simp: resolve_inject_path_def Let_def logger_log_def split: prod.splits)

text \<open>
  C9. The promise of \<^verbatim>\<open>generateSchemaFile\<close>, when it settles, is resolved, and so is the
  promise of \<^verbatim>\<open>generateHelpersFile\<close>: an exception of the \<^verbatim>\<open>try\<close> block is caught and
  becomes one more warning in the log. Nothing is rolled back: the world after the call
  is the world as the \<^verbatim>\<open>try\<close> block left it when it threw, plus the warning.

  Failures while reading, resolving or injecting files do not even reach that \<^verbatim>\<open>catch\<close>;
  \<^verbatim>\<open>injectFilesContent\<close> turns each into a warning of its own and changes nothing else:
  a \<^verbatim>\<open>tsconfig.json\<close> that cannot be read, or whose text is not JSON, ends the injection
  with the warning \<^verbatim>\<open>Error injecting files: ...\<close>; an inject path that resolves to no
  file is skipped with a warning; a file that cannot be read or loaded is skipped with
  the warning \<^verbatim>\<open>Error injecting file ...\<close>.

  The last conjunct is a run in which the serializer throws after the static
  declarations were written to the app-router file: the file stays modified.
\<close>

theorem generator_methods_never_reject:
  "(\<forall>r w'. generateSchemaFile rv e g schemaImports injectFiles w = Some (r, w') \<longrightarrow> r = Resolved) \<and>
   fst (generateHelpersFile e g c w) = Resolved \<and>
   (\<forall>error w1. generateSchemaFile_try rv e g schemaImports injectFiles w = Some (Some error, w1) \<longrightarrow>
      generateSchemaFile rv e g schemaImports injectFiles w =
        Some (Resolved, w1\<lparr> logs := logs w1 @ [WarnErr ''TRPC Generator encountered an error.'' error] \<rparr>)) \<and>
   (\<forall>error w1. generateHelpersFile_try e g c w = (Some error, w1) \<longrightarrow>
      generateHelpersFile e g c w =
        (Resolved, w1\<lparr> logs := logs w1 @ [WarnErr ''TRPC Generator encountered an error.'' error] \<rparr>)) \<and>
   (\<forall>p lg error.
      findTsConfigFile (fs_existsSync e) (moduleCallerFilePath e) (logs w) = Some (Some p, lg) \<and>
      (rv = RegexRevision \<and> fs_readFileSync e p = Inl error \<or>
       rv = AstRevision \<and> project_getFullText e p = Inl error) \<longrightarrow>
      injectFilesContent rv e filePaths w =
        Some (w\<lparr> logs := lg @ [Warn (''Error injecting files: '' @ error_toString error)
                                  ''TRPC Generator''] \<rparr>)) \<and>
   (\<forall>p lg content error.
      findTsConfigFile (fs_existsSync e) (moduleCallerFilePath e) (logs w) = Some (Some p, lg) \<and>
      (rv = RegexRevision \<and> fs_readFileSync e p = Inr content \<or>
       rv = AstRevision \<and> project_getFullText e p = Inr content) \<and>
      JSON_parse e content = Inl error \<longrightarrow>
      injectFilesContent rv e filePaths w =
        Some (w\<lparr> logs := lg @ [Warn (''Error injecting files: '' @ error_toString error)
                                  ''TRPC Generator''] \<rparr>)) \<and>
   (\<forall>p w2.
      resolve_inject_path e pathAliases basePath w injectPath = (Some p, w2) \<and>
      \<not> fs_existsSync e p \<longrightarrow>
      appRouterSourceFile (inject_file_regex e pathAliases basePath w injectPath) =
        appRouterSourceFile w \<and>
      disk (inject_file_regex e pathAliases basePath w injectPath) = disk w \<and>
      logs (inject_file_regex e pathAliases basePath w injectPath) =
        logs w2 @ [Warn (''Could not resolve path for '' @ injectPath @ '' or file doesn't exist'')
                     ''TRPC Generator'']) \<and>
   (\<forall>p w2 error.
      resolve_inject_path e pathAliases basePath w injectPath = (Some p, w2) \<and> p \<noteq> [] \<and>
      fs_existsSync e p \<and> fs_readFileSync e p = Inl error \<longrightarrow>
      appRouterSourceFile (inject_file_regex e pathAliases basePath w injectPath) =
        appRouterSourceFile w \<and>
      disk (inject_file_regex e pathAliases basePath w injectPath) = disk w \<and>
      logs (inject_file_regex e pathAliases basePath w injectPath) =
        logs w2 @ [Log (''Reading file: '' @ p) ''TRPC Generator'',
                   Warn (''Error injecting file '' @ injectPath @ '' (resolved to '' @ p @ ''): '' @
                         error_toString error) ''TRPC Generator'']) \<and>
   (\<forall>p w2.
      resolve_inject_path e pathAliases basePath w injectPath = (Some p, w2) \<and> p \<noteq> [] \<and>
      project_getStatementsIfExists e p = Inr None \<longrightarrow>
      appRouterSourceFile (inject_file_ast e pathAliases basePath w injectPath) =
        appRouterSourceFile w \<and>
      disk (inject_file_ast e pathAliases basePath w injectPath) = disk w \<and>
      logs (inject_file_ast e pathAliases basePath w injectPath) =
        logs w2 @ [Log (''Attempting to load file: '' @ p) ''TRPC Generator'',
                   Warn (''File not found: '' @ injectPath @ '' (resolved to '' @ p @ '')'')
                     ''TRPC Generator'']) \<and>
   (\<forall>p w2 error.
      resolve_inject_path e pathAliases basePath w injectPath = (Some p, w2) \<and> p \<noteq> [] \<and>
      project_getStatementsIfExists e p = Inl error \<longrightarrow>
      appRouterSourceFile (inject_file_ast e pathAliases basePath w injectPath) =
        appRouterSourceFile w \<and>
      disk (inject_file_ast e pathAliases basePath w injectPath) = disk w \<and>
      logs (inject_file_ast e pathAliases basePath w injectPath) =
        logs w2 @ [Log (''Attempting to load file: '' @ p) ''TRPC Generator'',
                   Warn (''Error injecting file '' @ injectPath @ '' (resolved to '' @ p @ ''): '' @
                         error_toString error) ''TRPC Generator'']) \<and>
   map_option (\<lambda>r. statements (appRouterSourceFile (snd r)))
     (generateSchemaFile RegexRevision example_env failing_generator None None example_world) \<noteq>
   Some (statements (appRouterSourceFile example_world))"
proof (intro conjI allI impI)
  fix r w'
  assume "generateSchemaFile rv e g schemaImports injectFiles w = Some (r, w')"
  then obtain x where "settle (catch_and_warn x) = (r, w')"
    by (auto simp: generateSchemaFile_def)
  then show "r = Resolved"
    using settle_catch_and_warn [of x] by simp
next
  show "fst (generateHelpersFile e g c w) = Resolved"
    by (simp add: generateHelpersFile_def settle_catch_and_warn)
next
  fix error w1
  assume "generateSchemaFile_try rv e g schemaImports injectFiles w = Some (Some error, w1)"
  then show "generateSchemaFile rv e g schemaImports injectFiles w =
        Some (Resolved, w1\<lparr> logs := logs w1 @ [WarnErr ''TRPC Generator encountered an error.'' error] \<rparr>)"
    by (simp add: generateSchemaFile_def catch_and_warn_def settle_def)
next
  fix error w1
  assume "generateHelpersFile_try e g c w = (Some error, w1)"
  then show "generateHelpersFile e g c w =
        (Resolved, w1\<lparr> logs := logs w1 @ [WarnErr ''TRPC Generator encountered an error.'' error] \<rparr>)"
    by (simp add: generateHelpersFile_def catch_and_warn_def settle_def)
next
  fix p lg error
  assume a: "findTsConfigFile (fs_existsSync e) (moduleCallerFilePath e) (logs w) = Some (Some p, lg) \<and>
      (rv = RegexRevision \<and> fs_readFileSync e p = Inl error \<or>
       rv = AstRevision \<and> project_getFullText e p = Inl error)"
  then have t: "truthy (Some p)" using findTsConfigFile_truthy by blast
  from a have "read_tsconfig rv e p = Inl error"
    by (auto simp: read_tsconfig_def)
  with a t show "injectFilesContent rv e filePaths w =
        Some (w\<lparr> logs := lg @ [Warn (''Error injecting files: '' @ error_toString error)
                                  ''TRPC Generator''] \<rparr>)"
    by (simp add: injectFilesContent_def inject_with_tsconfig_def logger_warn_def)
next
  fix p lg content error
  assume a: "findTsConfigFile (fs_existsSync e) (moduleCallerFilePath e) (logs w) = Some (Some p, lg) \<and>
      (rv = RegexRevision \<and> fs_readFileSync e p = Inr content \<or>
       rv = AstRevision \<and> project_getFullText e p = Inr content) \<and>
      JSON_parse e content = Inl error"
  then have t: "truthy (Some p)" using findTsConfigFile_truthy by blast
  from a have "read_tsconfig rv e p = Inr content"
    by (auto simp: read_tsconfig_def)
  with a t show "injectFilesContent rv e filePaths w =
        Some (w\<lparr> logs := lg @ [Warn (''Error injecting files: '' @ error_toString error)
                                  ''TRPC Generator''] \<rparr>)"
    by (simp add: injectFilesContent_def inject_with_tsconfig_def logger_warn_def)
next
  fix p w2
  assume a: "resolve_inject_path e pathAliases basePath w injectPath = (Some p, w2) \<and>
      \<not> fs_existsSync e p"
  then have eq: "inject_file_regex e pathAliases basePath w injectPath =
      logger_warn (''Could not resolve path for '' @ injectPath @ '' or file doesn't exist'') w2"
    by (simp add: inject_file_regex_def)
  from a resolve_inject_path_only_logs
  have k: "appRouterSourceFile w2 = appRouterSourceFile w \<and> disk w2 = disk w" by blast
  show "appRouterSourceFile (inject_file_regex e pathAliases basePath w injectPath) =
        appRouterSourceFile w"
    using eq k by (simp add: logger_warn_def)
  show "disk (inject_file_regex e pathAliases basePath w injectPath) = disk w"
    using eq k by (simp add: logger_warn_def)
  show "logs (inject_file_regex e pathAliases basePath w injectPath) =
        logs w2 @ [Warn (''Could not resolve path for '' @ injectPath @ '' or file doesn't exist'')
                     ''TRPC Generator'']"
    using eq by (simp add: logger_warn_def)
next
  fix p w2 error
  assume a: "resolve_inject_path e pathAliases basePath w injectPath = (Some p, w2) \<and> p \<noteq> [] \<and>
      fs_existsSync e p \<and> fs_readFileSync e p = Inl error"
  then have eq: "inject_file_regex e pathAliases basePath w injectPath =
      logger_warn (''Error injecting file '' @ injectPath @ '' (resolved to '' @ p @ ''): '' @
                     error_toString error)
        (logger_log (''Reading file: '' @ p) w2)"
    by (simp add: inject_file_regex_def truthy_def Let_def)
  from a resolve_inject_path_only_logs
  have k: "appRouterSourceFile w2 = appRouterSourceFile w \<and> disk w2 = disk w" by blast
  show "appRouterSourceFile (inject_file_regex e pathAliases basePath w injectPath) =
        appRouterSourceFile w"
    using eq k by (simp add: logger_warn_def logger_log_def)
  show "disk (inject_file_regex e pathAliases basePath w injectPath) = disk w"
    using eq k by (simp add: logger_warn_def logger_log_def)
  show "logs (inject_file_regex e pathAliases basePath w injectPath) =
        logs w2 @ [Log (''Reading file: '' @ p) ''TRPC Generator'',
                   Warn (''Error injecting file '' @ injectPath @ '' (resolved to '' @ p @ ''): '' @
                         error_toString error) ''TRPC Generator'']"
    using eq by (simp add: logger_warn_def logger_log_def)
next
  fix p w2
  assume a: "resolve_inject_path e pathAliases basePath w injectPath = (Some p, w2) \<and> p \<noteq> [] \<and>
      project_getStatementsIfExists e p = Inr None"
  then have eq: "inject_file_ast e pathAliases basePath w injectPath =
      logger_warn (''File not found: '' @ injectPath @ '' (resolved to '' @ p @ '')'')
        (logger_log (''Attempting to load file: '' @ p) w2)"
    by (simp add: inject_file_ast_def truthy_def Let_def)
  from a resolve_inject_path_only_logs
  have k: "appRouterSourceFile w2 = appRouterSourceFile w \<and> disk w2 = disk w" by blast
  show "appRouterSourceFile (inject_file_ast e pathAliases basePath w injectPath) =
        appRouterSourceFile w"
    using eq k by (simp add: logger_warn_def logger_log_def)
  show "disk (inject_file_ast e pathAliases basePath w injectPath) = disk w"
    using eq k by (simp add: logger_warn_def logger_log_def)
  show "logs (inject_file_ast e pathAliases basePath w injectPath) =
        logs w2 @ [Log (''Attempting to load file: '' @ p) ''TRPC Generator'',
                   Warn (''File not found: '' @ injectPath @ '' (resolved to '' @ p @ '')'')
                     ''TRPC Generator'']"
    using eq by (simp add: logger_warn_def logger_log_def)
next
  fix p w2 error
  assume a: "resolve_inject_path e pathAliases basePath w injectPath = (Some p, w2) \<and> p \<noteq> [] \<and>
      project_getStatementsIfExists e p = Inl error"
  then have eq: "inject_file_ast e pathAliases basePath w injectPath =
      logger_warn (''Error injecting file '' @ injectPath @ '' (resolved to '' @ p @ ''): '' @
                     error_toString error)
        (logger_log (''Attempting to load file: '' @ p) w2)"
    by (simp add: inject_file_ast_def truthy_def Let_def)
  from a resolve_inject_path_only_logs
  have k: "appRouterSourceFile w2 = appRouterSourceFile w \<and> disk w2 = disk w" by blast
  show "appRouterSourceFile (inject_file_ast e pathAliases basePath w injectPath) =
        appRouterSourceFile w"
    using eq k by (simp add: logger_warn_def logger_log_def)
  show "disk (inject_file_ast e pathAliases basePath w injectPath) = disk w"
    using eq k by (simp add: logger_warn_def logger_log_def)
  show "logs (inject_file_ast e pathAliases basePath w injectPath) =
        logs w2 @ [Log (''Attempting to load file: '' @ p) ''TRPC Generator'',
                   Warn (''Error injecting file '' @ injectPath @ '' (resolved to '' @ p @ ''): '' @
                         error_toString error) ''TRPC Generator'']"
    using eq by (simp add: logger_warn_def logger_log_def)
next
  show "map_option (\<lambda>r. statements (appRouterSourceFile (snd r)))
     (generateSchemaFile RegexRevision example_env failing_generator None None example_world) \<noteq>
   Some (statements (appRouterSourceFile example_world))"
    using failing_run [of RegexRevision]
    by (simp add: generateSchemaFile_def catch_and_warn_def settle_def example_world_def)
qed

lemma example_resolve_inject_path:
  "resolve_inject_path example_env [(''@/*'', [''./src/*''])] ''/proj'' example_world (''@/'' @ rest) =
     (Some (resolve ''/proj'' ''/proj'' (''./src/'' @ rest)),
      example_world\<lparr> logs :=
        [Log (''Resolving file path: @/'' @ rest) ''TRPC Generator'',
         alias_log (''@/'' @ rest) ''@/*'' ''./src/*'' rest (''./src/'' @ rest)
           (resolve ''/proj'' ''/proj'' (''./src/'' @ rest)),
         Log (''Resolved path: '' @ or_null (Some (resolve ''/proj'' ''/proj'' (''./src/'' @ rest))))
           ''TRPC Generator''] \<rparr>)"
  using example_resolve [of rest]
  by (simp add: resolve_inject_path_def Let_def logger_log_def example_env_def example_world_def)

lemma example_resolve_secret:
  "resolve ''/proj'' ''/proj'' ''./src/secret.ts'' = ''/proj/src/secret.ts''"
  by (simp add: resolve_def resolve_step_def normalizeString_def isAbsolute_def slash_def)

lemma example_resolve_missing:
  "resolve ''/proj'' ''/proj'' ''./src/missing.ts'' = ''/proj/src/missing.ts''"
  by (simp add: resolve_def resolve_step_def normalizeString_def isAbsolute_def slash_def)

theorem generator_methods_never_reject_witness:
  "generateSchemaFile RegexRevision example_env failing_generator None None example_world =
     Some (Resolved,
           example_world\<lparr>
             appRouterSourceFile :=
               \<lparr> filePath = ''/proj/src/@generated/server.ts'',
                 statements =
                   [ImportDeclaration ''@trpc/server'' [''initTRPC''],
                    ImportDeclaration ''zod'' [''z''],
                    Statement ''const t = initTRPC.create();''] \<rparr>,
             logs := [WarnErr ''TRPC Generator encountered an error.''
                       (JsError ''Error'' ''Could not find router class declaration.'')] \<rparr>) \<and>
   statements (appRouterSourceFile example_world) = [] \<and>
   injectFilesContent RegexRevision unreadable_tsconfig_env [''@/zod/index.ts''] example_world =
     Some (example_world\<lparr> logs :=
       [Log ''Looking for tsconfig.json starting from: /proj/src/app.module.ts'' ''Path Resolution'',
        Log ''Root directory: /'' ''Path Resolution'',
        Log ''No tsconfig.json found at: /proj/src, moving up...'' ''Path Resolution'',
        Log ''Found tsconfig.json at: /proj/tsconfig.json'' ''Path Resolution'',
        Warn ''Error injecting files: Error: EACCES: permission denied, open /proj/tsconfig.json''
          ''TRPC Generator''] \<rparr>) \<and>
   injectFilesContent RegexRevision broken_tsconfig_env [''@/zod/index.ts''] example_world =
     Some (example_world\<lparr> logs :=
       [Log ''Looking for tsconfig.json starting from: /proj/src/app.module.ts'' ''Path Resolution'',
        Log ''Root directory: /'' ''Path Resolution'',
        Log ''No tsconfig.json found at: /proj/src, moving up...'' ''Path Resolution'',
        Log ''Found tsconfig.json at: /proj/tsconfig.json'' ''Path Resolution'',
        Warn ''Error injecting files: SyntaxError: Unexpected end of JSON input''
          ''TRPC Generator''] \<rparr>) \<and>
   appRouterSourceFile (inject_file_regex example_env [(''@/*'', [''./src/*''])] ''/proj''
                          example_world ''@/missing.ts'') = appRouterSourceFile example_world \<and>
   last (logs (inject_file_regex example_env [(''@/*'', [''./src/*''])] ''/proj''
                 example_world ''@/missing.ts'')) =
     Warn ''Could not resolve path for @/missing.ts or file doesn't exist'' ''TRPC Generator'' \<and>
   appRouterSourceFile (inject_file_regex example_env [(''@/*'', [''./src/*''])] ''/proj''
                          example_world ''@/secret.ts'') = appRouterSourceFile example_world \<and>
   last (logs (inject_file_regex example_env [(''@/*'', [''./src/*''])] ''/proj''
                 example_world ''@/secret.ts'')) =
     Warn ''Error injecting file @/secret.ts (resolved to /proj/src/secret.ts): Error: EACCES: permission denied, open /proj/src/secret.ts''
       ''TRPC Generator'' \<and>
   appRouterSourceFile (inject_file_ast example_env [(''@/*'', [''./src/*''])] ''/proj''
                          example_world ''@/missing.ts'') = appRouterSourceFile example_world \<and>
   last (logs (inject_file_ast example_env [(''@/*'', [''./src/*''])] ''/proj''
                 example_world ''@/missing.ts'')) =
     Warn ''File not found: @/missing.ts (resolved to /proj/src/missing.ts)'' ''TRPC Generator'' \<and>
   appRouterSourceFile (inject_file_ast example_env [(''@/*'', [''./src/*''])] ''/proj''
                          example_world ''@/secret.ts'') = appRouterSourceFile example_world \<and>
   last (logs (inject_file_ast example_env [(''@/*'', [''./src/*''])] ''/proj''
                 example_world ''@/secret.ts'')) =
     Warn ''Error injecting file @/secret.ts (resolved to /proj/src/secret.ts): Error: EACCES: permission denied, open /proj/src/secret.ts''
       ''TRPC Generator''"
proof -
  note inst = generator_methods_never_reject
    [where rv = RegexRevision and g = failing_generator and schemaImports = None
       and injectFiles = None and w = example_world and c = None
       and filePaths = "[''@/zod/index.ts'']"
       and pathAliases = "[(''@/*'', [''./src/*''])]" and basePath = "''/proj''"]
  have l: "logs example_world = []" by (simp add: example_world_def)
  have s0: "statements (appRouterSourceFile example_world) = []"
    by (simp add: example_world_def)
  have c1: "generateSchemaFile RegexRevision example_env failing_generator None None example_world =
     Some (Resolved,
           example_world\<lparr>
             appRouterSourceFile :=
               \<lparr> filePath = ''/proj/src/@generated/server.ts'',
                 statements =
                   [ImportDeclaration ''@trpc/server'' [''initTRPC''],
                    ImportDeclaration ''zod'' [''z''],
                    Statement ''const t = initTRPC.create();''] \<rparr>,
             logs := [WarnErr ''TRPC Generator encountered an error.''
                       (JsError ''Error'' ''Could not find router class declaration.'')] \<rparr>)"
    using inst [where e = example_env and injectPath = "[]"] failing_run [of RegexRevision]
    by (simp add: example_world_def)
  have f1: "findTsConfigFile (fs_existsSync unreadable_tsconfig_env)
              (moduleCallerFilePath unreadable_tsconfig_env) (logs example_world) =
     Some (Some ''/proj/tsconfig.json'',
       [Log ''Looking for tsconfig.json starting from: /proj/src/app.module.ts'' ''Path Resolution'',
        Log ''Root directory: /'' ''Path Resolution'',
        Log ''No tsconfig.json found at: /proj/src, moving up...'' ''Path Resolution'',
        Log ''Found tsconfig.json at: /proj/tsconfig.json'' ''Path Resolution''])"
    using findTsConfigFile_example_found [of unreadable_tsconfig_env "[]"]
    by (simp add: l) (simp add: unreadable_tsconfig_env_def example_env_def)
  have r1: "fs_readFileSync unreadable_tsconfig_env ''/proj/tsconfig.json'' =
      Inl (JsError ''Error'' ''EACCES: permission denied, open /proj/tsconfig.json'')"
    by (simp add: unreadable_tsconfig_env_def)
  have c2: "injectFilesContent RegexRevision unreadable_tsconfig_env [''@/zod/index.ts''] example_world =
     Some (example_world\<lparr> logs :=
       [Log ''Looking for tsconfig.json starting from: /proj/src/app.module.ts'' ''Path Resolution'',
        Log ''Root directory: /'' ''Path Resolution'',
        Log ''No tsconfig.json found at: /proj/src, moving up...'' ''Path Resolution'',
        Log ''Found tsconfig.json at: /proj/tsconfig.json'' ''Path Resolution'',
        Warn ''Error injecting files: Error: EACCES: permission denied, open /proj/tsconfig.json''
          ''TRPC Generator''] \<rparr>)"
    using inst [where e = unreadable_tsconfig_env and injectPath = "[]"] f1 r1
    by (simp add: error_toString_def)
  have f2: "findTsConfigFile (fs_existsSync broken_tsconfig_env)
              (moduleCallerFilePath broken_tsconfig_env) (logs example_world) =
     Some (Some ''/proj/tsconfig.json'',
       [Log ''Looking for tsconfig.json starting from: /proj/src/app.module.ts'' ''Path Resolution'',
        Log ''Root directory: /'' ''Path Resolution'',
        Log ''No tsconfig.json found at: /proj/src, moving up...'' ''Path Resolution'',
        Log ''Found tsconfig.json at: /proj/tsconfig.json'' ''Path Resolution''])"
    using findTsConfigFile_example_found [of broken_tsconfig_env "[]"]
    by (simp add: l) (simp add: broken_tsconfig_env_def example_env_def)
  have r2: "fs_readFileSync broken_tsconfig_env ''/proj/tsconfig.json'' = Inr ''{ \"compilerOptions\": ''"
    "JSON_parse broken_tsconfig_env ''{ \"compilerOptions\": '' =
       Inl (JsError ''SyntaxError'' ''Unexpected end of JSON input'')"
    by (simp_all add: broken_tsconfig_env_def example_env_def example_tsconfig_text_def)
  have c3: "injectFilesContent RegexRevision broken_tsconfig_env [''@/zod/index.ts''] example_world =
     Some (example_world\<lparr> logs :=
       [Log ''Looking for tsconfig.json starting from: /proj/src/app.module.ts'' ''Path Resolution'',
        Log ''Root directory: /'' ''Path Resolution'',
        Log ''No tsconfig.json found at: /proj/src, moving up...'' ''Path Resolution'',
        Log ''Found tsconfig.json at: /proj/tsconfig.json'' ''Path Resolution'',
        Warn ''Error injecting files: SyntaxError: Unexpected end of JSON input''
          ''TRPC Generator''] \<rparr>)"
    using inst [where e = broken_tsconfig_env and injectPath = "[]"] f2 r2
    by (simp add: error_toString_def)
  have m: "resolve_inject_path example_env [(''@/*'', [''./src/*''])] ''/proj'' example_world ''@/missing.ts'' =
      (Some ''/proj/src/missing.ts'',
       example_world\<lparr> logs :=
        [Log ''Resolving file path: @/missing.ts'' ''TRPC Generator'',
         alias_log ''@/missing.ts'' ''@/*'' ''./src/*'' ''missing.ts'' ''./src/missing.ts''
           ''/proj/src/missing.ts'',
         Log ''Resolved path: /proj/src/missing.ts'' ''TRPC Generator''] \<rparr>)"
    using example_resolve_inject_path [of "''missing.ts''"]
    by (simp add: example_resolve_missing or_null_def)
  have s: "resolve_inject_path example_env [(''@/*'', [''./src/*''])] ''/proj'' example_world ''@/secret.ts'' =
      (Some ''/proj/src/secret.ts'',
       example_world\<lparr> logs :=
        [Log ''Resolving file path: @/secret.ts'' ''TRPC Generator'',
         alias_log ''@/secret.ts'' ''@/*'' ''./src/*'' ''secret.ts'' ''./src/secret.ts''
           ''/proj/src/secret.ts'',
         Log ''Resolved path: /proj/src/secret.ts'' ''TRPC Generator''] \<rparr>)"
    using example_resolve_inject_path [of "''secret.ts''"]
    by (simp add: example_resolve_secret or_null_def)
  have em: "\<not> fs_existsSync example_env ''/proj/src/missing.ts''"
    "project_getStatementsIfExists example_env ''/proj/src/missing.ts'' = Inr None"
    by (simp_all add: example_env_def)
  have es: "fs_existsSync example_env ''/proj/src/secret.ts''"
    "fs_readFileSync example_env ''/proj/src/secret.ts'' =
       Inl (JsError ''Error'' ''EACCES: permission denied, open /proj/src/secret.ts'')"
    "project_getStatementsIfExists example_env ''/proj/src/secret.ts'' =
       Inl (JsError ''Error'' ''EACCES: permission denied, open /proj/src/secret.ts'')"
    by (simp_all add: example_env_def)
  have c4: "appRouterSourceFile (inject_file_regex example_env [(''@/*'', [''./src/*''])] ''/proj''
                          example_world ''@/missing.ts'') = appRouterSourceFile example_world \<and>
   last (logs (inject_file_regex example_env [(''@/*'', [''./src/*''])] ''/proj''
                 example_world ''@/missing.ts'')) =
     Warn ''Could not resolve path for @/missing.ts or file doesn't exist'' ''TRPC Generator'' \<and>
   appRouterSourceFile (inject_file_ast example_env [(''@/*'', [''./src/*''])] ''/proj''
                          example_world ''@/missing.ts'') = appRouterSourceFile example_world \<and>
   last (logs (inject_file_ast example_env [(''@/*'', [''./src/*''])] ''/proj''
                 example_world ''@/missing.ts'')) =
     Warn ''File not found: @/missing.ts (resolved to /proj/src/missing.ts)'' ''TRPC Generator''"
    using inst [where e = example_env and injectPath = "''@/missing.ts''"] m em
    by simp
  have c5: "appRouterSourceFile (inject_file_regex example_env [(''@/*'', [''./src/*''])] ''/proj''
                          example_world ''@/secret.ts'') = appRouterSourceFile example_world \<and>
   last (logs (inject_file_regex example_env [(''@/*'', [''./src/*''])] ''/proj''
                 example_world ''@/secret.ts'')) =
     Warn ''Error injecting file @/secret.ts (resolved to /proj/src/secret.ts): Error: EACCES: permission denied, open /proj/src/secret.ts''
       ''TRPC Generator'' \<and>
   appRouterSourceFile (inject_file_ast example_env [(''@/*'', [''./src/*''])] ''/proj''
                          example_world ''@/secret.ts'') = appRouterSourceFile example_world \<and>
   last (logs (inject_file_ast example_env [(''@/*'', [''./src/*''])] ''/proj''
                 example_world ''@/secret.ts'')) =
     Warn ''Error injecting file @/secret.ts (resolved to /proj/src/secret.ts): Error: EACCES: permission denied, open /proj/src/secret.ts''
       ''TRPC Generator''"
    using inst [where e = example_env and injectPath = "''@/secret.ts''"] s es
    by (simp add: error_toString_def)
  from c1 s0 c2 c3 c4 c5 show ?thesis by blast
qed

subsection \<open>\<^verbatim>\<open>injectFilesContent\<close>: imports and splicing\<close>

lemma import_insert_index_snoc:
  "import_insert_index k idx (ss @ [s]) =
     (if is_import s then Suc (k + length ss) else import_insert_index k idx ss)"
  by (induction ss arbitrary: k idx) simp_all

lemma import_insert_index_bound:
  "import_insert_index 0 0 ss \<le> length ss \<and>
   filter is_import (drop (import_insert_index 0 0 ss) ss) = []"
proof (induction ss rule: rev_induct)
  case Nil
  show ?case by simp
next
  case (snoc s ss)
  then show ?case by (simp add: import_insert_index_snoc)
qed

lemma filter_take_drop:
  "filter P (take i ss @ [d] @ drop i ss) =
   filter P (take i ss) @ filter P [d] @ filter P (drop i ss)"
  by simp

lemma imports_addImportDeclaration:
  "getImportDeclarations (addImportDeclaration sf m ns) =
     getImportDeclarations sf @ [ImportDeclaration m ns]"
proof -
  let ?i = "import_insert_index 0 0 (statements sf)"
  have "filter is_import (statements sf) =
        filter is_import (take ?i (statements sf)) @ filter is_import (drop ?i (statements sf))"
    by (metis append_take_drop_id filter_append)
  then show ?thesis
    using import_insert_index_bound [of "statements sf"]
    by (simp add: getImportDeclarations_def addImportDeclaration_def Let_def)
qed

lemma non_imports_addImportDeclaration:
  "non_imports (addImportDeclaration sf m ns) = non_imports sf"
proof -
  let ?i = "import_insert_index 0 0 (statements sf)"
  have "filter (\<lambda>s. \<not> is_import s) (statements sf) =
        filter (\<lambda>s. \<not> is_import s) (take ?i (statements sf)) @
        filter (\<lambda>s. \<not> is_import s) (drop ?i (statements sf))"
    by (metis append_take_drop_id filter_append)
  then show ?thesis
    by (simp add: non_imports_def addImportDeclaration_def Let_def)
qed

lemma filter_add_to_first_import:
  "filter is_import (add_to_first_import m n ss) = add_to_first_import m n (filter is_import ss)"
  by (induction m n ss rule: add_to_first_import.induct) simp_all

lemma non_imports_add_to_first_import:
  "filter (\<lambda>s. \<not> is_import s) (add_to_first_import m n ss) = filter (\<lambda>s. \<not> is_import s) ss"
  by (induction m n ss rule: add_to_first_import.induct) simp_all

lemma imports_addNamedImport:
  "getImportDeclarations (addNamedImport sf m n) =
     add_to_first_import m n (getImportDeclarations sf)"
  by (simp add: getImportDeclarations_def addNamedImport_def filter_add_to_first_import)

lemma non_imports_addNamedImport: "non_imports (addNamedImport sf m n) = non_imports sf"
  by (simp add: non_imports_def addNamedImport_def non_imports_add_to_first_import)

lemma imports_addStatements:
  "getImportDeclarations (addStatements parse sf text) =
     getImportDeclarations sf @ filter is_import (parse text)"
  by (simp add: getImportDeclarations_def addStatements_def)

lemma non_imports_addStatements:
  "non_imports (addStatements parse sf text) =
     non_imports sf @ filter (\<lambda>s. \<not> is_import s) (parse text)"
  by (simp add: non_imports_def addStatements_def)

lemma non_imports_process_named_import:
  "non_imports (fst (process_named_import m st n)) = non_imports (fst st)"
  by (cases st)
     (simp add: process_named_import_def non_imports_addImportDeclaration non_imports_addNamedImport)

lemma non_imports_process_named_imports:
  "non_imports (fst (process_named_imports m ns st)) = non_imports (fst st)"
  unfolding process_named_imports_def
  by (induction ns arbitrary: st) (simp_all add: non_imports_process_named_import)

lemma non_imports_process_match:
  "non_imports (fst (fst (process_match st m))) = non_imports (fst (fst st))"
  by (cases st) (simp add: process_match_def non_imports_process_named_imports)

lemma non_imports_foldl_process_match:
  "non_imports (fst (fst (foldl process_match st ms))) = non_imports (fst (fst st))"
  by (induction ms arbitrary: st) (simp_all add: non_imports_process_match)

lemma snd_process_match: "snd (process_match st m) = set_add (snd st) (match0 m)"
  by (cases st) (simp add: process_match_def)

lemma processed_foldl_process_match:
  "snd (foldl process_match st ms) = foldl set_add (snd st) (map match0 ms)"
  by (induction ms arbitrary: st) (simp_all add: snd_process_match)

lemma inject_content_alt:
  "inject_content parse fileContent sf =
     (let sf' = fst (fst (foldl process_match ((sf, existing_imports sf), []) (exec_all 0 fileContent)))
      in if cleaned_content fileContent \<noteq> []
         then addStatements parse sf' (cleaned_content fileContent) else sf')"
proof -
  obtain sf' ex pr where r: "foldl process_match ((sf, existing_imports sf), []) (exec_all 0 fileContent)
      = ((sf', ex), pr)"
    by (metis surj_pair)
  have "pr = processed_imports fileContent"
    using processed_foldl_process_match [of "((sf, existing_imports sf), [])" "exec_all 0 fileContent"] r
    by (simp add: processed_imports_def)
  then show ?thesis
    using r by (simp add: inject_content_def cleaned_content_def Let_def)
qed

text \<open>
  What the splice step does, for every file content: the cleaned content, when it is not
  empty, is handed to \<^verbatim>\<open>addStatements\<close> as it is, so its statements come last in the
  app-router file; when it is empty, nothing is added. The statements of the file that
  are not import declarations stay as they were, in order.
\<close>

lemma raw_text_splice:
  "(\<exists>before. statements (inject_content parse fileContent sf) =
      before @ (if cleaned_content fileContent = [] then [] else parse (cleaned_content fileContent))) \<and>
   non_imports (inject_content parse fileContent sf) =
     non_imports sf @
       (if cleaned_content fileContent = [] then []
        else filter (\<lambda>s. \<not> is_import s) (parse (cleaned_content fileContent)))"
proof
  show "\<exists>before. statements (inject_content parse fileContent sf) =
      before @ (if cleaned_content fileContent = [] then [] else parse (cleaned_content fileContent))"
    by (simp add: inject_content_alt Let_def addStatements_def)
next
  show "non_imports (inject_content parse fileContent sf) =
     non_imports sf @
       (if cleaned_content fileContent = [] then []
        else filter (\<lambda>s. \<not> is_import s) (parse (cleaned_content fileContent)))"
    using non_imports_foldl_process_match [of "((sf, existing_imports sf), [])" "exec_all 0 fileContent"]
    by (simp add: inject_content_alt Let_def non_imports_addStatements)
qed

lemma process_named_import_on_imports:
  "(getImportDeclarations (fst (process_named_import m (sf, ex) n)), snd (process_named_import m (sf, ex) n)) =
     process_on_imports m (getImportDeclarations sf, ex) n"
  by (simp add: process_named_import_def process_on_imports_def imports_addImportDeclaration
      imports_addNamedImport)

lemma modules_add_to_first_import:
  "list_all is_import ds \<Longrightarrow>
   map moduleSpecifier (add_to_first_import m n ds) = map moduleSpecifier ds"
  by (induction m n ds rule: add_to_first_import.induct) simp_all

lemma is_import_add_to_first_import:
  "list_all is_import ds \<Longrightarrow> list_all is_import (add_to_first_import m n ds)"
  by (induction m n ds rule: add_to_first_import.induct) simp_all

lemma set_add_to_first_import:
  "d \<in> set (add_to_first_import m n ds) \<Longrightarrow>
     d \<in> set ds \<or> (\<exists>ns. d = ImportDeclaration m (ns @ [n]) \<and> ImportDeclaration m ns \<in> set ds)"
  by (induction m n ds rule: add_to_first_import.induct) (auto split: if_splits)

lemma inv_step:
  assumes "inv ds ex" and "getName n = n"
  shows "inv (fst (process_on_imports m (ds, ex) n)) (snd (process_on_imports m (ds, ex) n))"
proof (cases "import_key m n \<in> ex")
  case True
  then show ?thesis using assms by (simp add: process_on_imports_def)
next
  case key: False
  show ?thesis
  proof (cases "m \<in> ex")
    case False
    then have "m \<notin> set (map moduleSpecifier ds)"
      using assms(1) by (auto simp: inv_def)
    then show ?thesis
      using assms key False by (auto simp: process_on_imports_def inv_def)
  next
    case True
    have all: "\<forall>d \<in> set (add_to_first_import m n ds).
        distinct (namedImports d) \<and> moduleSpecifier d \<in> insert (import_key m n) ex \<and>
        (\<forall>n' \<in> set (namedImports d).
           getName n' = n' \<and> import_key (moduleSpecifier d) n' \<in> insert (import_key m n) ex)"
    proof
      fix d assume d: "d \<in> set (add_to_first_import m n ds)"
      from set_add_to_first_import[OF d] consider
        (old) "d \<in> set ds" |
        (new) ns where "d = ImportDeclaration m (ns @ [n])" "ImportDeclaration m ns \<in> set ds"
        by blast
      then show "distinct (namedImports d) \<and> moduleSpecifier d \<in> insert (import_key m n) ex \<and>
        (\<forall>n' \<in> set (namedImports d).
           getName n' = n' \<and> import_key (moduleSpecifier d) n' \<in> insert (import_key m n) ex)"
      proof cases
        case old
        then show ?thesis using assms(1) by (simp add: inv_def)
      next
        case new
        from new(2) assms(1) have dn: "distinct ns"
          and k: "\<forall>n' \<in> set ns. getName n' = n' \<and> import_key m n' \<in> ex"
          and mm: "m \<in> ex"
          by (force simp: inv_def)+
        from k key have "n \<notin> set ns" by blast
        with dn k new(1) assms(2) mm show ?thesis by auto
      qed
    qed
    have "inv (add_to_first_import m n ds) (insert (import_key m n) ex)"
      using all assms(1)
      by (simp add: inv_def is_import_add_to_first_import modules_add_to_first_import)
    then show ?thesis using key True by (simp add: process_on_imports_def)
  qed
qed

lemma foldl_insert_image: "foldl (\<lambda>acc x. insert (f x) acc) A xs = A \<union> f ` set xs"
  by (induction xs arbitrary: A) auto

lemma existing_of_decl_import:
  "existing_of_decl A (ImportDeclaration m ns) =
     A \<union> {m} \<union> (\<lambda>n. import_key m (getName n)) ` set ns"
  by (auto simp: foldl_insert_image)

lemma foldl_existing_of_decl_mono: "A \<subseteq> foldl existing_of_decl A ds"
proof (induction ds arbitrary: A)
  case Nil
  show ?case by simp
next
  case (Cons d ds)
  have "A \<subseteq> existing_of_decl A d"
    by (cases d) (auto simp: foldl_insert_image)
  also have "\<dots> \<subseteq> foldl existing_of_decl (existing_of_decl A d) ds" by (rule Cons.IH)
  finally show ?case by simp
qed

lemma foldl_existing_of_decl_covers:
  "ImportDeclaration m ns \<in> set ds \<Longrightarrow>
     m \<in> foldl existing_of_decl A ds \<and>
     (\<forall>n \<in> set ns. import_key m (getName n) \<in> foldl existing_of_decl A ds)"
proof (induction ds arbitrary: A)
  case Nil
  then show ?case by simp
next
  case (Cons d ds)
  show ?case
  proof (cases "d = ImportDeclaration m ns")
    case True
    have "existing_of_decl A d = A \<union> {m} \<union> (\<lambda>n. import_key m (getName n)) ` set ns"
      unfolding True by (rule existing_of_decl_import)
    then have "{m} \<union> (\<lambda>n. import_key m (getName n)) ` set ns \<subseteq> existing_of_decl A d"
      by blast
    also have "\<dots> \<subseteq> foldl existing_of_decl (existing_of_decl A d) ds"
      by (rule foldl_existing_of_decl_mono)
    finally show ?thesis by auto
  next
    case False
    with Cons.prems have "ImportDeclaration m ns \<in> set ds" by simp
    from Cons.IH[OF this] show ?thesis by simp
  qed
qed

lemma inv_initial:
  assumes "imports_wf sf" and "imports_plain sf"
  shows "inv (getImportDeclarations sf) (existing_imports sf)"
  unfolding inv_def
proof (intro conjI ballI)
  show "list_all is_import (getImportDeclarations sf)"
    by (simp add: getImportDeclarations_def list_all_iff)
  show "distinct (map moduleSpecifier (getImportDeclarations sf))"
    using assms(1) by (simp add: imports_wf_def)
next
  fix d assume d: "d \<in> set (getImportDeclarations sf)"
  then have "is_import d" by (simp add: getImportDeclarations_def)
  then obtain m ns where mn: "d = ImportDeclaration m ns"
    by (cases d) simp_all
  show "distinct (namedImports d)"
    using assms(1) d by (simp add: imports_wf_def list_all_iff)
  show "moduleSpecifier d \<in> existing_imports sf"
    using foldl_existing_of_decl_covers [of m ns "getImportDeclarations sf" "{}"] d mn
    by (simp add: existing_imports_def)
next
  fix d n assume d: "d \<in> set (getImportDeclarations sf)" and n: "n \<in> set (namedImports d)"
  then have "is_import d" by (simp add: getImportDeclarations_def)
  then obtain m ns where mn: "d = ImportDeclaration m ns"
    by (cases d) simp_all
  from assms(2) d n show "getName n = n"
    by (auto simp: imports_plain_def plain_names_def list_all_iff)
  then show "import_key (moduleSpecifier d) n \<in> existing_imports sf"
    using foldl_existing_of_decl_covers [of m ns "getImportDeclarations sf" "{}"] d mn n
    by (force simp: existing_imports_def)
qed

lemma inv_state_process_named_import:
  assumes "inv_state st" and "getName n = n"
  shows "inv_state (process_named_import m st n)"
proof -
  obtain sf ex where st: "st = (sf, ex)" by (cases st)
  from inv_step[of "getImportDeclarations sf" ex n m] assms st
  show ?thesis
    using process_named_import_on_imports [of m sf ex n]
    by (simp add: inv_state_def) (metis fst_conv snd_conv)
qed

lemma inv_state_process_named_imports:
  "inv_state st \<Longrightarrow> plain_names ns \<Longrightarrow> inv_state (process_named_imports m ns st)"
  unfolding process_named_imports_def
  by (induction ns arbitrary: st) (simp_all add: plain_names_def inv_state_process_named_import)

lemma inv_state_wf:
  "inv_state (sf, ex) \<Longrightarrow> imports_wf sf \<and> imports_plain sf"
  by (auto simp: inv_state_def inv_def imports_wf_def imports_plain_def plain_names_def list_all_iff)

lemma inv_state_process_match:
  "inv_state (fst st) \<Longrightarrow> plain_names (split_named_imports (match1 m)) \<Longrightarrow>
     inv_state (fst (process_match st m))"
  by (cases st) (simp add: process_match_def inv_state_process_named_imports)

lemma inv_state_foldl_process_match:
  "inv_state (fst st) \<Longrightarrow> list_all (\<lambda>m. plain_names (split_named_imports (match1 m))) ms \<Longrightarrow>
     inv_state (fst (foldl process_match st ms))"
  by (induction ms arbitrary: st) (simp_all add: inv_state_process_match)

lemma inv_state_addStatements:
  "inv_state (sf, ex) \<Longrightarrow> filter is_import (parse text) = [] \<Longrightarrow>
     inv_state (addStatements parse sf text, ex)"
  by (simp add: inv_state_def imports_addStatements)

lemma inv_state_process_statement:
  assumes "inv_state st"
    and "getKindName s = ''ImportDeclaration'' \<longrightarrow> plain_names (statement_names s)"
    and "getKindName s \<noteq> ''ImportDeclaration'' \<longrightarrow> filter is_import (parse (getText s)) = []"
  shows "inv_state (process_statement parse st s)"
proof (cases "getKindName s = ''ImportDeclaration''")
  case True
  with assms show ?thesis
    by (simp add: process_statement_def Let_def statement_names_def inv_state_process_named_imports)
next
  case False
  with assms(1,3) show ?thesis
    by (cases st) (simp add: process_statement_def inv_state_addStatements)
qed

lemma inv_state_foldl_process_statement:
  "inv_state st \<Longrightarrow>
   list_all (\<lambda>s. (getKindName s = ''ImportDeclaration'' \<longrightarrow> plain_names (statement_names s)) \<and>
                 (getKindName s \<noteq> ''ImportDeclaration'' \<longrightarrow>
                    filter is_import (parse (getText s)) = [])) ss \<Longrightarrow>
     inv_state (foldl (process_statement parse) st ss)"
  by (induction ss arbitrary: st) (simp_all add: inv_state_process_statement)

text \<open>
  For named imports written as plain names, and as long as no import statement is
  spliced in as text, both revisions keep the import declarations of the app-router
  file free of duplicates: no second declaration for a module, no named import twice in
  a declaration.
\<close>

lemma injection_keeps_imports_duplicate_free:
  assumes "imports_wf sf" and "imports_plain sf"
  shows "list_all (\<lambda>m. plain_names (split_named_imports (match1 m))) (exec_all 0 fileContent) \<and>
         filter is_import (parse (cleaned_content fileContent)) = [] \<longrightarrow>
           imports_wf (inject_content parse fileContent sf) \<and>
           imports_plain (inject_content parse fileContent sf)"
    and "list_all (\<lambda>s. (getKindName s = ''ImportDeclaration'' \<longrightarrow> plain_names (statement_names s)) \<and>
                       (getKindName s \<noteq> ''ImportDeclaration'' \<longrightarrow>
                          filter is_import (parse (getText s)) = []))
             fileToInject \<longrightarrow>
           imports_wf (inject_statements parse fileToInject sf) \<and>
           imports_plain (inject_statements parse fileToInject sf)"
proof -
  have i0: "inv_state (sf, existing_imports sf)"
    using inv_initial[OF assms] by (simp add: inv_state_def)
  show "list_all (\<lambda>m. plain_names (split_named_imports (match1 m))) (exec_all 0 fileContent) \<and>
         filter is_import (parse (cleaned_content fileContent)) = [] \<longrightarrow>
           imports_wf (inject_content parse fileContent sf) \<and>
           imports_plain (inject_content parse fileContent sf)"
  proof
    assume a: "list_all (\<lambda>m. plain_names (split_named_imports (match1 m))) (exec_all 0 fileContent) \<and>
         filter is_import (parse (cleaned_content fileContent)) = []"
    obtain sf' ex where r: "fst (foldl process_match ((sf, existing_imports sf), []) (exec_all 0 fileContent)) = (sf', ex)"
      by (metis surj_pair)
    from a have a1: "list_all (\<lambda>m. plain_names (split_named_imports (match1 m))) (exec_all 0 fileContent)"
      and a2: "filter is_import (parse (cleaned_content fileContent)) = []" by simp_all
    from inv_state_foldl_process_match[of "((sf, existing_imports sf), [])", OF _ a1] i0 r
    have i1: "inv_state (sf', ex)" by simp
    then have i2: "inv_state (addStatements parse sf' (cleaned_content fileContent), ex)"
      using a2 by (rule inv_state_addStatements)
    from i1 i2 r show "imports_wf (inject_content parse fileContent sf) \<and>
           imports_plain (inject_content parse fileContent sf)"
      by (auto simp: inject_content_alt Let_def dest: inv_state_wf)
  qed
  show "list_all (\<lambda>s. (getKindName s = ''ImportDeclaration'' \<longrightarrow> plain_names (statement_names s)) \<and>
                       (getKindName s \<noteq> ''ImportDeclaration'' \<longrightarrow>
                          filter is_import (parse (getText s)) = []))
             fileToInject \<longrightarrow>
           imports_wf (inject_statements parse fileToInject sf) \<and>
           imports_plain (inject_statements parse fileToInject sf)"
  proof
    assume a: "list_all (\<lambda>s. (getKindName s = ''ImportDeclaration'' \<longrightarrow> plain_names (statement_names s)) \<and>
                       (getKindName s \<noteq> ''ImportDeclaration'' \<longrightarrow>
                          filter is_import (parse (getText s)) = []))
             fileToInject"
    obtain sf' ex where r: "foldl (process_statement parse) (sf, existing_imports sf) fileToInject = (sf', ex)"
      by (metis surj_pair)
    from inv_state_foldl_process_statement[OF i0 a] r have "inv_state (sf', ex)" by simp
    with r show "imports_wf (inject_statements parse fileToInject sf) \<and>
           imports_plain (inject_statements parse fileToInject sf)"
      by (auto simp: inject_statements_def dest: inv_state_wf)
  qed
qed

text \<open>
  C1. Injection can list a named import twice in one declaration: two injected files
  that both hold \<^verbatim>\<open>import { foo as bar } from 'm';\<close>. After the first file the
  app-router file imports \<^verbatim>\<open>foo as bar\<close> from \<^verbatim>\<open>m\<close>. For the second file
  \<^verbatim>\<open>existingImports\<close> is rebuilt with \<^verbatim>\<open>getName()\<close>, which is \<^verbatim>\<open>foo\<close>, so the key
  \<^verbatim>\<open>m:foo as bar\<close> is new and \<^verbatim>\<open>foo as bar\<close> is added again, in both revisions.
\<close>

theorem injection_duplicates_aliased_import:
  "statements (inject_content parse aliased_import (inject_content parse aliased_import empty_file)) =
     [ImportDeclaration ''m'' [''foo as bar'', ''foo as bar'']] \<and>
   statements (inject_statements parse [TsStatement ''ImportDeclaration'' aliased_import]
                 (inject_statements parse [TsStatement ''ImportDeclaration'' aliased_import] empty_file)) =
     [ImportDeclaration ''m'' [''foo as bar'', ''foo as bar'']] \<and>
   \<not> imports_wf (inject_content parse aliased_import (inject_content parse aliased_import empty_file))"
  by code_simp
























text \<open>Splitting the text between the braces gives the names back.\<close>

lemma split_at_no_sep: "sep \<notin> set xs \<Longrightarrow> split_at sep xs = [xs]"
  by (induction xs) auto

lemma split_at_first:
  "sep \<notin> set xs \<Longrightarrow> split_at sep (xs @ sep # ys) = xs # split_at sep ys"
  by (induction xs) auto

lemma dropWhile_spaces_prefix:
  "list_all is_space a \<Longrightarrow> dropWhile is_space (a @ xs) = dropWhile is_space xs"
  by (induction a) simp_all

lemma dropWhile_id: "xs \<noteq> [] \<Longrightarrow> \<not> P (hd xs) \<Longrightarrow> dropWhile P xs = xs"
  by (cases xs) simp_all



































text \<open>
  C5. For a file that holds the same import statement twice, both occurrences match,
  so with every matched import statement deleted nothing is left and no statement should
  be added. The source deletes the first occurrence only (\<^verbatim>\<open>processedImports\<close> is a set
  and \<^verbatim>\<open>replace\<close> with a string replaces once): the second import statement, without
  its semicolon, is handed to \<^verbatim>\<open>addStatements\<close>, whatever the parser makes of it; read
  as TypeScript it is a second import declaration of the module.
\<close>

theorem repeated_import_is_spliced:
  "exec_all 0 repeated_import_text =
     [ImportMatch (''import { a } from 'm';'' @ newline) '' a '' ''m'',
      ImportMatch (''import { a } from 'm';'' @ newline) '' a '' ''m''] \<and>
   trim (cleanup (delete_matches 0 repeated_import_text)) = [] \<and>
   cleaned_content repeated_import_text = (''import { a } from 'm'' @ [CHR 0x27]) \<and>
   statements (inject_content parse repeated_import_text empty_file) =
     ImportDeclaration ''m'' [''a''] # parse (''import { a } from 'm'' @ [CHR 0x27]) \<and>
   statements (inject_content parse_lines repeated_import_text empty_file) =
     [ImportDeclaration ''m'' [''a''], ImportDeclaration ''m'' [''a'']]"
  by code_simp

subsection \<open>\<^verbatim>\<open>generateSchemaFile\<close>: emitting and saving the merged router\<close>

text \<open>Injection writes to the log and to the statements of the app-router file only: the
  disk and the path of the file stay as they are.\<close>

lemma disk_logger_log [simp]: "disk (logger_log m w) = disk w"
  by (simp add: logger_log_def)

lemma disk_logger_warn [simp]: "disk (logger_warn m w) = disk w"
  by (simp add: logger_warn_def)

lemma appRouterSourceFile_logger_log [simp]:
  "appRouterSourceFile (logger_log m w) = appRouterSourceFile w"
  by (simp add: logger_log_def)

lemma appRouterSourceFile_logger_warn [simp]:
  "appRouterSourceFile (logger_warn m w) = appRouterSourceFile w"
  by (simp add: logger_warn_def)

lemma filePath_addImportDeclaration [simp]:
  "filePath (addImportDeclaration sf m ns) = filePath sf"
  by (simp add: addImportDeclaration_def Let_def)

lemma filePath_addNamedImport [simp]: "filePath (addNamedImport sf m n) = filePath sf"
  by (simp add: addNamedImport_def)

lemma filePath_addStatements [simp]: "filePath (addStatements parse sf text) = filePath sf"
  by (simp add: addStatements_def)

lemma filePath_process_named_import:
  "filePath (fst (process_named_import m st n)) = filePath (fst st)"
  by (cases st) (simp add: process_named_import_def)

lemma filePath_process_named_imports:
  "filePath (fst (process_named_imports m ns st)) = filePath (fst st)"
  unfolding process_named_imports_def
  by (induction ns arbitrary: st) (simp_all add: filePath_process_named_import)

lemma filePath_process_match:
  "filePath (fst (fst (process_match st m))) = filePath (fst (fst st))"
  by (cases st) (simp add: process_match_def filePath_process_named_imports)

lemma filePath_foldl_process_match:
  "filePath (fst (fst (foldl process_match st ms))) = filePath (fst (fst st))"
  by (induction ms arbitrary: st) (simp_all add: filePath_process_match)

lemma filePath_inject_content: "filePath (inject_content parse fileContent sf) = filePath sf"
proof -
  obtain sf' ex pr where r:
    "foldl process_match ((sf, existing_imports sf), []) (exec_all 0 fileContent) = ((sf', ex), pr)"
    by (metis surj_pair)
  from filePath_foldl_process_match [of "((sf, existing_imports sf), [])" "exec_all 0 fileContent"] r
  have "filePath sf' = filePath sf" by simp
  then show ?thesis using r by (simp add: inject_content_def Let_def)
qed

lemma filePath_process_statement:
  "filePath (fst (process_statement parse st s)) = filePath (fst st)"
  by (simp add: process_statement_def Let_def filePath_process_named_imports)

lemma filePath_foldl_process_statement:
  "filePath (fst (foldl (process_statement parse) st ss)) = filePath (fst st)"
  by (induction ss arbitrary: st) (simp_all add: filePath_process_statement)

lemma filePath_inject_statements:
  "filePath (inject_statements parse fileToInject sf) = filePath sf"
  by (simp add: inject_statements_def filePath_foldl_process_statement)

lemma inject_file_keeps:
  "disk (inject_file rv e pathAliases basePath w injectPath) = disk w \<and>
   filePath (appRouterSourceFile (inject_file rv e pathAliases basePath w injectPath)) =
     filePath (appRouterSourceFile w)"
proof -
  obtain r w2 where r: "resolve_inject_path e pathAliases basePath w injectPath = (r, w2)"
    by (cases "resolve_inject_path e pathAliases basePath w injectPath")
  from resolve_inject_path_only_logs[OF r] show ?thesis
    using r by (cases rv)
      (auto simp: inject_file_def inject_file_regex_def inject_file_ast_def Let_def
            filePath_inject_content filePath_inject_statements
            split: sum.splits option.splits)
qed

lemma foldl_inject_file_keeps:
  "disk (foldl (inject_file rv e pathAliases basePath) w injectPaths) = disk w \<and>
   filePath (appRouterSourceFile (foldl (inject_file rv e pathAliases basePath) w injectPaths)) =
     filePath (appRouterSourceFile w)"
  by (induction injectPaths arbitrary: w) (simp_all add: inject_file_keeps)

lemma injectFilesContent_keeps:
  "injectFilesContent rv e filePaths w = Some w' \<Longrightarrow>
     disk w' = disk w \<and> filePath (appRouterSourceFile w') = filePath (appRouterSourceFile w)"
  by (auto simp: injectFilesContent_def inject_with_tsconfig_def foldl_inject_file_keeps
           split: option.splits prod.splits if_splits sum.splits)

lemma inject_step_keeps:
  "inject_step rv e injectFiles w = Some w' \<Longrightarrow>
     disk w' = disk w \<and> filePath (appRouterSourceFile w') = filePath (appRouterSourceFile w)"
  by (auto simp: inject_step_def dest: injectFilesContent_keeps split: option.splits if_splits)

text \<open>The injection step comes to an end when there is nothing to inject, or when the
  search for \<^verbatim>\<open>tsconfig.json\<close> does.\<close>

lemma injectFilesContent_returns:
  assumes "\<exists>n. stops_at (fs_existsSync e) (parse_root (dirname (moduleCallerFilePath e)))
                 ((dirname ^^ n) (dirname (moduleCallerFilePath e)))"
  shows "\<exists>w'. injectFilesContent rv e filePaths w = Some w'"
proof -
  from assms obtain r where
    "findTsConfigFile (fs_existsSync e) (moduleCallerFilePath e) (logs w) = Some r"
    using findTsConfigFile_returns_iff [of "fs_existsSync e" "moduleCallerFilePath e" "logs w"]
    by blast
  then show ?thesis
    by (cases r) (auto simp: injectFilesContent_def split: sum.splits)
qed

lemma inject_step_returns:
  assumes "injectFiles = None \<or> injectFiles = Some [] \<or>
           (\<exists>n. stops_at (fs_existsSync e) (parse_root (dirname (moduleCallerFilePath e)))
                  ((dirname ^^ n) (dirname (moduleCallerFilePath e))))"
  shows "\<exists>w'. inject_step rv e injectFiles w = Some w'"
proof (cases "injectFiles = None \<or> injectFiles = Some []")
  case True
  then show ?thesis by (auto simp: inject_step_def)
next
  case False
  with assms have "\<exists>n. stops_at (fs_existsSync e) (parse_root (dirname (moduleCallerFilePath e)))
                  ((dirname ^^ n) (dirname (moduleCallerFilePath e)))" by blast
  from injectFilesContent_returns[OF this] show ?thesis
    by (auto simp: inject_step_def split: option.splits)
qed

lemma emit_and_save_ok:
  assumes "serializeRouters g mapped = Inr routersMetadata"
    and "generateRoutersStringFromMetadata g routersMetadata = Inr routersStringDeclarations"
    and "fs_write_error e (filePath (appRouterSourceFile w3)) = None"
  shows "\<exists>w'. emit_and_save g e mapped w3 = (None, w') \<and>
           statements (appRouterSourceFile w') =
             statements (appRouterSourceFile w3) @
               ts_parse e (appRouter_statements routersStringDeclarations) \<and>
           filePath (appRouterSourceFile w') = filePath (appRouterSourceFile w3) \<and>
           disk w' = (disk w3)(filePath (appRouterSourceFile w3) \<mapsto>
                        statements (appRouterSourceFile w'))"
  using assms
  by (simp add: emit_and_save_def Let_def addStatements_def saveOrOverrideFile_def logger_log_def)

lemma emit_and_save_error:
  "emit_and_save g e mapped w3 = (Some error, w1) \<Longrightarrow> disk w1 = disk w3"
  by (auto simp: emit_and_save_def Let_def saveOrOverrideFile_def
           split: sum.splits option.splits)

lemma generateSchemaFile_try_error:
  assumes "generateSchemaFile_try rv e g schemaImports injectFiles w = Some (Some error, w1)"
  shows "disk w1 = disk w"
proof (cases "routerFactory_getRouters g")
  case (Inl x)
  with assms show ?thesis by (simp add: generateSchemaFile_try_def)
next
  case routers: (Inr routers)
  show ?thesis
  proof (cases "map_routes g routers")
    case (Inl x)
    with assms routers show ?thesis by (simp add: generateSchemaFile_try_def)
  next
    case (Inr mapped)
    with assms routers have a:
      "generate_after_mapping rv e g schemaImports injectFiles mapped w = Some (Some error, w1)"
      by (simp add: generateSchemaFile_try_def)
    obtain e1 sf1 where s1: "generateStaticDeclaration g (appRouterSourceFile w) = (e1, sf1)"
      by (cases "generateStaticDeclaration g (appRouterSourceFile w)")
    obtain e2 sf2 where s2: "schema_imports_step g schemaImports sf1 = (e2, sf2)"
      by (cases "schema_imports_step g schemaImports sf1")
    show ?thesis
    proof (cases "e1 = None \<and> e2 = None")
      case False
      with a s1 s2 show ?thesis
        by (cases e1; cases e2) (auto simp: generate_after_mapping_def)
    next
      case True
      with a s1 s2 obtain w3 where
        i: "inject_step rv e injectFiles (w\<lparr> appRouterSourceFile := sf2 \<rparr>) = Some w3" and
        em: "emit_and_save g e mapped w3 = (Some error, w1)"
        by (auto simp: generate_after_mapping_def split: option.splits)
      from inject_step_keeps[OF i] emit_and_save_error[OF em] show ?thesis by simp
    qed
  qed
qed

text \<open>
  The parser of the examples reads the template of \<^verbatim>\<open>generateSchemaFile\<close> as two
  statements, whatever string without a line feed stands between the braces.
\<close>

lemma trim_between:
  assumes "list_all is_space a" and "list_all is_space b"
    and "n \<noteq> []" and "\<not> is_space (hd n)" and "\<not> is_space (last n)"
  shows "trim (a @ n @ b) = n"
proof -
  have 1: "dropWhile is_space (a @ n @ b) = n @ b"
    using dropWhile_spaces_prefix [OF assms(1), of "n @ b"] assms(3,4)
    by (cases n) simp_all
  have rb: "list_all is_space (rev b)" using assms(2) by (simp add: list_all_iff)
  have "rev (n @ b) = rev b @ rev n" by simp
  then have 2: "dropWhile is_space (rev (n @ b)) = dropWhile is_space (rev n)"
    using dropWhile_spaces_prefix [OF rb, of "rev n"] by simp
  have 3: "dropWhile is_space (rev n) = rev n"
  proof (rule dropWhile_id)
    show "rev n \<noteq> []" using assms(3) by simp
    have "hd (rev n) = last n"
      using assms(3) by (induction n rule: rev_nonempty_induct) simp_all
    then show "\<not> is_space (hd (rev n))" using assms(5) by (simp only:) simp
  qed
  show ?thesis by (simp only: trim_def 1 2 3 rev_rev_ident)
qed

lemma parse_line_appRouter:
  "parse_line (''        const appRouter = t.router({'' @ s @ ''});'') =
     [Statement (''const appRouter = t.router({'' @ s @ ''});'')]"
proof -
  let ?n = "''const appRouter = t.router({'' @ s @ ''});''"
  have "last ?n = CHR '';''" by simp
  then have l: "\<not> is_space (last ?n)" by (simp only:) (simp add: is_space_def)
  have "trim (''        '' @ ?n @ []) = ?n"
    by (rule trim_between [OF _ _ _ _ l]) (simp_all add: is_space_def)
  then have t: "trim (''        const appRouter = t.router({'' @ s @ ''});'') = ?n" by simp
  have m: "match_import ?n = None"
    by (simp add: match_import_def re_lit_def)
  show ?thesis
    unfolding parse_line_def t Let_def using m by simp
qed

lemma parse_lines_appRouter_statements:
  assumes "CHR 0x0A \<notin> set s"
  shows "parse_lines (appRouter_statements s) =
           [Statement (''const appRouter = t.router({'' @ s @ ''});''),
            Statement ''export type AppRouter = typeof appRouter;'']"
proof -
  let ?l1 = "''        const appRouter = t.router({'' @ s @ ''});''"
  let ?l2 = "''        export type AppRouter = typeof appRouter;''"
  let ?l3 = "''      ''"
  have w: "appRouter_statements s = CHR 0x0A # (?l1 @ CHR 0x0A # (?l2 @ CHR 0x0A # ?l3))"
    by (simp add: appRouter_statements_def newline_def)
  have n1: "CHR 0x0A \<notin> set ?l1" using assms by simp
  have n2: "CHR 0x0A \<notin> set ?l2" by simp
  have n3: "CHR 0x0A \<notin> set ?l3" by simp
  have "split_at CHR 0x0A (appRouter_statements s) = [[], ?l1, ?l2, ?l3]"
    unfolding w
    using split_at_first [OF n1, of "?l2 @ CHR 0x0A # ?l3"]
      split_at_first [OF n2, of ?l3] split_at_no_sep [OF n3]
    by simp
  moreover have "parse_line [] = []" by code_simp
  moreover have "parse_line ?l2 = [Statement ''export type AppRouter = typeof appRouter;'']"
    by code_simp
  moreover have "parse_line ?l3 = []" by code_simp
  ultimately show ?thesis
    using parse_line_appRouter [of s] by (simp add: parse_lines_def)
qed

lemma ends_with_appRouter_parsed:
  assumes "CHR 0x0A \<notin> set s"
    and "statements sf = before @ parse_lines (appRouter_statements s)"
  shows "ends_with_appRouter sf"
  using assms(2) parse_lines_appRouter_statements [OF assms(1)]
  by (simp add: ends_with_appRouter_def suffix_def)

text \<open>
  C4, as amended. Let no step of the \<^verbatim>\<open>try\<close> block of \<^verbatim>\<open>generateSchemaFile\<close> throw: the
  router factory returns \<open>routers\<close>, the map over them returns \<open>mapped\<close>, the static
  generator and the schema imports leave the file \<open>sf2\<close>, the serializer returns for
  \<open>mapped\<close> and the string generator for its result, and writing to the path of the file
  does not fail. Let moreover the injection step come to an end: there is nothing to
  inject, or the chain of parents of the module caller file reaches a directory at which
  the search for \<^verbatim>\<open>tsconfig.json\<close> stops. Then the promise resolves; the last statements
  of the app-router file are those of
  \<^verbatim>\<open>const appRouter = t.router({...}); export type AppRouter = typeof appRouter;\<close> with
  the string made from \<open>mapped\<close>, which holds every router of the factory, between the
  braces (the statements that the parser finds in this text; with the parser that reads
  line by line and a string without a line feed, the file ends with these two
  statements); and the disk holds, at the path of the file, that file, whatever it held
  there before.

  When a step throws, nothing is written to the disk: the disk after the call is the
  disk before it, and the log has one more warning, with the exception.
\<close>

theorem merged_router_emission_when_nothing_throws:
  "(routerFactory_getRouters g = Inr routers \<and>
    map_routes g routers = Inr mapped \<and>
    generateStaticDeclaration g (appRouterSourceFile w) = (None, sf1) \<and>
    schema_imports_step g schemaImports sf1 = (None, sf2) \<and>
    (injectFiles = None \<or> injectFiles = Some [] \<or>
     (\<exists>n. stops_at (fs_existsSync e) (parse_root (dirname (moduleCallerFilePath e)))
            ((dirname ^^ n) (dirname (moduleCallerFilePath e))))) \<and>
    serializeRouters g mapped = Inr routersMetadata \<and>
    generateRoutersStringFromMetadata g routersMetadata = Inr routersStringDeclarations \<and>
    fs_write_error e (filePath sf2) = None \<longrightarrow>
    (\<exists>w' before.
       generateSchemaFile rv e g schemaImports injectFiles w = Some (Resolved, w') \<and>
       map mapped_instance mapped = routers \<and>
       statements (appRouterSourceFile w') =
         before @ ts_parse e (appRouter_statements routersStringDeclarations) \<and>
       filePath (appRouterSourceFile w') = filePath sf2 \<and>
       disk w' = (disk w)(filePath sf2 \<mapsto> statements (appRouterSourceFile w')) \<and>
       (ts_parse e = parse_lines \<and> CHR 0x0A \<notin> set routersStringDeclarations \<longrightarrow>
          ends_with_appRouter (appRouterSourceFile w')))) \<and>
   (\<forall>error w1.
      generateSchemaFile_try rv e g schemaImports injectFiles w = Some (Some error, w1) \<longrightarrow>
      disk w1 = disk w \<and>
      generateSchemaFile rv e g schemaImports injectFiles w =
        Some (Resolved,
              w1\<lparr> logs := logs w1 @ [WarnErr ''TRPC Generator encountered an error.'' error] \<rparr>))"
proof (intro conjI impI allI)
  assume a: "routerFactory_getRouters g = Inr routers \<and>
    map_routes g routers = Inr mapped \<and>
    generateStaticDeclaration g (appRouterSourceFile w) = (None, sf1) \<and>
    schema_imports_step g schemaImports sf1 = (None, sf2) \<and>
    (injectFiles = None \<or> injectFiles = Some [] \<or>
     (\<exists>n. stops_at (fs_existsSync e) (parse_root (dirname (moduleCallerFilePath e)))
            ((dirname ^^ n) (dirname (moduleCallerFilePath e))))) \<and>
    serializeRouters g mapped = Inr routersMetadata \<and>
    generateRoutersStringFromMetadata g routersMetadata = Inr routersStringDeclarations \<and>
    fs_write_error e (filePath sf2) = None"
  then have inj: "injectFiles = None \<or> injectFiles = Some [] \<or>
     (\<exists>n. stops_at (fs_existsSync e) (parse_root (dirname (moduleCallerFilePath e)))
            ((dirname ^^ n) (dirname (moduleCallerFilePath e))))" by blast
  from inject_step_returns[OF inj] obtain w3 where
    w3: "inject_step rv e injectFiles (w\<lparr> appRouterSourceFile := sf2 \<rparr>) = Some w3" by blast
  from inject_step_keeps[OF w3] have k: "disk w3 = disk w"
    "filePath (appRouterSourceFile w3) = filePath sf2" by simp_all
  from a k have wr: "fs_write_error e (filePath (appRouterSourceFile w3)) = None" by simp
  from a have ser: "serializeRouters g mapped = Inr routersMetadata"
    and gen: "generateRoutersStringFromMetadata g routersMetadata = Inr routersStringDeclarations"
    by simp_all
  from emit_and_save_ok[OF ser gen wr] obtain w' where
    em: "emit_and_save g e mapped w3 = (None, w')" and
    st: "statements (appRouterSourceFile w') =
           statements (appRouterSourceFile w3) @
             ts_parse e (appRouter_statements routersStringDeclarations)" and
    fp: "filePath (appRouterSourceFile w') = filePath (appRouterSourceFile w3)" and
    dk: "disk w' = (disk w3)(filePath (appRouterSourceFile w3) \<mapsto>
                        statements (appRouterSourceFile w'))"
    by blast
  have "generateSchemaFile_try rv e g schemaImports injectFiles w = Some (None, w')"
    using a w3 em by (simp add: generateSchemaFile_try_def generate_after_mapping_def)
  then have "generateSchemaFile rv e g schemaImports injectFiles w = Some (Resolved, w')"
    by (simp add: generateSchemaFile_def catch_and_warn_def settle_def)
  moreover from a map_routes_instances have "map mapped_instance mapped = routers" by blast
  moreover have "ts_parse e = parse_lines \<and> CHR 0x0A \<notin> set routersStringDeclarations \<longrightarrow>
          ends_with_appRouter (appRouterSourceFile w')"
    using st ends_with_appRouter_parsed
      [of routersStringDeclarations "appRouterSourceFile w'" "statements (appRouterSourceFile w3)"]
    by auto
  ultimately show "\<exists>w' before.
       generateSchemaFile rv e g schemaImports injectFiles w = Some (Resolved, w') \<and>
       map mapped_instance mapped = routers \<and>
       statements (appRouterSourceFile w') =
         before @ ts_parse e (appRouter_statements routersStringDeclarations) \<and>
       filePath (appRouterSourceFile w') = filePath sf2 \<and>
       disk w' = (disk w)(filePath sf2 \<mapsto> statements (appRouterSourceFile w')) \<and>
       (ts_parse e = parse_lines \<and> CHR 0x0A \<notin> set routersStringDeclarations \<longrightarrow>
          ends_with_appRouter (appRouterSourceFile w'))"
    using st fp dk k by auto
next
  fix error w1
  assume "generateSchemaFile_try rv e g schemaImports injectFiles w = Some (Some error, w1)"
  then show "disk w1 = disk w" by (rule generateSchemaFile_try_error)
next
  fix error w1
  assume "generateSchemaFile_try rv e g schemaImports injectFiles w = Some (Some error, w1)"
  then show "generateSchemaFile rv e g schemaImports injectFiles w =
        Some (Resolved,
              w1\<lparr> logs := logs w1 @ [WarnErr ''TRPC Generator encountered an error.'' error] \<rparr>)"
    by (simp add: generateSchemaFile_def catch_and_warn_def settle_def)
qed

text \<open>A run in the example project that injects \<^verbatim>\<open>src/zod/index.ts\<close>.\<close>

lemma example_inject_zod_content_static:
  "inject_content parse_lines example_zod_text
     \<lparr> filePath = ''/proj/src/@generated/server.ts'',
       statements = [ImportDeclaration ''@trpc/server'' [''initTRPC''],
                     ImportDeclaration ''zod'' [''z''],
                     Statement ''const t = initTRPC.create();''] \<rparr> =
   \<lparr> filePath = ''/proj/src/@generated/server.ts'',
     statements = [ImportDeclaration ''@trpc/server'' [''initTRPC''],
                   ImportDeclaration ''zod'' [''z''],
                   Statement ''const t = initTRPC.create();'',
                   Statement ''export const userSchema = z.object({})''] \<rparr>"
  by code_simp

lemma parse_lines_appRouter_example:
  "parse_lines (appRouter_statements ''UserRouter, PostRouter'') =
     [Statement ''const appRouter = t.router({UserRouter, PostRouter});'',
      Statement ''export type AppRouter = typeof appRouter;'']"
  by code_simp

lemma successful_run:
  "generateSchemaFile_try RegexRevision example_env example_generator None
       (Some [''@/zod/index.ts'']) example_world =
     Some (None,
       \<lparr> appRouterSourceFile =
           \<lparr> filePath = ''/proj/src/@generated/server.ts'',
             statements =
               [ImportDeclaration ''@trpc/server'' [''initTRPC''],
                ImportDeclaration ''zod'' [''z''],
                Statement ''const t = initTRPC.create();'',
                Statement ''export const userSchema = z.object({})'',
                Statement ''const appRouter = t.router({UserRouter, PostRouter});'',
                Statement ''export type AppRouter = typeof appRouter;''] \<rparr>,
         logs =
           [Log ''Looking for tsconfig.json starting from: /proj/src/app.module.ts'' ''Path Resolution'',
            Log ''Root directory: /'' ''Path Resolution'',
            Log ''No tsconfig.json found at: /proj/src, moving up...'' ''Path Resolution'',
            Log ''Found tsconfig.json at: /proj/tsconfig.json'' ''Path Resolution'',
            Log ''Found path aliases in tsconfig: {\"@/*\":[\"./src/*\"]}'' ''TRPC Generator'',
            Log ''Resolving file path: @/zod/index.ts'' ''TRPC Generator'',
            alias_log ''@/zod/index.ts'' ''@/*'' ''./src/*'' ''zod/index.ts'' ''./src/zod/index.ts''
              ''/proj/src/zod/index.ts'',
            Log ''Resolved path: /proj/src/zod/index.ts'' ''TRPC Generator'',
            Log ''Reading file: /proj/src/zod/index.ts'' ''TRPC Generator'',
            Log ''Successfully injected content from @/zod/index.ts (resolved to /proj/src/zod/index.ts)''
              ''TRPC Generator'',
            Log ''AppRouter has been updated successfully at \"./src/@generated/server.ts\".''
              ''TRPC Generator''],
         disk = [''/proj/src/@generated/server.ts'' \<mapsto>
               [ImportDeclaration ''@trpc/server'' [''initTRPC''],
                ImportDeclaration ''zod'' [''z''],
                Statement ''const t = initTRPC.create();'',
                Statement ''export const userSchema = z.object({})'',
                Statement ''const appRouter = t.router({UserRouter, PostRouter});'',
                Statement ''export type AppRouter = typeof appRouter;'']] \<rparr>)"
proof -
  let ?static = "\<lparr> filePath = ''/proj/src/@generated/server.ts'',
       statements = [ImportDeclaration ''@trpc/server'' [''initTRPC''],
                     ImportDeclaration ''zod'' [''z''],
                     Statement ''const t = initTRPC.create();''] \<rparr>"
  let ?lg = "[Log ''Looking for tsconfig.json starting from: /proj/src/app.module.ts'' ''Path Resolution'',
            Log ''Root directory: /'' ''Path Resolution'',
            Log ''No tsconfig.json found at: /proj/src, moving up...'' ''Path Resolution'',
            Log ''Found tsconfig.json at: /proj/tsconfig.json'' ''Path Resolution'']"
  have f: "findTsConfigFile (fs_existsSync example_env) (moduleCallerFilePath example_env) [] =
             Some (Some ''/proj/tsconfig.json'', ?lg)"
    using findTsConfigFile_example_found [of example_env "[]"]
    by simp (simp add: example_env_def)
  have d: "dirname ''/proj/tsconfig.json'' = ''/proj''"
    by (simp add: dirname_def slash_def)
  have e: "fs_readFileSync example_env ''/proj/tsconfig.json'' = Inr example_tsconfig_text"
    "JSON_parse example_env example_tsconfig_text =
      Inr (TsConfig (Some (CompilerOptions (Some [(''@/*'', [''./src/*''])]))))"
    "JSON_stringify example_env [(''@/*'', [''./src/*''])] = ''{\"@/*\":[\"./src/*\"]}''"
    "ts_parse example_env = parse_lines"
    "fs_write_error example_env ''/proj/src/@generated/server.ts'' = None"
    "process_cwd example_env = ''/proj''"
    by (simp_all add: example_env_def)
  have i: "injectFilesContent RegexRevision example_env [''@/zod/index.ts'']
             (example_world\<lparr> appRouterSourceFile := ?static \<rparr>) =
           Some (example_world\<lparr>
             appRouterSourceFile := inject_content parse_lines example_zod_text ?static,
             logs := ?lg @
               [Log ''Found path aliases in tsconfig: {\"@/*\":[\"./src/*\"]}'' ''TRPC Generator'',
                Log ''Resolving file path: @/zod/index.ts'' ''TRPC Generator'',
                alias_log ''@/zod/index.ts'' ''@/*'' ''./src/*'' ''zod/index.ts'' ''./src/zod/index.ts''
                  ''/proj/src/zod/index.ts'',
                Log ''Resolved path: /proj/src/zod/index.ts'' ''TRPC Generator'',
                Log ''Reading file: /proj/src/zod/index.ts'' ''TRPC Generator'',
                Log ''Successfully injected content from @/zod/index.ts (resolved to /proj/src/zod/index.ts)''
                  ''TRPC Generator''] \<rparr>)"
    using f e d example_inject_zod_regex
      [where sf = ?static
         and lg = "?lg @ [Log ''Found path aliases in tsconfig: {\"@/*\":[\"./src/*\"]}'' ''TRPC Generator'']"]
    by (simp add: injectFilesContent_def inject_with_tsconfig_def read_tsconfig_def
        tsconfig_paths_def inject_file_def truthy_def logger_log_def example_world_def)
  show ?thesis
    using i e example_inject_zod_content_static parse_lines_appRouter_example
    by (simp add: generateSchemaFile_try_def generate_after_mapping_def example_generator_def
        example_routers_def map_route_def schema_imports_step_def inject_step_def
        emit_and_save_def example_world_def addStatements_def saveOrOverrideFile_def
        logger_log_def Let_def)
qed

lemma example_reaches_root:
  "stops_at (fs_existsSync example_env) (parse_root (dirname (moduleCallerFilePath example_env)))
     ((dirname ^^ 1) (dirname (moduleCallerFilePath example_env)))"
  by (simp add: example_env_def stops_at_def dirname_def slash_def join_def normalize_def
      normalizeString_def isAbsolute_def)

lemma example_ends_with_appRouter:
  "ends_with_appRouter
     \<lparr> filePath = ''/proj/src/@generated/server.ts'',
       statements =
         [ImportDeclaration ''@trpc/server'' [''initTRPC''],
          ImportDeclaration ''zod'' [''z''],
          Statement ''const t = initTRPC.create();'',
          Statement ''export const userSchema = z.object({})'',
          Statement ''const appRouter = t.router({UserRouter, PostRouter});'',
          Statement ''export type AppRouter = typeof appRouter;''] \<rparr>"
  by code_simp

theorem merged_router_emission_witness:
  "generateSchemaFile RegexRevision example_env example_generator None
       (Some [''@/zod/index.ts'']) example_world =
     Some (Resolved,
       \<lparr> appRouterSourceFile =
           \<lparr> filePath = ''/proj/src/@generated/server.ts'',
             statements =
               [ImportDeclaration ''@trpc/server'' [''initTRPC''],
                ImportDeclaration ''zod'' [''z''],
                Statement ''const t = initTRPC.create();'',
                Statement ''export const userSchema = z.object({})'',
                Statement ''const appRouter = t.router({UserRouter, PostRouter});'',
                Statement ''export type AppRouter = typeof appRouter;''] \<rparr>,
         logs =
           [Log ''Looking for tsconfig.json starting from: /proj/src/app.module.ts'' ''Path Resolution'',
            Log ''Root directory: /'' ''Path Resolution'',
            Log ''No tsconfig.json found at: /proj/src, moving up...'' ''Path Resolution'',
            Log ''Found tsconfig.json at: /proj/tsconfig.json'' ''Path Resolution'',
            Log ''Found path aliases in tsconfig: {\"@/*\":[\"./src/*\"]}'' ''TRPC Generator'',
            Log ''Resolving file path: @/zod/index.ts'' ''TRPC Generator'',
            alias_log ''@/zod/index.ts'' ''@/*'' ''./src/*'' ''zod/index.ts'' ''./src/zod/index.ts''
              ''/proj/src/zod/index.ts'',
            Log ''Resolved path: /proj/src/zod/index.ts'' ''TRPC Generator'',
            Log ''Reading file: /proj/src/zod/index.ts'' ''TRPC Generator'',
            Log ''Successfully injected content from @/zod/index.ts (resolved to /proj/src/zod/index.ts)''
              ''TRPC Generator'',
            Log ''AppRouter has been updated successfully at \"./src/@generated/server.ts\".''
              ''TRPC Generator''],
         disk = [''/proj/src/@generated/server.ts'' \<mapsto>
               [ImportDeclaration ''@trpc/server'' [''initTRPC''],
                ImportDeclaration ''zod'' [''z''],
                Statement ''const t = initTRPC.create();'',
                Statement ''export const userSchema = z.object({})'',
                Statement ''const appRouter = t.router({UserRouter, PostRouter});'',
                Statement ''export type AppRouter = typeof appRouter;'']] \<rparr>) \<and>
   disk example_world ''/proj/src/@generated/server.ts'' = Some [Statement ''// stale''] \<and>
   ends_with_appRouter
     \<lparr> filePath = ''/proj/src/@generated/server.ts'',
       statements =
         [ImportDeclaration ''@trpc/server'' [''initTRPC''],
          ImportDeclaration ''zod'' [''z''],
          Statement ''const t = initTRPC.create();'',
          Statement ''export const userSchema = z.object({})'',
          Statement ''const appRouter = t.router({UserRouter, PostRouter});'',
          Statement ''export type AppRouter = typeof appRouter;''] \<rparr>"
proof -
  let ?static = "\<lparr> filePath = ''/proj/src/@generated/server.ts'',
       statements = [ImportDeclaration ''@trpc/server'' [''initTRPC''],
                     ImportDeclaration ''zod'' [''z''],
                     Statement ''const t = initTRPC.create();''] \<rparr>"
  have h: "routerFactory_getRouters example_generator = Inr example_routers \<and>
    map_routes example_generator example_routers =
      Inr [MappedRoute ''UserRouter'' ''/proj/src/user.router.ts'' (Some ''users'')
             (Route ''UserRouter'' ''/proj/src/user.router.ts'' (Some ''users'') 1) [''getUser''],
           MappedRoute ''PostRouter'' ''/proj/src/post.router.ts'' None
             (Route ''PostRouter'' ''/proj/src/post.router.ts'' None 2) [''getPost'', ''addPost'']] \<and>
    generateStaticDeclaration example_generator (appRouterSourceFile example_world) = (None, ?static) \<and>
    schema_imports_step example_generator None ?static = (None, ?static) \<and>
    (Some [''@/zod/index.ts''] = None \<or> Some [''@/zod/index.ts''] = Some [] \<or>
     (\<exists>n. stops_at (fs_existsSync example_env) (parse_root (dirname (moduleCallerFilePath example_env)))
            ((dirname ^^ n) (dirname (moduleCallerFilePath example_env))))) \<and>
    serializeRouters example_generator
      [MappedRoute ''UserRouter'' ''/proj/src/user.router.ts'' (Some ''users'')
             (Route ''UserRouter'' ''/proj/src/user.router.ts'' (Some ''users'') 1) [''getUser''],
           MappedRoute ''PostRouter'' ''/proj/src/post.router.ts'' None
             (Route ''PostRouter'' ''/proj/src/post.router.ts'' None 2) [''getPost'', ''addPost'']] =
      Inr [''UserRouter'', ''PostRouter''] \<and>
    generateRoutersStringFromMetadata example_generator [''UserRouter'', ''PostRouter''] =
      Inr ''UserRouter, PostRouter'' \<and>
    fs_write_error example_env (filePath ?static) = None"
  proof (intro conjI)
    show "Some [''@/zod/index.ts''] = None \<or> Some [''@/zod/index.ts''] = Some [] \<or>
     (\<exists>n. stops_at (fs_existsSync example_env) (parse_root (dirname (moduleCallerFilePath example_env)))
            ((dirname ^^ n) (dirname (moduleCallerFilePath example_env))))"
      using example_reaches_root by blast
  qed (simp_all add: example_generator_def example_routers_def map_route_def example_world_def
        schema_imports_step_def example_env_def)
  from merged_router_emission_when_nothing_throws
    [where rv = RegexRevision and e = example_env and g = example_generator
       and schemaImports = None and injectFiles = "Some [''@/zod/index.ts'']"
       and w = example_world, THEN conjunct1, THEN mp, OF h]
  obtain w' before where
    "generateSchemaFile RegexRevision example_env example_generator None
       (Some [''@/zod/index.ts'']) example_world = Some (Resolved, w')"
    "statements (appRouterSourceFile w') =
       before @ ts_parse example_env (appRouter_statements ''UserRouter, PostRouter'')"
    by blast
  with successful_run example_ends_with_appRouter show ?thesis
    by (simp add: generateSchemaFile_def catch_and_warn_def settle_def example_world_def)
qed

text \<open>
  C4 as stated ("for every invocation") fails: when the serializer throws, the
  \<^verbatim>\<open>catch\<close> logs a warning, the app-router file holds the static declarations only and
  the disk still holds the stale file. (From a relative module caller file path with no
  \<^verbatim>\<open>tsconfig.json\<close> to be found, a call that injects files does not even settle.)
\<close>

lemma findTsConfigFile_relative_no_files:
  "findTsConfigFile no_files ''src/app.module.ts'' lg = None"
  apply (simp add: findTsConfigFile_def Let_def)
  apply (subst findTsConfigFile_loop.simps)
  apply (simp add: no_files_def dirname_def slash_def parse_root_def isAbsolute_def
      findTsConfigFile_loop_dot_diverges)
  done

lemma relative_run:
  "generateSchemaFile rv relative_env example_generator None (Some [''@/zod/index.ts''])
     example_world = None"
  using findTsConfigFile_relative_no_files
  by (simp add: generateSchemaFile_def generateSchemaFile_try_def generate_after_mapping_def
      example_generator_def example_routers_def map_route_def schema_imports_step_def
      inject_step_def injectFilesContent_def relative_env_def example_env_def example_world_def)

theorem merged_router_emission_counterexample:
  "generateSchemaFile RegexRevision example_env failing_generator None None example_world =
     Some (Resolved,
           \<lparr> appRouterSourceFile =
               \<lparr> filePath = ''/proj/src/@generated/server.ts'',
                 statements =
                   [ImportDeclaration ''@trpc/server'' [''initTRPC''],
                    ImportDeclaration ''zod'' [''z''],
                    Statement ''const t = initTRPC.create();''] \<rparr>,
             logs = [WarnErr ''TRPC Generator encountered an error.''
                       (JsError ''Error'' ''Could not find router class declaration.'')],
             disk = [''/proj/src/@generated/server.ts'' \<mapsto> [Statement ''// stale'']] \<rparr>) \<and>
   \<not> ends_with_appRouter
       \<lparr> filePath = ''/proj/src/@generated/server.ts'',
         statements =
           [ImportDeclaration ''@trpc/server'' [''initTRPC''],
            ImportDeclaration ''zod'' [''z''],
            Statement ''const t = initTRPC.create();''] \<rparr> \<and>
   generateSchemaFile RegexRevision relative_env example_generator None (Some [''@/zod/index.ts''])
     example_world = None"
  using failing_run [of RegexRevision] relative_run [of RegexRevision]
  by (simp add: generateSchemaFile_def catch_and_warn_def settle_def example_world_def
      ends_with_appRouter_def)

end
